theory Spec2Isabelle
  imports Complex_Main
begin

section \<open>Asynchronous functions as computations that may throw\<close>

text \<open>
  The setup and teardown modules are sequences of \<^verbatim>\<open>await\<close>ed calls inside
  \<^verbatim>\<open>try { ... } catch (error) { ... }\<close>. Nothing runs concurrently, so an
  \<^verbatim>\<open>async\<close> function is a function from the state before the call to its outcome
  and the state after it. The outcome is \<open>Inl e\<close> when the function throws (its promise
  rejects with \<open>e\<close>) and \<open>Inr x\<close> when it returns \<open>x\<close>. The state survives a throw: what
  was written before the exception stays written.
\<close>

datatype exn = Error (message: string) (errno: "string option")

type_synonym ('s, 'a) io = "'s \<Rightarrow> (exn + 'a) \<times> 's"

definition ret :: "'a \<Rightarrow> ('s, 'a) io" where
  "ret x = (\<lambda>s. (Inr x, s))"

definition throw :: "exn \<Rightarrow> ('s, 'a) io" where
  "throw e = (\<lambda>s. (Inl e, s))"

definition bnd :: "('s, 'a) io \<Rightarrow> ('a \<Rightarrow> ('s, 'b) io) \<Rightarrow> ('s, 'b) io" where
  "bnd m f = (\<lambda>s. case m s of (Inl e, s') \<Rightarrow> (Inl e, s') | (Inr x, s') \<Rightarrow> f x s')"

definition seq :: "('s, 'a) io \<Rightarrow> ('s, 'b) io \<Rightarrow> ('s, 'b) io" where
  "seq m n = bnd m (\<lambda>_. n)"

definition try_catch :: "('s, 'a) io \<Rightarrow> (exn \<Rightarrow> ('s, 'a) io) \<Rightarrow> ('s, 'a) io" where
  "try_catch m h = (\<lambda>s. case m s of (Inl e, s') \<Rightarrow> h e s' | (Inr x, s') \<Rightarrow> (Inr x, s'))"

text \<open>\<^verbatim>\<open>promise.catch(() => v)\<close>: a rejection becomes the value \<open>v\<close>.\<close>

definition or_else :: "('s, 'a) io \<Rightarrow> 'a \<Rightarrow> ('s, 'a) io" where
  "or_else m v = try_catch m (\<lambda>_. ret v)"

text \<open>A statement list; the first statement that throws ends it.\<close>

fun block :: "('s, unit) io list \<Rightarrow> ('s, unit) io" where
  "block [] = ret ()"
| "block (m # ms) = seq m (block ms)"

text \<open>\<^verbatim>\<open>for (const x of xs) { body }\<close>\<close>

fun for_each :: "'a list \<Rightarrow> ('a \<Rightarrow> ('s, unit) io) \<Rightarrow> ('s, unit) io" where
  "for_each [] body = ret ()"
| "for_each (x # xs) body = seq (body x) (for_each xs body)"

section \<open>The Node.js process: environment, log, file system\<close>

text \<open>
  A log line is kept with its level, its text and, where the call passes
  \<^verbatim>\<open>{ error: error.message }\<close>, that message. The pictographs that open the
  source's messages are outside ASCII and are left out of the text; the other metadata
  (durations, timestamps, paths) is not kept. The logger itself is taken not to throw.
\<close>

datatype level = LInfo | LWarn | LError | LDebug

datatype log_entry = Log level string "string option"

text \<open>
  \<open>env\<close> is \<^verbatim>\<open>process.env\<close>, \<open>platform\<close> is \<^verbatim>\<open>process.platform\<close>, \<open>logs\<close> is what the
  logger has received, and \<open>world\<close> is everything outside the process (file system,
  browsers, child processes, clock), of which the model knows nothing.
\<close>

record 'w node =
  env :: "string \<rightharpoonup> string"
  platform :: string
  logs :: "log_entry list"
  world :: 'w

definition logger :: "level \<Rightarrow> string \<Rightarrow> string option \<Rightarrow> ('w node, unit) io" where
  "logger l m d = (\<lambda>s. (Inr (), s\<lparr>logs := logs s @ [Log l m d]\<rparr>))"

definition process_env :: "('w node, string \<rightharpoonup> string) io" where
  "process_env = (\<lambda>s. (Inr (env s), s))"

definition process_platform :: "('w node, string) io" where
  "process_platform = (\<lambda>s. (Inr (platform s), s))"

text \<open>A value that \<^verbatim>\<open>JSON.parse\<close> returns.\<close>

datatype json =
  JNull | JBool bool | JNum rat | JStr string | JArr "json list" | JObj "(string \<times> json) list"

text \<open>
  A call that leaves the process (\<^verbatim>\<open>fs.mkdir\<close>, \<^verbatim>\<open>fs.unlink\<close>, a browser launch) acts on
  \<open>world\<close> alone. What it does there, and whether it fails, is a parameter: the record
  \<open>sys\<close> below is quantified over in every theorem, so a theorem holds for every file
  system state and every failure pattern. \<open>date_now\<close> and \<open>iso_now\<close> read the clock
  (\<^verbatim>\<open>Date.now()\<close>, \<^verbatim>\<open>new Date().toISOString()\<close>); \<open>dirname\<close> is \<^verbatim>\<open>__dirname\<close>;
  \<open>isValidUrl\<close> says whether \<^verbatim>\<open>new URL(url)\<close> succeeds; \<open>JSON_parse\<close> is \<^verbatim>\<open>JSON.parse\<close>
  with \<open>None\<close> for a SyntaxError; \<open>Number_toString\<close> prints a number.
\<close>

type_synonym ('w, 'a) sysop = "'w \<Rightarrow> (exn + 'a) \<times> 'w"

definition sys_call :: "('w, 'a) sysop \<Rightarrow> ('w node, 'a) io" where
  "sys_call f = (\<lambda>s. case f (world s) of (r, w') \<Rightarrow> (r, s\<lparr>world := w'\<rparr>))"

record 'w sys =
  fs_mkdir :: "string \<Rightarrow> ('w, unit) sysop"
  fs_rmdir :: "string \<Rightarrow> ('w, unit) sysop"
  fs_unlink :: "string \<Rightarrow> ('w, unit) sysop"
  fs_readdir :: "string \<Rightarrow> ('w, string list) sysop"
  fs_copyFile :: "string \<Rightarrow> string \<Rightarrow> ('w, unit) sysop"
  fs_writeFile :: "string \<Rightarrow> ('w, unit) sysop"
  fs_readFile :: "string \<Rightarrow> ('w, string) sysop"
  fs_stat_mtime :: "string \<Rightarrow> ('w, int) sysop"
  fs_access :: "string \<Rightarrow> ('w, unit) sysop"
  execAsync :: "string \<Rightarrow> ('w, string \<times> string) sysop"
  date_now :: "'w \<Rightarrow> int"
  iso_now :: "'w \<Rightarrow> string"
  dirname :: string
  isValidUrl :: "string \<Rightarrow> bool"
  JSON_parse :: "string \<Rightarrow> json option"
  Number_toString :: "rat \<Rightarrow> string"
  browser_warmup :: "string \<Rightarrow> ('w, unit) sysop"
  browser_launch :: "('w, unit) sysop"
  page_goto :: "string \<Rightarrow> ('w, (bool \<times> nat) option) sysop"
  browser_close :: "('w, unit) sysop"

section \<open>Strings and numbers of JavaScript\<close>

fun join :: "string \<Rightarrow> string list \<Rightarrow> string" where
  "join sep [] = []"
| "join sep [x] = x"
| "join sep (x # y # ys) = x @ sep @ join sep (y # ys)"

text \<open>\<^verbatim>\<open>path.join\<close>, without the normalisation of \<^verbatim>\<open>..\<close> segments.\<close>

definition path_join :: "string list \<Rightarrow> string" where
  "path_join parts = join ''/'' parts"

text \<open>\<^verbatim>\<open>!!v\<close> for a value of \<^verbatim>\<open>process.env\<close>: unset and the empty string are falsy.\<close>

definition truthy :: "string option \<Rightarrow> bool" where
  "truthy v = (case v of None \<Rightarrow> False | Some s \<Rightarrow> s \<noteq> [])"

text \<open>\<^verbatim>\<open>v || d\<close> for a value of \<^verbatim>\<open>process.env\<close>.\<close>

definition or_default :: "string option \<Rightarrow> string \<Rightarrow> string" where
  "or_default v d = (case v of None \<Rightarrow> d | Some s \<Rightarrow> if s = [] then d else s)"

text \<open>
  A number is a rational, \<^verbatim>\<open>NaN\<close> or \<^verbatim>\<open>-Infinity\<close>. The rounding of IEEE doubles and
  the negative zero are not modelled; \<^verbatim>\<open>+Infinity\<close> is produced by none of the
  functions below.
\<close>

datatype jsnum = Fin rat | NaN | NegInfinity

definition digit_val :: "char \<Rightarrow> nat option" where
  "digit_val c =
     (let n = of_char c :: nat in
      if 48 \<le> n \<and> n \<le> 57 then Some (n - 48)
      else if 97 \<le> n \<and> n \<le> 102 then Some (n - 87)
      else if 65 \<le> n \<and> n \<le> 70 then Some (n - 55)
      else None)"

definition is_digit_in :: "nat \<Rightarrow> char \<Rightarrow> bool" where
  "is_digit_in radix c = (case digit_val c of None \<Rightarrow> False | Some d \<Rightarrow> d < radix)"

definition digits_value :: "nat \<Rightarrow> string \<Rightarrow> nat" where
  "digits_value radix ds =
     foldl (\<lambda>acc c. acc * radix + (case digit_val c of Some d \<Rightarrow> d | None \<Rightarrow> 0)) 0 ds"

text \<open>
  A string is the sequence of the bytes of its UTF-8 encoding, so an ASCII character is
  one \<open>char\<close> and any other code point is two or three. \<open>white_space\<close> lists the
  encodings of the code points that \<^verbatim>\<open>parseInt\<close> skips at the start of its argument (the
  \<^verbatim>\<open>WhiteSpace\<close> and \<^verbatim>\<open>LineTerminator\<close> of ECMAScript): U+0009 to U+000D, U+0020,
  U+00A0, U+1680, U+2000 to U+200A, U+2028, U+2029, U+202F, U+205F, U+3000 and U+FEFF.
  The byte \<^verbatim>\<open>A0\<close> on its own is no UTF-8 character; it is the no-break space in Latin-1
  and is skipped as well.
\<close>

definition white_space :: "string list" where
  "white_space =
     [[CHR 0x09], [CHR 0x0A], [CHR 0x0B], [CHR 0x0C], [CHR 0x0D], [CHR 0x20],
      [CHR 0xC2, CHR 0xA0], [CHR 0xA0],
      [CHR 0xE1, CHR 0x9A, CHR 0x80],
      [CHR 0xE2, CHR 0x80, CHR 0x80], [CHR 0xE2, CHR 0x80, CHR 0x81],
      [CHR 0xE2, CHR 0x80, CHR 0x82], [CHR 0xE2, CHR 0x80, CHR 0x83],
      [CHR 0xE2, CHR 0x80, CHR 0x84], [CHR 0xE2, CHR 0x80, CHR 0x85],
      [CHR 0xE2, CHR 0x80, CHR 0x86], [CHR 0xE2, CHR 0x80, CHR 0x87],
      [CHR 0xE2, CHR 0x80, CHR 0x88], [CHR 0xE2, CHR 0x80, CHR 0x89],
      [CHR 0xE2, CHR 0x80, CHR 0x8A],
      [CHR 0xE2, CHR 0x80, CHR 0xA8], [CHR 0xE2, CHR 0x80, CHR 0xA9],
      [CHR 0xE2, CHR 0x80, CHR 0xAF],
      [CHR 0xE2, CHR 0x81, CHR 0x9F],
      [CHR 0xE3, CHR 0x80, CHR 0x80],
      [CHR 0xEF, CHR 0xBB, CHR 0xBF]]"

text \<open>The number of bytes of the white-space character a string starts with, or 0.\<close>

definition space_length :: "string \<Rightarrow> nat" where
  "space_length s =
     (case find (\<lambda>w. take (length w) s = w) white_space of Some w \<Rightarrow> length w | None \<Rightarrow> 0)"

function trimStart :: "string \<Rightarrow> string" where
  "trimStart s = (if 0 < space_length s then trimStart (drop (space_length s) s) else s)"
  by pat_completeness auto

termination
proof (relation "measure length")
  show "wf (measure length)" by simp
next
  fix s :: string
  assume "0 < space_length s"
  moreover have "space_length [] = 0" by (simp add: space_length_def white_space_def)
  ultimately have "s \<noteq> []" by auto
  with \<open>0 < space_length s\<close> show "(drop (space_length s) s, s) \<in> measure length" by simp
qed

declare trimStart.simps [simp del]

text \<open>
  \<^verbatim>\<open>parseInt(s)\<close> without a radix: leading white space is skipped, a sign is read, a
  \<^verbatim>\<open>0x\<close> prefix selects base 16, and the longest run of digits is the value; no digit
  at all gives \<^verbatim>\<open>NaN\<close>.
\<close>

definition parseInt :: "string \<Rightarrow> jsnum" where
  "parseInt s =
     (let s1 = trimStart s;
          neg = (case s1 of c # _ \<Rightarrow> c = CHR ''-'' | [] \<Rightarrow> False);
          s2 = (case s1 of c # r \<Rightarrow> if c = CHR ''-'' \<or> c = CHR ''+'' then r else s1 | [] \<Rightarrow> s1);
          hex = (take 2 s2 = ''0x'' \<or> take 2 s2 = ''0X'');
          radix = (if hex then 16 else 10);
          ds = takeWhile (is_digit_in radix) (if hex then drop 2 s2 else s2)
      in if ds = [] then NaN
         else Fin (if neg then - of_nat (digits_value radix ds) else of_nat (digits_value radix ds)))"

definition isNaN :: "jsnum \<Rightarrow> bool" where
  "isNaN n = (n = NaN)"

text \<open>\<^verbatim>\<open>a < b\<close> and \<^verbatim>\<open>a > b\<close> on numbers: false as soon as one side is \<^verbatim>\<open>NaN\<close>.\<close>

fun js_lt :: "jsnum \<Rightarrow> jsnum \<Rightarrow> bool" where
  "js_lt (Fin a) (Fin b) = (a < b)"
| "js_lt NegInfinity (Fin b) = True"
| "js_lt _ _ = False"

definition js_gt :: "jsnum \<Rightarrow> jsnum \<Rightarrow> bool" where
  "js_gt a b = js_lt b a"

fun decimal :: "nat \<Rightarrow> string" where
  "decimal n =
     (if n < 10 then [char_of (48 + n)] else decimal (n div 10) @ [char_of (48 + n mod 10)])"

declare decimal.simps [simp del]

section \<open>Global setup\<close>

text \<open>\<^verbatim>\<open>createDirectories\<close> (global-setup.ts, lines 85-116).\<close>

definition directories :: "string list" where
  "directories = [''logs'', ''test-results'', ''test-results/reports'', ''allure-results'',
     ''allure-report'', ''screenshots'', ''videos'', ''traces'', ''downloads'', ''test-data'',
     ''config'']"

definition createDirectories :: "'w sys \<Rightarrow> ('w node, unit) io" where
  "createDirectories sys =
     block [
       logger LInfo ''Creating necessary directories'' None,
       for_each directories (\<lambda>dir.
         try_catch
           (seq (sys_call (fs_mkdir sys dir)) (logger LDebug (''Directory created: '' @ dir) None))
           (\<lambda>error.
              if errno error \<noteq> Some ''EEXIST''
              then logger LWarn (''Failed to create directory '' @ dir) (Some (message error))
              else ret ())),
       logger LInfo ''Directory structure created'' None]"

text \<open>\<^verbatim>\<open>validateEnvironment\<close> (global-setup.ts, lines 121-210).\<close>

definition requiredEnvVars :: "string list" where
  "requiredEnvVars = [''BASE_URL'', ''API_BASE_URL'', ''USERNAME'', ''PASSWORD'']"

definition numericVars :: "(string \<times> nat) list" where
  "numericVars = [(''TIMEOUT'', 1000), (''API_TIMEOUT'', 1000), (''WORKERS'', 1),
     (''VIEWPORT_WIDTH'', 320), (''VIEWPORT_HEIGHT'', 240)]"

definition validateEnvironment :: "'w sys \<Rightarrow> ('w node, unit) io" where
  "validateEnvironment sys =
     seq (logger LInfo ''Validating environment configuration'' None)
     (bnd process_env (\<lambda>penv.
        let missingVars = filter (\<lambda>envVar. \<not> truthy (penv envVar)) requiredEnvVars in
        if length missingVars > 0 then
          (let errorMessage = ''Missing required environment variables: '' @ join '', '' missingVars
           in seq (logger LError errorMessage None) (throw (Error errorMessage None)))
        else block [
          for_each [''BASE_URL'', ''API_BASE_URL''] (\<lambda>name.
            case penv name of
              Some url \<Rightarrow>
                if url \<noteq> [] \<and> \<not> isValidUrl sys url then
                  (let errorMessage = ''Invalid URL format for '' @ name @ '': '' @ url
                   in seq (logger LError errorMessage None) (throw (Error errorMessage None)))
                else ret ()
            | None \<Rightarrow> ret ()),
          for_each numericVars (\<lambda>(name, minv).
            case penv name of
              Some v \<Rightarrow>
                if v \<noteq> [] then
                  (let numValue = parseInt v in
                   if isNaN numValue \<or> js_lt numValue (Fin (of_nat minv)) then
                     (let errorMessage = ''Invalid '' @ name @ '' value: '' @ v
                            @ '' (minimum: '' @ decimal minv @ '')''
                      in seq (logger LError errorMessage None) (throw (Error errorMessage None)))
                   else ret ())
                else ret ()
            | None \<Rightarrow> ret ()),
          logger LInfo ''Environment validation passed'' None]))"

text \<open>
  \<^verbatim>\<open>setupBrowsers\<close> (lines 215-278). The launch of the selected browser, the warm-up
  page and the three \<^verbatim>\<open>close\<close> calls are the one external step \<open>browser_warmup\<close>.
\<close>

definition setupBrowsers :: "'w sys \<Rightarrow> ('w node, unit) io" where
  "setupBrowsers sys =
     seq (logger LInfo ''Setting up browser instances'' None)
     (bnd process_env (\<lambda>penv.
        let browserType = or_default (penv ''BROWSER'') ''chromium'' in
        try_catch
          (block [
             sys_call (browser_warmup sys browserType),
             logger LInfo ''Browser setup completed'' None])
          (\<lambda>error. seq (logger LError ''Failed to setup browser'' (Some (message error)))
                        (throw error))))"

text \<open>
  \<^verbatim>\<open>verifyTestSiteAvailability\<close> (lines 283-324). \<open>browser_launch\<close> is the launch of
  Chromium with a new context and page; \<open>page_goto\<close> navigates and returns \<open>None\<close> for a
  null response and otherwise \<^verbatim>\<open>response.ok()\<close> with \<^verbatim>\<open>response.status()\<close>;
  \<open>browser_close\<close> reads the title and closes page, context and browser. The status text
  of the thrown message is left out.
\<close>

definition template :: "string option \<Rightarrow> string" where
  "template v = (case v of None \<Rightarrow> ''undefined'' | Some s \<Rightarrow> s)"

definition verifyTestSiteAvailability :: "'w sys \<Rightarrow> ('w node, unit) io" where
  "verifyTestSiteAvailability sys =
     seq (logger LInfo ''Verifying test site availability'' None)
     (bnd process_env (\<lambda>penv.
        try_catch
          (seq (sys_call (browser_launch sys))
          (bnd (sys_call (page_goto sys (template (penv ''BASE_URL'')))) (\<lambda>response.
             case response of
               None \<Rightarrow> throw (Error ''Test site not available. Status: undefined'' None)
             | Some (ok, status) \<Rightarrow>
                 if \<not> ok
                 then throw (Error (''Test site not available. Status: '' @ decimal status) None)
                 else block [
                   sys_call (browser_close sys),
                   logger LInfo ''Test site verification completed'' None])))
          (\<lambda>error. seq (logger LError ''Test site verification failed'' (Some (message error)))
                        (throw error))))"

text \<open>
  \<^verbatim>\<open>verifyApplicationEndpoints\<close> (lines 329-412). \<^verbatim>\<open>endpointsToCheck\<close> has the single
  entry of the login page, with \<^verbatim>\<open>expectAuth: false\<close>, so the loop body runs once and
  \<^verbatim>\<open>loginPageAccessible\<close> is the \<^verbatim>\<open>accessible\<close> flag it computes.
\<close>

definition verifyApplicationEndpoints :: "'w sys \<Rightarrow> ('w node, unit) io" where
  "verifyApplicationEndpoints sys =
     seq (logger LInfo ''Verifying application endpoints'' None)
     (bnd process_env (\<lambda>penv.
        try_catch
          (seq (sys_call (browser_launch sys))
          (bnd
             (try_catch
                (bnd (sys_call (page_goto sys
                        (template (penv ''BASE_URL'') @ ''/web/index.php/auth/login'')))
                   (\<lambda>response.
                      let status = (case response of None \<Rightarrow> 0 | Some (ok, st) \<Rightarrow> st);
                          accessible = (status = 200)
                      in seq (logger LDebug ''Login page check'' None) (ret accessible)))
                (\<lambda>error. seq (logger LDebug ''Login page check failed'' (Some (message error)))
                              (ret False)))
             (\<lambda>loginPageAccessible. block [
                sys_call (browser_close sys),
                logger LInfo ''Application endpoints verification completed'' None,
                if \<not> loginPageAccessible
                then throw (Error ''Login page is not accessible - application may be down'' None)
                else ret ()])))
          (\<lambda>error.
             seq (logger LError ''Application endpoints verification failed'' (Some (message error)))
                 (throw error))))"

text \<open>\<^verbatim>\<open>cleanPreviousArtifacts\<close> (lines 416-461).\<close>

definition endsWith :: "string \<Rightarrow> string \<Rightarrow> bool" where
  "endsWith s suf = (length suf \<le> length s \<and> drop (length s - length suf) s = suf)"

definition artifactDirs :: "(string \<times> string list) list" where
  "artifactDirs = [
     (''test-results'', [''.json'', ''.xml'', ''.html'']),
     (''allure-results'', [''.json'', ''.txt'', ''.properties'']),
     (''screenshots'', [''.png'', ''.jpg'']),
     (''videos'', [''.webm'', ''.mp4'']),
     (''traces'', [''.zip'']),
     (''downloads'', [''.*''])]"

definition cleanPreviousArtifacts :: "'w sys \<Rightarrow> ('w node, unit) io" where
  "cleanPreviousArtifacts sys =
     block [
       logger LInfo ''Cleaning previous test artifacts'' None,
       for_each artifactDirs (\<lambda>(dir, patterns).
         try_catch
           (bnd (or_else (sys_call (fs_readdir sys dir)) []) (\<lambda>files.
              let toClean = filter (\<lambda>file.
                    list_ex (\<lambda>pattern. pattern = ''.*'' \<or> endsWith file pattern) patterns) files
              in block [
                for_each toClean (\<lambda>file. sys_call (fs_unlink sys (path_join [dir, file]))),
                if length toClean > 0
                then logger LDebug
                       (''Cleaned '' @ decimal (length toClean) @ '' files from: '' @ dir) None
                else ret ()]))
           (\<lambda>error.
              logger LWarn (''Failed to clean artifacts in '' @ dir) (Some (message error)))),
       logger LInfo ''Artifact cleanup completed'' None]"

text \<open>
  \<^verbatim>\<open>setupPerformanceMonitoring\<close> (lines 466-504) and \<^verbatim>\<open>setupTestEnvironmentInfo\<close>
  (lines 509-550). Neither has a \<^verbatim>\<open>try\<close>: a failing \<^verbatim>\<open>mkdir\<close> or \<^verbatim>\<open>writeFile\<close> leaves
  the function as an exception. The JSON text that is written is not modelled.
\<close>

definition setupPerformanceMonitoring :: "'w sys \<Rightarrow> ('w node, unit) io" where
  "setupPerformanceMonitoring sys =
     block [
       logger LInfo ''Setting up performance monitoring'' None,
       sys_call (fs_mkdir sys (path_join [dirname sys, ''../../config''])),
       sys_call (fs_writeFile sys (path_join [dirname sys, ''../../config'', ''performance.json''])),
       logger LInfo ''Performance monitoring configured'' None]"

definition setupTestEnvironmentInfo :: "'w sys \<Rightarrow> ('w node, unit) io" where
  "setupTestEnvironmentInfo sys =
     block [
       logger LInfo ''Setting up test environment information'' None,
       sys_call (fs_writeFile sys
         (path_join [dirname sys, ''../../test-results/environment-info.json''])),
       logger LInfo ''Test environment information saved'' None]"

text \<open>\<^verbatim>\<open>emergencyCleanup\<close> (lines 555-590).\<close>

definition emergencyCleanup :: "'w sys \<Rightarrow> ('w node, unit) io" where
  "emergencyCleanup sys =
     seq (logger LWarn ''Performing emergency cleanup'' None)
     (try_catch
        (block [
           for_each [''temp'', ''.temp'', ''tmp''] (\<lambda>dir.
             try_catch (sys_call (fs_rmdir sys dir)) (\<lambda>_. ret ())),
           for_each [''test-results/environment-info.json'', ''config/performance.json'']
             (\<lambda>file. try_catch (sys_call (fs_unlink sys file)) (\<lambda>_. ret ())),
           logger LInfo ''Emergency cleanup completed'' None])
        (\<lambda>error. logger LError ''Emergency cleanup failed'' (Some (message error))))"

subsection \<open>The orchestrator and its history of awaited calls\<close>

text \<open>
  \<open>awaited\<close> is a history variable: the names of the functions that \<^verbatim>\<open>globalSetup\<close> or
  \<^verbatim>\<open>globalTeardown\<close> has called, in call order. The called functions work on the
  \<open>node\<close> component and cannot write it.
\<close>

record 'w run =
  node :: "'w node"
  awaited :: "string list"

definition await :: "string \<Rightarrow> ('w node, 'a) io \<Rightarrow> ('w run, 'a) io" where
  "await name m =
     (\<lambda>r. case m (node r) of (res, n') \<Rightarrow> (res, \<lparr>node = n', awaited = awaited r @ [name]\<rparr>))"

definition in_node :: "('w node, 'a) io \<Rightarrow> ('w run, 'a) io" where
  "in_node m = (\<lambda>r. case m (node r) of (res, n') \<Rightarrow> (res, r\<lparr>node := n'\<rparr>))"

text \<open>The eight calls of the \<^verbatim>\<open>try\<close> block of \<^verbatim>\<open>globalSetup\<close> (lines 30-53), in order.\<close>

definition setup_phases :: "'w sys \<Rightarrow> (string \<times> ('w node, unit) io) list" where
  "setup_phases sys = [
     (''createDirectories'', createDirectories sys),
     (''validateEnvironment'', validateEnvironment sys),
     (''setupBrowsers'', setupBrowsers sys),
     (''verifyTestSiteAvailability'', verifyTestSiteAvailability sys),
     (''verifyApplicationEndpoints'', verifyApplicationEndpoints sys),
     (''cleanPreviousArtifacts'', cleanPreviousArtifacts sys),
     (''setupPerformanceMonitoring'', setupPerformanceMonitoring sys),
     (''setupTestEnvironmentInfo'', setupTestEnvironmentInfo sys)]"

definition await_all :: "(string \<times> ('w node, unit) io) list \<Rightarrow> ('w run, unit) io list" where
  "await_all ps = map (\<lambda>(name, m). await name m) ps"

text \<open>\<^verbatim>\<open>globalSetup\<close> (lines 20-80).\<close>

definition globalSetup :: "'w sys \<Rightarrow> ('w run, unit) io" where
  "globalSetup sys =
     seq (in_node (logger LInfo ''Starting Global Setup'' None))
     (try_catch
        (block (await_all (setup_phases sys)
                @ [in_node (logger LInfo ''Global Setup Completed Successfully'' None)]))
        (\<lambda>error. block [
           in_node (logger LError ''Global Setup Failed'' (Some (message error))),
           await ''emergencyCleanup'' (emergencyCleanup sys),
           throw error]))"

section \<open>ConfigManager\<close>

text \<open>
  \<^verbatim>\<open>Partial<Environment>\<close> (types/index.ts): each key is optional and has the type the
  interface declares for it.
\<close>

record Environment =
  BROWSER :: "string option"
  BASE_URL :: "string option"
  API_BASE_URL :: "string option"
  USERNAME :: "string option"
  PASSWORD :: "string option"
  HEADLESS :: "bool option"
  VIEWPORT_WIDTH :: "jsnum option"
  VIEWPORT_HEIGHT :: "jsnum option"
  TIMEOUT :: "jsnum option"
  API_TIMEOUT :: "jsnum option"
  WORKERS :: "jsnum option"
  ALLURE_RESULTS_DIR :: "string option"
  ALLURE_REPORT_DIR :: "string option"
  LOG_LEVEL :: "string option"
  LOG_TO_FILE :: "bool option"
  LOG_TO_CONSOLE :: "bool option"
  PAGE_LOAD_THRESHOLD :: "jsnum option"
  API_RESPONSE_THRESHOLD :: "jsnum option"
  TEST_SUITE :: "string option"

text \<open>A value of some key of \<^verbatim>\<open>Environment\<close>.\<close>

datatype jsval = Str string | Num jsnum | Bool bool

text \<open>\<^verbatim>\<open>environment[key]\<close>; \<open>None\<close> is \<^verbatim>\<open>undefined\<close>.\<close>

definition property :: "Environment \<Rightarrow> string \<Rightarrow> jsval option" where
  "property e key =
     (if key = ''BROWSER'' then map_option Str (BROWSER e)
      else if key = ''BASE_URL'' then map_option Str (BASE_URL e)
      else if key = ''API_BASE_URL'' then map_option Str (API_BASE_URL e)
      else if key = ''USERNAME'' then map_option Str (USERNAME e)
      else if key = ''PASSWORD'' then map_option Str (PASSWORD e)
      else if key = ''HEADLESS'' then map_option Bool (HEADLESS e)
      else if key = ''VIEWPORT_WIDTH'' then map_option Num (VIEWPORT_WIDTH e)
      else if key = ''VIEWPORT_HEIGHT'' then map_option Num (VIEWPORT_HEIGHT e)
      else if key = ''TIMEOUT'' then map_option Num (TIMEOUT e)
      else if key = ''API_TIMEOUT'' then map_option Num (API_TIMEOUT e)
      else if key = ''WORKERS'' then map_option Num (WORKERS e)
      else if key = ''ALLURE_RESULTS_DIR'' then map_option Str (ALLURE_RESULTS_DIR e)
      else if key = ''ALLURE_REPORT_DIR'' then map_option Str (ALLURE_REPORT_DIR e)
      else if key = ''LOG_LEVEL'' then map_option Str (LOG_LEVEL e)
      else if key = ''LOG_TO_FILE'' then map_option Bool (LOG_TO_FILE e)
      else if key = ''LOG_TO_CONSOLE'' then map_option Bool (LOG_TO_CONSOLE e)
      else if key = ''PAGE_LOAD_THRESHOLD'' then map_option Num (PAGE_LOAD_THRESHOLD e)
      else if key = ''API_RESPONSE_THRESHOLD'' then map_option Num (API_RESPONSE_THRESHOLD e)
      else if key = ''TEST_SUITE'' then map_option Str (TEST_SUITE e)
      else None)"

text \<open>\<^verbatim>\<open>!!v\<close>: \<^verbatim>\<open>undefined\<close>, the empty string, \<^verbatim>\<open>0\<close>, \<^verbatim>\<open>NaN\<close> and \<^verbatim>\<open>false\<close> are falsy.\<close>

definition num_truthy :: "jsnum \<Rightarrow> bool" where
  "num_truthy n = (n \<noteq> NaN \<and> n \<noteq> Fin 0)"

definition js_truthy :: "jsval option \<Rightarrow> bool" where
  "js_truthy v =
     (case v of None \<Rightarrow> False
      | Some (Str s) \<Rightarrow> s \<noteq> []
      | Some (Num n) \<Rightarrow> num_truthy n
      | Some (Bool b) \<Rightarrow> b)"

text \<open>
  The part of \<^verbatim>\<open>FrameworkConfig\<close> that \<^verbatim>\<open>ConfigManager\<close> reads back: the environment
  and \<^verbatim>\<open>browser.viewport\<close>.
\<close>

record FrameworkConfig =
  environment :: Environment
  viewport_width :: jsnum
  viewport_height :: jsnum

record ConfigManager =
  config :: FrameworkConfig
  environmentOverrides :: "string \<rightharpoonup> jsval"

text \<open>
  \<^verbatim>\<open>validateConfiguration\<close> (configManager.ts, lines 98-141). \<open>configuration_errors\<close> is
  the array \<^verbatim>\<open>errors\<close> as it stands at line 134.
\<close>

definition requiredVars :: "string list" where
  "requiredVars = [''BASE_URL'', ''API_BASE_URL'', ''USERNAME'', ''PASSWORD'']"

definition configuration_errors :: "(string \<Rightarrow> bool) \<Rightarrow> FrameworkConfig \<Rightarrow> string list" where
  "configuration_errors validUrl cfg =
     (let e = environment cfg in
      map (\<lambda>envVar. ''Missing required environment variable: '' @ envVar)
          (filter (\<lambda>envVar. \<not> js_truthy (property e envVar)) requiredVars)
      @ (case BASE_URL e of
           Some u \<Rightarrow> if u \<noteq> [] \<and> \<not> validUrl u then [''Invalid BASE_URL: '' @ u] else []
         | None \<Rightarrow> [])
      @ (case API_BASE_URL e of
           Some u \<Rightarrow> if u \<noteq> [] \<and> \<not> validUrl u then [''Invalid API_BASE_URL: '' @ u] else []
         | None \<Rightarrow> [])
      @ (case TIMEOUT e of
           Some t \<Rightarrow> if num_truthy t \<and> js_lt t (Fin 1000)
                     then [''TIMEOUT must be at least 1000ms''] else []
         | None \<Rightarrow> [])
      @ (case WORKERS e of
           Some w \<Rightarrow> if num_truthy w \<and> js_lt w (Fin 1)
                     then [''WORKERS must be at least 1''] else []
         | None \<Rightarrow> [])
      @ (if js_lt (viewport_width cfg) (Fin 320) \<or> js_lt (viewport_height cfg) (Fin 240)
         then [''Viewport dimensions must be at least 320x240''] else []))"

definition validateConfiguration :: "(string \<Rightarrow> bool) \<Rightarrow> FrameworkConfig \<Rightarrow> exn + unit" where
  "validateConfiguration validUrl cfg =
     (let errors = configuration_errors validUrl cfg in
      if length errors > 0
      then Inl (Error (''Configuration validation failed:'' @ [CHR 0x0A] @ join [CHR 0x0A] errors)
                  None)
      else Inr ())"

text \<open>
  \<^verbatim>\<open>get\<close>, \<^verbatim>\<open>set\<close> and \<^verbatim>\<open>clearOverrides\<close> (lines 167-195). The methods mutate
  \<^verbatim>\<open>this\<close>; the model returns the manager after the call. Their debug log lines are
  left out.
\<close>

definition ConfigManager_get :: "ConfigManager \<Rightarrow> string \<Rightarrow> exn + jsval" where
  "ConfigManager_get this key =
     (case environmentOverrides this key of
        Some overrideValue \<Rightarrow> Inr overrideValue
      | None \<Rightarrow>
          (case property (environment (config this)) key of
             None \<Rightarrow> Inl (Error (''Configuration value for '' @ [CHR 0x27] @ key @ [CHR 0x27]
                                  @ '' is not defined'') None)
           | Some configValue \<Rightarrow> Inr configValue))"

definition ConfigManager_set :: "ConfigManager \<Rightarrow> string \<Rightarrow> jsval \<Rightarrow> ConfigManager" where
  "ConfigManager_set this key v =
     this\<lparr>environmentOverrides := (environmentOverrides this)(key \<mapsto> v)\<rparr>"

definition clearOverrides :: "ConfigManager \<Rightarrow> ConfigManager" where
  "clearOverrides this = this\<lparr>environmentOverrides := Map.empty\<rparr>"

text \<open>The messages of \<^verbatim>\<open>validateConfiguration\<close> that report a missing key.\<close>

definition missing_key_message :: "string \<Rightarrow> bool" where
  "missing_key_message m =
     (take (length ''Missing required environment variable: '') m
        = ''Missing required environment variable: '')"

section \<open>Performance data from the log\<close>

text \<open>
  part_004 holds two teardown modules. The second one (lines 866-1439, "focused on
  cleanup and essential post-test tasks") is modelled under the source's names; the
  functions of the first one (lines 1-865, nine teardown steps) that differ carry the
  suffix \<open>_full\<close>.
\<close>

text \<open>
  \<^verbatim>\<open>value.key\<close> on the result of \<^verbatim>\<open>JSON.parse\<close>: reading a property of \<^verbatim>\<open>null\<close> throws
  a TypeError, an object yields the value of its last such key or \<^verbatim>\<open>undefined\<close>
  (\<open>None\<close>), and the keys read here are \<^verbatim>\<open>undefined\<close> on every other value.
\<close>

definition member :: "json \<Rightarrow> string \<Rightarrow> exn + json option" where
  "member v key =
     (case v of
        JNull \<Rightarrow> Inl (Error ''Cannot read properties of null'' None)
      | JObj kvs \<Rightarrow> Inr (map_of (rev kvs) key)
      | _ \<Rightarrow> Inr None)"

definition json_truthy :: "json option \<Rightarrow> bool" where
  "json_truthy v =
     (case v of
        None \<Rightarrow> False
      | Some JNull \<Rightarrow> False
      | Some (JBool b) \<Rightarrow> b
      | Some (JNum n) \<Rightarrow> n \<noteq> 0
      | Some (JStr s) \<Rightarrow> s \<noteq> []
      | Some _ \<Rightarrow> True)"

text \<open>\<^verbatim>\<open>s.includes(t)\<close> on strings: \<open>t\<close> occurs in \<open>s\<close> as a contiguous run.\<close>

fun str_includes :: "string \<Rightarrow> string \<Rightarrow> bool" where
  "str_includes [] t = (t = [])"
| "str_includes (c # s) t = (take (length t) (c # s) = t \<or> str_includes s t)"

text \<open>
  \<^verbatim>\<open>action.includes('API')\<close> on a parsed value: the substring test on a string, the
  element test on an array, and a TypeError on any other value, which has no such
  method.
\<close>

definition includes_API :: "json \<Rightarrow> exn + bool" where
  "includes_API action =
     (case action of
        JStr a \<Rightarrow> Inr (str_includes a ''API'')
      | JArr xs \<Rightarrow> Inr (JStr ''API'' \<in> set xs)
      | _ \<Rightarrow> Inl (Error ''logEntry.action.includes is not a function'' None))"

text \<open>\<^verbatim>\<open>s.replace(t, '')\<close> with a string pattern: the first occurrence is removed.\<close>

fun remove_first :: "string \<Rightarrow> string \<Rightarrow> string" where
  "remove_first t [] = []"
| "remove_first t (c # s) =
     (if take (length t) (c # s) = t then drop (length t) (c # s) else c # remove_first t s)"

datatype category = pageLoad | apiResponse

record perf =
  testName :: json
  type :: category
  duration :: jsnum
  timestamp :: "json option"

text \<open>
  The body of the inner \<^verbatim>\<open>try\<close> of \<^verbatim>\<open>collectPerformanceData\<close> (lines 1215-1226) after
  \<^verbatim>\<open>JSON.parse\<close>: \<open>Inl\<close> when it throws, \<open>Inr None\<close> when the \<^verbatim>\<open>if\<close> is not taken, and
  \<open>Inr (Some d)\<close> when \<open>d\<close> is pushed.
\<close>

definition performance_entry :: "json \<Rightarrow> exn + perf option" where
  "performance_entry logEntry =
     (case member logEntry ''action'' of Inl e \<Rightarrow> Inl e | Inr action \<Rightarrow>
      case member logEntry ''duration'' of Inl e \<Rightarrow> Inl e | Inr dur \<Rightarrow>
      if json_truthy action \<and> json_truthy dur then
        (case (action, dur) of
           (Some a, Some (JStr d)) \<Rightarrow>
             (case includes_API a of
                Inl e \<Rightarrow> Inl e
              | Inr api \<Rightarrow>
                  (case member logEntry ''timestamp'' of Inl e \<Rightarrow> Inl e | Inr ts \<Rightarrow>
                   Inr (Some \<lparr>testName = a,
                              type = (if api then apiResponse else pageLoad),
                              duration = parseInt (remove_first ''ms'' d),
                              timestamp = ts\<rparr>)))
         | _ \<Rightarrow> Inl (Error ''logEntry.duration.replace is not a function'' None))
      else Inr None)"

text \<open>
  The \<^verbatim>\<open>for\<close> loop of \<^verbatim>\<open>collectPerformanceData\<close> (lines 1212-1231). \<open>parse\<close> is
  \<^verbatim>\<open>JSON.parse\<close>, with \<open>None\<close> for a SyntaxError; a line that throws anywhere in the
  \<^verbatim>\<open>try\<close> is skipped.
\<close>

definition performance_marker :: string where
  "performance_marker = [CHR 0x22] @ ''type'' @ [CHR 0x22] @ '':''
                        @ [CHR 0x22] @ ''performance'' @ [CHR 0x22]"

fun performanceRecords :: "(string \<Rightarrow> json option) \<Rightarrow> string list \<Rightarrow> perf list" where
  "performanceRecords parse [] = []"
| "performanceRecords parse (line # lines) =
     (if str_includes line performance_marker then
        (case parse line of
           None \<Rightarrow> []
         | Some logEntry \<Rightarrow>
             (case performance_entry logEntry of Inr (Some d) \<Rightarrow> [d] | _ \<Rightarrow> []))
      else [])
     @ performanceRecords parse lines"

text \<open>\<^verbatim>\<open>s.split('\n')\<close>\<close>

fun split_lines :: "string \<Rightarrow> string list" where
  "split_lines [] = [[]]"
| "split_lines (c # s) =
     (if c = CHR 0x0A then [] # split_lines s
      else (case split_lines s of l # ls \<Rightarrow> (c # l) # ls | [] \<Rightarrow> [[c]]))"

text \<open>\<^verbatim>\<open>collectPerformanceData\<close> (lines 1193-1240).\<close>

definition collectPerformanceData :: "'w sys \<Rightarrow> ('w node, perf list) io" where
  "collectPerformanceData sys =
     try_catch
       (bnd (or_else (sys_call (fs_readFile sys
                (path_join [dirname sys, ''../../logs/test-execution.log'']))) [])
          (\<lambda>logContent. ret (performanceRecords (JSON_parse sys) (split_lines logContent))))
       (\<lambda>error. seq (logger LWarn ''Failed to collect performance data'' (Some (message error)))
                     (ret []))"

text \<open>Arithmetic of numbers: \<^verbatim>\<open>a + b\<close>, \<^verbatim>\<open>a / n\<close> for a positive count, \<^verbatim>\<open>Math.max\<close>.\<close>

fun js_add :: "jsnum \<Rightarrow> jsnum \<Rightarrow> jsnum" where
  "js_add (Fin a) (Fin b) = Fin (a + b)"
| "js_add NaN _ = NaN"
| "js_add _ NaN = NaN"
| "js_add NegInfinity _ = NegInfinity"
| "js_add _ NegInfinity = NegInfinity"

fun js_div_count :: "jsnum \<Rightarrow> nat \<Rightarrow> jsnum" where
  "js_div_count (Fin a) n = Fin (a / of_nat n)"
| "js_div_count NaN n = NaN"
| "js_div_count NegInfinity n = NegInfinity"

fun js_max2 :: "jsnum \<Rightarrow> jsnum \<Rightarrow> jsnum" where
  "js_max2 (Fin a) (Fin b) = Fin (max a b)"
| "js_max2 NaN _ = NaN"
| "js_max2 _ NaN = NaN"
| "js_max2 NegInfinity b = b"
| "js_max2 a NegInfinity = a"

text \<open>\<^verbatim>\<open>Math.max(...xs)\<close>: the maximum of no argument is \<^verbatim>\<open>-Infinity\<close>.\<close>

definition Math_max :: "jsnum list \<Rightarrow> jsnum" where
  "Math_max xs = foldl js_max2 NegInfinity xs"

text \<open>\<^verbatim>\<open>n || 0\<close>\<close>

definition or_zero :: "jsnum \<Rightarrow> jsnum" where
  "or_zero n = (if num_truthy n then n else Fin 0)"

text \<open>\<^verbatim>\<open>calculateAverage\<close> (lines 1245-1249).\<close>

definition calculateAverage :: "perf list \<Rightarrow> jsnum" where
  "calculateAverage data =
     (if length data = 0 then Fin 0
      else js_div_count (foldl (\<lambda>acc item. js_add acc (duration item)) (Fin 0) data)
                        (length data))"

text \<open>
  The object \<^verbatim>\<open>performanceReport\<close> that \<^verbatim>\<open>generatePerformanceSummary\<close> builds from the
  collected data and \<^verbatim>\<open>process.env\<close> (lines 1148-1165), without its timestamp.
\<close>

record performance_report =
  totalMeasurements :: nat
  averagePageLoad :: jsnum
  averageApiResponse :: jsnum
  slowestPageLoad :: jsnum
  slowestApiResponse :: jsnum
  pageLoadThreshold :: jsnum
  apiResponseThreshold :: jsnum
  violations :: "perf list"

definition performanceReport :: "(string \<rightharpoonup> string) \<Rightarrow> perf list \<Rightarrow> performance_report" where
  "performanceReport penv performanceData =
     (let pageLoadMs = parseInt (or_default (penv ''PAGE_LOAD_THRESHOLD'') ''5000'');
          apiResponseMs = parseInt (or_default (penv ''API_RESPONSE_THRESHOLD'') ''3000'')
      in \<lparr>
        totalMeasurements = length performanceData,
        averagePageLoad = calculateAverage (filter (\<lambda>d. type d = pageLoad) performanceData),
        averageApiResponse = calculateAverage (filter (\<lambda>d. type d = apiResponse) performanceData),
        slowestPageLoad =
          Math_max (map (\<lambda>d. or_zero (duration d)) (filter (\<lambda>d. type d = pageLoad) performanceData)),
        slowestApiResponse =
          Math_max (map (\<lambda>d. or_zero (duration d)) (filter (\<lambda>d. type d = apiResponse) performanceData)),
        pageLoadThreshold = pageLoadMs,
        apiResponseThreshold = apiResponseMs,
        violations = filter (\<lambda>d.
          (type d = pageLoad \<and> js_gt (duration d) pageLoadMs) \<or>
          (type d = apiResponse \<and> js_gt (duration d) apiResponseMs)) performanceData\<rparr>)"

subsection \<open>The first module's collector\<close>

text \<open>
  \<^verbatim>\<open>collectPerformanceData\<close> of the first module (lines 651-694) has no category field:
  a record carries an optional \<^verbatim>\<open>pageLoad\<close> and an optional \<^verbatim>\<open>apiResponse\<close> number.
  \<open>text_of\<close> is the conversion to a string that \<^verbatim>\<open>parseInt\<close> applies to its argument;
  how a number prints is the parameter \<open>show_number\<close> (\<open>Number_toString\<close> of \<open>sys\<close>).
\<close>

record perf_full =
  testName_full :: json
  pageLoad_full :: "jsnum option"
  apiResponse_full :: "jsnum option"
  timestamp_full :: "json option"

fun text_of :: "(rat \<Rightarrow> string) \<Rightarrow> json option \<Rightarrow> string" where
  "text_of show_number None = ''undefined''"
| "text_of show_number (Some JNull) = ''null''"
| "text_of show_number (Some (JBool b)) = (if b then ''true'' else ''false'')"
| "text_of show_number (Some (JNum n)) = show_number n"
| "text_of show_number (Some (JStr s)) = s"
| "text_of show_number (Some (JArr xs)) =
     join '','' (map (\<lambda>x. case x of JNull \<Rightarrow> [] | _ \<Rightarrow> text_of show_number (Some x)) xs)"
| "text_of show_number (Some (JObj kvs)) = ''[object Object]''"

text \<open>
  \<^verbatim>\<open>logEntry.action?.includes('API')\<close>: \<^verbatim>\<open>undefined\<close> for a missing or null action,
  else as \<open>includes_API\<close>.
\<close>

definition includes_API_opt :: "json option \<Rightarrow> exn + bool" where
  "includes_API_opt action =
     (case action of None \<Rightarrow> Inr False | Some JNull \<Rightarrow> Inr False | Some a \<Rightarrow> includes_API a)"

definition performance_entry_full :: "(rat \<Rightarrow> string) \<Rightarrow> json \<Rightarrow> exn + perf_full" where
  "performance_entry_full show_number logEntry =
     (case member logEntry ''action'' of Inl e \<Rightarrow> Inl e | Inr action \<Rightarrow>
      case member logEntry ''duration'' of Inl e \<Rightarrow> Inl e | Inr dur \<Rightarrow>
      case includes_API_opt action of Inl e \<Rightarrow> Inl e | Inr api \<Rightarrow>
      case member logEntry ''timestamp'' of Inl e \<Rightarrow> Inl e | Inr ts \<Rightarrow>
      Inr \<lparr>testName_full = (case action of
                              Some a \<Rightarrow> if json_truthy action then a else JStr ''unknown''
                            | None \<Rightarrow> JStr ''unknown''),
           pageLoad_full = (if action = Some (JStr ''Page Navigation'')
                            then Some (parseInt (text_of show_number dur)) else None),
           apiResponse_full = (if api then Some (parseInt (text_of show_number dur)) else None),
           timestamp_full = ts\<rparr>)"

fun performanceRecords_full ::
  "(rat \<Rightarrow> string) \<Rightarrow> (string \<Rightarrow> json option) \<Rightarrow> string list \<Rightarrow> perf_full list" where
  "performanceRecords_full show_number parse [] = []"
| "performanceRecords_full show_number parse (line # lines) =
     (if str_includes line performance_marker then
        (case parse line of
           None \<Rightarrow> []
         | Some logEntry \<Rightarrow>
             (case performance_entry_full show_number logEntry of Inr d \<Rightarrow> [d] | Inl _ \<Rightarrow> []))
      else [])
     @ performanceRecords_full show_number parse lines"

definition collectPerformanceData_full :: "'w sys \<Rightarrow> ('w node, perf_full list) io" where
  "collectPerformanceData_full sys =
     try_catch
       (bnd (or_else (sys_call (fs_readFile sys
                (path_join [dirname sys, ''../../logs/test-execution.log'']))) [])
          (\<lambda>logContent. ret (performanceRecords_full (Number_toString sys) (JSON_parse sys)
                                  (split_lines logContent))))
       (\<lambda>error. seq (logger LWarn ''Failed to collect performance data'' (Some (message error)))
                     (ret []))"

section \<open>Global teardown\<close>

text \<open>
  Every phase of the teardown is a function of the shape
  \<^verbatim>\<open>logger.info(start); try { body } catch (error) { logger.error(text, error.message) }\<close>.
  The statements of the \<^verbatim>\<open>try\<close> block of a phase \<open>f\<close> are the definition \<open>f_body\<close>, so
  that what a phase does when its body throws can be stated.
\<close>

text \<open>\<^verbatim>\<open>await f().catch(() => {})\<close> and other calls whose result is dropped.\<close>

definition ignore_result :: "('s, 'a) io \<Rightarrow> ('s, unit) io" where
  "ignore_result m = bnd m (\<lambda>_. ret ())"

definition lower :: "char \<Rightarrow> char" where
  "lower c = (let n = of_char c :: nat in if 65 \<le> n \<and> n \<le> 90 then char_of (n + 32) else c)"

text \<open>
  The regular expressions of \<^verbatim>\<open>processTestArtifacts\<close> (lines 948-954), such as
  \<^verbatim>\<open>/\.(png|jpg|jpeg)$/i\<close>: the name ends, in any letter case, with a dot and one of
  the extensions.
\<close>

definition extension_test :: "string list \<Rightarrow> string \<Rightarrow> bool" where
  "extension_test exts file = list_ex (\<lambda>ext. endsWith (map lower file) (''.'' @ ext)) exts"

text \<open>
  \<^verbatim>\<open>organizeArtifacts\<close> (lines 971-1006). \<open>pattern_test\<close> is \<^verbatim>\<open>pattern.test\<close>.
\<close>

definition organizeArtifacts ::
  "'w sys \<Rightarrow> string \<Rightarrow> (string \<Rightarrow> bool) \<Rightarrow> ('w node, unit) io" where
  "organizeArtifacts sys artifactType pattern_test =
     (let sourceDir = artifactType;
          targetDir = path_join [dirname sys, ''../../test-artifacts'', artifactType]
      in try_catch
           (block [
              sys_call (fs_mkdir sys targetDir),
              bnd (or_else (sys_call (fs_readdir sys sourceDir)) []) (\<lambda>files.
                for_each files (\<lambda>file.
                  if pattern_test file then
                    try_catch
                      (sys_call (fs_copyFile sys (path_join [sourceDir, file])
                                                 (path_join [targetDir, file])))
                      (\<lambda>error. logger LDebug (''Failed to copy '' @ file) (Some (message error)))
                  else ret ())),
              logger LDebug (''Organized '' @ artifactType @ '' artifacts'') None])
           (\<lambda>error. logger LWarn (''Failed to organize '' @ artifactType @ '' artifacts'')
                         (Some (message error))))"

text \<open>
  \<^verbatim>\<open>organizeArtifacts\<close> of the first module (lines 528-557): the \<^verbatim>\<open>copyFile\<close> call has
  no \<^verbatim>\<open>try\<close> of its own. \<open>pattern_test\<close> is the test of line 538.
\<close>

definition organizeArtifacts_full ::
  "'w sys \<Rightarrow> string \<Rightarrow> (string \<Rightarrow> bool) \<Rightarrow> ('w node, unit) io" where
  "organizeArtifacts_full sys artifactType pattern_test =
     (let sourceDir = artifactType;
          targetDir = path_join [dirname sys, ''../../test-artifacts'', artifactType]
      in try_catch
           (block [
              sys_call (fs_mkdir sys targetDir),
              bnd (or_else (sys_call (fs_readdir sys sourceDir)) []) (\<lambda>files.
                for_each files (\<lambda>file.
                  if pattern_test file then
                    sys_call (fs_copyFile sys (path_join [sourceDir, file])
                                              (path_join [targetDir, file]))
                  else ret ())),
              logger LDebug (''Organized '' @ artifactType @ '' artifacts'') None])
           (\<lambda>error. logger LWarn (''Failed to organize '' @ artifactType @ '' artifacts'')
                         (Some (message error))))"

text \<open>
  The test of line 538 for the patterns of lines 132-138. \<^verbatim>\<open>'**/*.png'\<close> becomes
  \<^verbatim>\<open>'.*.png'\<close> after the two \<^verbatim>\<open>replace\<close> calls, and \<^verbatim>\<open>file.match\<close> reads that as a
  regular expression: the name matches when \<^verbatim>\<open>png\<close> occurs in it after at least one
  character that is not a line terminator.
\<close>

fun regex_any_then :: "string \<Rightarrow> string \<Rightarrow> bool" where
  "regex_any_then ext [] = False"
| "regex_any_then ext (c # s) =
     ((c \<noteq> CHR 0x0A \<and> c \<noteq> CHR 0x0D \<and> take (length ext) s = ext) \<or> regex_any_then ext s)"

text \<open>\<^verbatim>\<open>copyImportantLogs\<close> (lines 1011-1036; the same at lines 562-587).\<close>

definition copyImportantLogs :: "'w sys \<Rightarrow> ('w node, unit) io" where
  "copyImportantLogs sys =
     (let logsDir = path_join [dirname sys, ''../../test-artifacts/logs''] in
      try_catch
        (block [
           sys_call (fs_mkdir sys logsDir),
           for_each [(''logs/combined.log'', ''combined.log''), (''logs/error.log'', ''error.log''),
                     (''logs/test-execution.log'', ''test-execution.log'')]
             (\<lambda>(logPath, fileName).
                try_catch (sys_call (fs_copyFile sys logPath (path_join [logsDir, fileName])))
                          (\<lambda>_. ret ()))])
        (\<lambda>error. logger LWarn ''Failed to copy important logs'' (Some (message error))))"

text \<open>\<^verbatim>\<open>processTestArtifacts\<close> (lines 940-966).\<close>

definition processTestArtifacts_body :: "'w sys \<Rightarrow> ('w node, unit) io" where
  "processTestArtifacts_body sys =
     block [
       sys_call (fs_mkdir sys (path_join [dirname sys, ''../../test-artifacts''])),
       organizeArtifacts sys ''screenshots'' (extension_test [''png'', ''jpg'', ''jpeg'']),
       organizeArtifacts sys ''videos'' (extension_test [''webm'', ''mp4'']),
       organizeArtifacts sys ''traces'' (extension_test [''zip'']),
       copyImportantLogs sys,
       logger LInfo ''Test artifacts processed'' None]"

definition processTestArtifacts :: "'w sys \<Rightarrow> ('w node, unit) io" where
  "processTestArtifacts sys =
     seq (logger LInfo ''Processing test artifacts'' None)
     (try_catch
        (processTestArtifacts_body sys)
        (\<lambda>error. logger LError ''Failed to process test artifacts'' (Some (message error))))"

text \<open>\<^verbatim>\<open>processTestArtifacts\<close> of the first module (lines 124-150).\<close>

definition processTestArtifacts_full_body :: "'w sys \<Rightarrow> ('w node, unit) io" where
  "processTestArtifacts_full_body sys =
     block [
       sys_call (fs_mkdir sys (path_join [dirname sys, ''../../test-artifacts''])),
       organizeArtifacts_full sys ''screenshots'' (regex_any_then ''png''),
       organizeArtifacts_full sys ''videos'' (regex_any_then ''webm''),
       organizeArtifacts_full sys ''traces'' (regex_any_then ''zip''),
       copyImportantLogs sys,
       logger LInfo ''Test artifacts processed'' None]"

definition processTestArtifacts_full :: "'w sys \<Rightarrow> ('w node, unit) io" where
  "processTestArtifacts_full sys =
     seq (logger LInfo ''Processing test artifacts'' None)
     (try_catch
        (processTestArtifacts_full_body sys)
        (\<lambda>error. logger LError ''Failed to process test artifacts'' (Some (message error))))"

text \<open>
  \<^verbatim>\<open>cleanupOldLogFiles\<close> (lines 1075-1097; the same at lines 624-646). \<open>fs_stat_mtime\<close>
  is \<^verbatim>\<open>fs.stat\<close> followed by \<^verbatim>\<open>mtime.getTime()\<close>.
\<close>

definition cleanupOldLogFiles :: "'w sys \<Rightarrow> ('w node, unit) io" where
  "cleanupOldLogFiles sys =
     (let logsDir = path_join [dirname sys, ''../../logs''] in
      try_catch
        (bnd (or_else (sys_call (fs_readdir sys logsDir)) []) (\<lambda>files.
         bnd (\<lambda>s. (Inr (date_now sys (world s) - 7 * 24 * 60 * 60 * 1000), s)) (\<lambda>sevenDaysAgo.
           for_each files (\<lambda>file.
             let filePath = path_join [logsDir, file] in
             bnd (or_else (bnd (sys_call (fs_stat_mtime sys filePath)) (\<lambda>t. ret (Some t))) None)
               (\<lambda>stats.
                  case stats of
                    Some mtime \<Rightarrow>
                      if mtime < sevenDaysAgo then
                        seq (sys_call (fs_unlink sys filePath))
                            (logger LDebug (''Removed old log file: '' @ file) None)
                      else ret ()
                  | None \<Rightarrow> ret ())))))
        (\<lambda>error. logger LWarn ''Failed to cleanup old log files'' (Some (message error))))"

text \<open>\<^verbatim>\<open>cleanupTemporaryFiles\<close> (lines 1041-1070; the same at lines 202-231).\<close>

definition cleanupTemporaryFiles_body :: "'w sys \<Rightarrow> ('w node, unit) io" where
  "cleanupTemporaryFiles_body sys =
     block [
       for_each [''temp'', ''.temp'', ''tmp''] (\<lambda>dir.
         try_catch
           (seq (sys_call (fs_rmdir sys dir))
                (logger LDebug (''Removed temporary directory: '' @ dir) None))
           (\<lambda>_. ret ())),
       cleanupOldLogFiles sys,
       logger LInfo ''Temporary files cleaned up'' None]"

definition cleanupTemporaryFiles :: "'w sys \<Rightarrow> ('w node, unit) io" where
  "cleanupTemporaryFiles sys =
     seq (logger LInfo ''Cleaning up temporary files'' None)
     (try_catch
        (cleanupTemporaryFiles_body sys)
        (\<lambda>error. logger LError ''Failed to cleanup temporary files'' (Some (message error))))"

text \<open>\<^verbatim>\<open>archiveLogs\<close> (lines 1102-1135; the same at lines 236-269).\<close>

definition archiveLogs_body :: "'w sys \<Rightarrow> ('w node, unit) io" where
  "archiveLogs_body sys =
     bnd (\<lambda>s. (Inr (iso_now sys (world s)), s)) (\<lambda>timestamp.
       let archiveDir = path_join [dirname sys, ''../../logs/archive''] in
       block [
         sys_call (fs_mkdir sys archiveDir),
         for_each [''combined.log'', ''error.log'', ''test-execution.log''] (\<lambda>logFile.
           try_catch
             (seq (sys_call (fs_copyFile sys
                     (path_join [dirname sys, ''../../logs'', logFile])
                     (path_join [archiveDir, timestamp @ ''-'' @ logFile])))
                  (logger LDebug (''Archived log file: '' @ logFile) None))
             (\<lambda>_. ret ())),
         logger LInfo ''Logs archived'' None])"

definition archiveLogs :: "'w sys \<Rightarrow> ('w node, unit) io" where
  "archiveLogs sys =
     seq (logger LInfo ''Archiving logs'' None)
     (try_catch
        (archiveLogs_body sys)
        (\<lambda>error. logger LError ''Failed to archive logs'' (Some (message error))))"

text \<open>\<^verbatim>\<open>cleanupBrowserProcesses\<close> (lines 1303-1327; the same at lines 371-395).\<close>

definition cleanupBrowserProcesses_body :: "'w sys \<Rightarrow> ('w node, unit) io" where
  "cleanupBrowserProcesses_body sys =
     bnd process_platform (\<lambda>pf.
       block [
         for_each
           (if pf = ''win32''
            then [''taskkill /f /im chrome.exe /t'', ''taskkill /f /im firefox.exe /t'',
                  ''taskkill /f /im msedge.exe /t'']
            else [''pkill -f '' @ [CHR 0x22] @ ''chrome|chromium'' @ [CHR 0x22],
                  ''pkill -f '' @ [CHR 0x22] @ ''firefox'' @ [CHR 0x22],
                  ''pkill -f '' @ [CHR 0x22] @ ''webkit'' @ [CHR 0x22]])
           (\<lambda>command. or_else (ignore_result (sys_call (execAsync sys command))) ()),
         logger LInfo ''Browser processes cleaned up'' None])"

definition cleanupBrowserProcesses :: "'w sys \<Rightarrow> ('w node, unit) io" where
  "cleanupBrowserProcesses sys =
     seq (logger LInfo ''Cleaning up browser processes'' None)
     (try_catch
        (cleanupBrowserProcesses_body sys)
        (\<lambda>error. logger LWarn ''Browser process cleanup completed with warnings''
                      (Some (message error))))"

text \<open>
  \<^verbatim>\<open>checkReportsGenerated\<close>, \<^verbatim>\<open>countFiles\<close> and \<^verbatim>\<open>fileExists\<close> (lines 1395-1437).
\<close>

fun checkReportsGenerated :: "'w sys \<Rightarrow> string list \<Rightarrow> ('w node, string list) io" where
  "checkReportsGenerated sys [] = ret []"
| "checkReportsGenerated sys (reportPath # reportPaths) =
     bnd (try_catch (seq (sys_call (fs_access sys reportPath)) (ret [reportPath])) (\<lambda>_. ret []))
       (\<lambda>found. bnd (checkReportsGenerated sys reportPaths) (\<lambda>more. ret (found @ more)))"

definition countFiles :: "'w sys \<Rightarrow> string \<Rightarrow> string \<Rightarrow> ('w node, nat) io" where
  "countFiles sys directory extension =
     try_catch
       (bnd (sys_call (fs_readdir sys directory))
          (\<lambda>files. ret (length (filter (\<lambda>file. endsWith file extension) files))))
       (\<lambda>_. ret 0)"

definition fileExists :: "'w sys \<Rightarrow> string \<Rightarrow> ('w node, bool) io" where
  "fileExists sys filePath =
     try_catch (seq (sys_call (fs_access sys filePath)) (ret True)) (\<lambda>_. ret False)"

text \<open>
  \<^verbatim>\<open>generateFinalSummary\<close> (lines 1332-1367). The summary object is not kept; what is
  written is not modelled.
\<close>

definition generateFinalSummary_body :: "'w sys \<Rightarrow> ('w node, unit) io" where
  "generateFinalSummary_body sys =
     block [
       ignore_result (checkReportsGenerated sys
         [''allure-report/index.html'', ''playwright-report/index.html'']),
       ignore_result (countFiles sys ''screenshots'' ''.png''),
       ignore_result (countFiles sys ''videos'' ''.webm''),
       ignore_result (countFiles sys ''traces'' ''.zip''),
       ignore_result (fileExists sys ''test-results/performance-summary.json''),
       sys_call (fs_writeFile sys (path_join [dirname sys, ''../../test-results/final-summary.json''])),
       logger LInfo ''Test Execution Complete'' None]"

definition generateFinalSummary :: "'w sys \<Rightarrow> ('w node, unit) io" where
  "generateFinalSummary sys =
     seq (logger LInfo ''Generating final summary'' None)
     (try_catch
        (generateFinalSummary_body sys)
        (\<lambda>error. logger LError ''Failed to generate final summary'' (Some (message error))))"

text \<open>\<^verbatim>\<open>basicCleanup\<close> (lines 1372-1388).\<close>

definition basicCleanup :: "'w sys \<Rightarrow> ('w node, unit) io" where
  "basicCleanup sys =
     seq (logger LInfo ''Performing basic cleanup'' None)
     (try_catch
        (bnd process_platform (\<lambda>pf.
           block [
             if pf \<noteq> ''win32''
             then or_else (ignore_result (sys_call
                    (execAsync sys (''pkill -f '' @ [CHR 0x22] @ ''chrome|chromium|firefox|webkit''
                                    @ [CHR 0x22])))) ()
             else ret (),
             logger LInfo ''Basic cleanup completed'' None]))
        (\<lambda>error. logger LError ''Basic cleanup failed'' (Some (message error))))"

text \<open>The five calls of the \<^verbatim>\<open>try\<close> block of \<^verbatim>\<open>globalTeardown\<close> (lines 889-911).\<close>

definition teardown_phases :: "'w sys \<Rightarrow> (string \<times> ('w node, unit) io) list" where
  "teardown_phases sys = [
     (''processTestArtifacts'', processTestArtifacts sys),
     (''cleanupTemporaryFiles'', cleanupTemporaryFiles sys),
     (''archiveLogs'', archiveLogs sys),
     (''cleanupBrowserProcesses'', cleanupBrowserProcesses sys),
     (''generateFinalSummary'', generateFinalSummary sys)]"

text \<open>\<^verbatim>\<open>globalTeardown\<close> (lines 882-935).\<close>

definition globalTeardown :: "'w sys \<Rightarrow> ('w run, unit) io" where
  "globalTeardown sys =
     seq (in_node (logger LInfo ''Starting Global Teardown'' None))
     (try_catch
        (block (await_all (teardown_phases sys)
                @ [in_node (logger LInfo ''Global Teardown Completed Successfully'' None)]))
        (\<lambda>error. block [
           in_node (logger LError ''Global Teardown Failed'' (Some (message error))),
           await ''basicCleanup'' (basicCleanup sys)]))"

subsection \<open>The first module's teardown\<close>

text \<open>
  \<^verbatim>\<open>collectTestResults\<close> (lines 475-523). The counts it reads are only written back
  into reports and are not kept.
\<close>

definition collectTestResults :: "'w sys \<Rightarrow> ('w node, unit) io" where
  "collectTestResults sys =
     try_catch
       (block [
          ignore_result
            (or_else
               (bnd (sys_call (fs_readFile sys ''test-results/results.json'')) (\<lambda>data.
                  case JSON_parse sys data of
                    None \<Rightarrow> throw (Error ''Unexpected token in JSON'' None)
                  | Some playwrightResults \<Rightarrow> ret (Some playwrightResults)))
               None),
          try_catch
            (seq (sys_call (fs_access sys ''test-results/junit.xml''))
                 (logger LDebug ''JUnit results file found'' None))
            (\<lambda>_. logger LDebug ''No JUnit results file found'' None)])
       (\<lambda>error. logger LWarn ''Failed to collect complete test results'' (Some (message error)))"

text \<open>\<^verbatim>\<open>generateTestExecutionReport\<close> (lines 80-119).\<close>

definition generateTestExecutionReport_body :: "'w sys \<Rightarrow> ('w node, unit) io" where
  "generateTestExecutionReport_body sys =
     (let reportsDir = path_join [dirname sys, ''../../test-results/reports''] in
      block [
        collectTestResults sys,
        sys_call (fs_mkdir sys reportsDir),
        sys_call (fs_writeFile sys (path_join [reportsDir, ''execution-report.html''])),
        sys_call (fs_writeFile sys (path_join [reportsDir, ''execution-report.json''])),
        logger LInfo ''Test execution report generated'' None])"

definition generateTestExecutionReport :: "'w sys \<Rightarrow> ('w node, unit) io" where
  "generateTestExecutionReport sys =
     seq (logger LInfo ''Generating test execution report'' None)
     (try_catch
        (generateTestExecutionReport_body sys)
        (\<lambda>error. logger LError ''Failed to generate test execution report''
                      (Some (message error))))"

text \<open>\<^verbatim>\<open>generateAllureTrends\<close> (lines 592-619) and \<^verbatim>\<open>generateAllureReport\<close> (lines 155-197).\<close>

definition generateAllureTrends :: "'w sys \<Rightarrow> ('w node, unit) io" where
  "generateAllureTrends sys =
     (let trendsDir = path_join [dirname sys, ''../../allure-report/history''] in
      try_catch
        (block [
           sys_call (fs_mkdir sys trendsDir),
           sys_call (fs_writeFile sys (path_join [trendsDir, ''trends.json'']))])
        (\<lambda>error. logger LWarn ''Failed to generate Allure trends'' (Some (message error))))"

definition generateAllureReport_body :: "'w sys \<Rightarrow> ('w node, unit) io" where
  "generateAllureReport_body sys =
     bnd process_env (\<lambda>penv.
       let allureResultsDir = or_default (penv ''ALLURE_RESULTS_DIR'') ''allure-results'';
           allureReportDir = or_default (penv ''ALLURE_REPORT_DIR'') ''allure-report''
       in bnd (or_else (sys_call (fs_readdir sys allureResultsDir)) []) (\<lambda>resultFiles.
            if length resultFiles = 0 then
              logger LWarn ''No Allure results found to generate report'' None
            else
              bnd (sys_call (execAsync sys
                     (''npx allure generate '' @ allureResultsDir @ '' --clean -o ''
                      @ allureReportDir)))
                (\<lambda>(stdout, stderr). block [
                   if stderr \<noteq> [] \<and> \<not> str_includes stderr ''WARNING''
                   then logger LWarn ''Allure generation warnings'' None else ret (),
                   generateAllureTrends sys,
                   logger LInfo ''Allure report generated'' None])))"

definition generateAllureReport :: "'w sys \<Rightarrow> ('w node, unit) io" where
  "generateAllureReport sys =
     bnd process_env (\<lambda>penv.
       if \<not> truthy (penv ''ALLURE_RESULTS_DIR'') then
         logger LInfo ''Allure report generation skipped (not configured)'' None
       else
         seq (logger LInfo ''Generating Allure report'' None)
         (try_catch
            (generateAllureReport_body sys)
            (\<lambda>error. logger LError ''Failed to generate Allure report''
                          (Some (message error)))))"

text \<open>
  \<^verbatim>\<open>generatePerformanceSummary\<close> of the first module (lines 274-322). Its report is
  computed from the collected data without a call that can throw, and is not kept.
\<close>

definition generatePerformanceSummary_full_body :: "'w sys \<Rightarrow> ('w node, unit) io" where
  "generatePerformanceSummary_full_body sys =
     (let reportsDir = path_join [dirname sys, ''../../test-results/reports''] in
      block [
        ignore_result (collectPerformanceData_full sys),
        sys_call (fs_mkdir sys reportsDir),
        sys_call (fs_writeFile sys (path_join [reportsDir, ''performance-summary.json''])),
        logger LInfo ''Performance summary generated'' None])"

definition generatePerformanceSummary_full :: "'w sys \<Rightarrow> ('w node, unit) io" where
  "generatePerformanceSummary_full sys =
     seq (logger LInfo ''Generating performance summary'' None)
     (try_catch
        (generatePerformanceSummary_full_body sys)
        (\<lambda>error. logger LError ''Failed to generate performance summary''
                      (Some (message error))))"

text \<open>
  \<^verbatim>\<open>sendNotifications\<close> of the first module (lines 327-366), with
  \<^verbatim>\<open>collectTestSummary\<close> and the three placeholder senders (lines 707-747).
\<close>

definition sendNotifications_full_body :: "'w sys \<Rightarrow> ('w node, unit) io" where
  "sendNotifications_full_body sys =
     bnd process_env (\<lambda>penv.
       let email = (penv ''EMAIL_NOTIFICATIONS'' = Some ''true'');
           slack = (penv ''SLACK_NOTIFICATIONS'' = Some ''true'');
           teams = (penv ''TEAMS_NOTIFICATIONS'' = Some ''true'')
       in if \<not> email \<and> \<not> slack \<and> \<not> teams then
            logger LInfo ''No notifications configured'' None
          else block [
            collectTestResults sys,
            if email then logger LInfo ''Email notification would be sent here'' None
            else ret (),
            if slack then logger LInfo ''Slack notification would be sent here'' None
            else ret (),
            if teams then logger LInfo ''Teams notification would be sent here'' None
            else ret (),
            logger LInfo ''Notifications processed'' None])"

definition sendNotifications_full :: "'w sys \<Rightarrow> ('w node, unit) io" where
  "sendNotifications_full sys =
     seq (logger LInfo ''Processing notifications'' None)
     (try_catch
        (sendNotifications_full_body sys)
        (\<lambda>error. logger LError ''Failed to send notifications'' (Some (message error))))"

text \<open>\<^verbatim>\<open>generateFinalSummary\<close> of the first module (lines 400-443).\<close>

definition generateFinalSummary_full_body :: "'w sys \<Rightarrow> ('w node, unit) io" where
  "generateFinalSummary_full_body sys =
     block [
       collectTestResults sys,
       ignore_result (collectPerformanceData_full sys),
       ignore_result (checkReportsGenerated sys
         [''test-results/reports/execution-report.html'', ''allure-report/index.html'',
          ''playwright-report/index.html'']),
       ignore_result (countFiles sys ''screenshots'' ''.png''),
       ignore_result (countFiles sys ''videos'' ''.webm''),
       ignore_result (countFiles sys ''traces'' ''.zip''),
       sys_call (fs_writeFile sys (path_join [dirname sys, ''../../test-results/final-summary.json''])),
       logger LInfo ''Test Execution Complete'' None]"

definition generateFinalSummary_full :: "'w sys \<Rightarrow> ('w node, unit) io" where
  "generateFinalSummary_full sys =
     seq (logger LInfo ''Generating final summary'' None)
     (try_catch
        (generateFinalSummary_full_body sys)
        (\<lambda>error. logger LError ''Failed to generate final summary'' (Some (message error))))"

text \<open>\<^verbatim>\<open>basicCleanup\<close> of the first module (lines 448-468).\<close>

definition basicCleanup_full :: "'w sys \<Rightarrow> ('w node, unit) io" where
  "basicCleanup_full sys =
     seq (logger LInfo ''Performing basic cleanup'' None)
     (try_catch
        (bnd process_platform (\<lambda>pf.
           block [
             or_else (sys_call (fs_unlink sys ''auth/state.json'')) (),
             or_else (sys_call (fs_unlink sys ''auth/cookies.json'')) (),
             if pf \<noteq> ''win32''
             then or_else (ignore_result (sys_call
                    (execAsync sys (''pkill -f '' @ [CHR 0x22] @ ''chrome|chromium|firefox|webkit''
                                    @ [CHR 0x22])))) ()
             else ret (),
             logger LInfo ''Basic cleanup completed'' None]))
        (\<lambda>error. logger LError ''Basic cleanup failed'' (Some (message error))))"

text \<open>The nine calls of the \<^verbatim>\<open>try\<close> block of the first \<^verbatim>\<open>globalTeardown\<close> (lines 25-51).\<close>

definition teardown_phases_full :: "'w sys \<Rightarrow> (string \<times> ('w node, unit) io) list" where
  "teardown_phases_full sys = [
     (''generateTestExecutionReport'', generateTestExecutionReport sys),
     (''processTestArtifacts'', processTestArtifacts_full sys),
     (''generateAllureReport'', generateAllureReport sys),
     (''cleanupTemporaryFiles'', cleanupTemporaryFiles sys),
     (''archiveLogs'', archiveLogs sys),
     (''generatePerformanceSummary'', generatePerformanceSummary_full sys),
     (''sendNotifications'', sendNotifications_full sys),
     (''cleanupBrowserProcesses'', cleanupBrowserProcesses sys),
     (''generateFinalSummary'', generateFinalSummary_full sys)]"

text \<open>\<^verbatim>\<open>globalTeardown\<close> of the first module (lines 18-75).\<close>

definition globalTeardown_full :: "'w sys \<Rightarrow> ('w run, unit) io" where
  "globalTeardown_full sys =
     seq (in_node (logger LInfo ''Starting Global Teardown'' None))
     (try_catch
        (block (await_all (teardown_phases_full sys)
                @ [in_node (logger LInfo ''Global Teardown Completed Successfully'' None)]))
        (\<lambda>error. block [
           in_node (logger LError ''Global Teardown Failed'' (Some (message error))),
           await ''basicCleanup'' (basicCleanup_full sys)]))"

section \<open>ApiHelper.waitForEndpoint\<close>

text \<open>
  \<^verbatim>\<open>waitForEndpoint\<close> (part_002, lines 1248-1282) reads the clock, so the clock is part
  of the model. Time is in milliseconds. \<open>check k\<close> is the \<open>k\<close>-th call of
  \<^verbatim>\<open>this.get(endpoint)\<close>, counted from 0: its outcome (an exception or the status of the
  response) and the time by which \<^verbatim>\<open>Date.now()\<close> has moved when the call is over.
  \<open>overshoot k\<close> is the difference between the time measured across the \<open>k\<close>-th
  \<^verbatim>\<open>setTimeout\<close> and its interval. Both are integers: nothing in the code makes the
  clock advance by a whole interval for each sleep, a timer may be measured short, and
  the wall clock may be set back. The logger takes no time.

  The loop runs for as long as the clock allows, so it is a partial function; the
  result of a run that ends is the returned boolean with the number of calls made.
\<close>

definition available :: "(exn + nat) \<Rightarrow> bool" where
  "available outcome = (case outcome of Inr status \<Rightarrow> status < 500 | Inl _ \<Rightarrow> False)"

partial_function (option) poll ::
  "(nat \<Rightarrow> (exn + nat) \<times> int) \<Rightarrow> (nat \<Rightarrow> int) \<Rightarrow> int \<Rightarrow> int \<Rightarrow> int \<Rightarrow> int \<Rightarrow> nat
   \<Rightarrow> (bool \<times> nat) option" where
  "poll check overshoot timeout interval startTime now k =
     (if now - startTime < timeout then
        (if available (fst (check k)) then Some (True, Suc k)
         else poll check overshoot timeout interval startTime
                (now + snd (check k) + interval + overshoot k) (Suc k))
      else Some (False, k))"

definition waitForEndpoint ::
  "(nat \<Rightarrow> (exn + nat) \<times> int) \<Rightarrow> (nat \<Rightarrow> int) \<Rightarrow> int \<Rightarrow> int \<Rightarrow> int \<Rightarrow> (bool \<times> nat) option" where
  "waitForEndpoint check overshoot startTime timeout interval =
     poll check overshoot timeout interval startTime startTime 0"


section \<open>What validateEnvironment reports\<close>

text \<open>
  The outcome of \<^verbatim>\<open>validateEnvironment\<close> written as a function of \<^verbatim>\<open>process.env\<close>, for
  comparison with the code. \<open>url_error\<close> and \<open>numeric_error\<close> give the message for one
  variable, when its value is a violation; \<open>first_violation\<close> is the single error of a
  validation: all missing keys together, or else the first URL error, or else the
  first numeric error.
\<close>

definition url_error :: "'w sys \<Rightarrow> (string \<rightharpoonup> string) \<Rightarrow> string \<Rightarrow> string option" where
  "url_error sys penv name =
     (case penv name of
        Some url \<Rightarrow>
          if url \<noteq> [] \<and> \<not> isValidUrl sys url
          then Some (''Invalid URL format for '' @ name @ '': '' @ url) else None
      | None \<Rightarrow> None)"

definition numeric_error :: "(string \<rightharpoonup> string) \<Rightarrow> string \<times> nat \<Rightarrow> string option" where
  "numeric_error penv = (\<lambda>(name, minv).
     case penv name of
       Some v \<Rightarrow>
         if v \<noteq> [] \<and> (isNaN (parseInt v) \<or> js_lt (parseInt v) (Fin (of_nat minv)))
         then Some (''Invalid '' @ name @ '' value: '' @ v @ '' (minimum: '' @ decimal minv @ '')'')
         else None
     | None \<Rightarrow> None)"

definition first_violation :: "'w sys \<Rightarrow> (string \<rightharpoonup> string) \<Rightarrow> exn + unit" where
  "first_violation sys penv =
     (case filter (\<lambda>envVar. \<not> truthy (penv envVar)) requiredEnvVars of
        m # ms \<Rightarrow>
          Inl (Error (''Missing required environment variables: '' @ join '', '' (m # ms)) None)
      | [] \<Rightarrow>
         (case List.map_filter (url_error sys penv) [''BASE_URL'', ''API_BASE_URL''] of
            msg # _ \<Rightarrow> Inl (Error msg None)
          | [] \<Rightarrow>
             (case List.map_filter (numeric_error penv) numericVars of
                msg # _ \<Rightarrow> Inl (Error msg None)
              | [] \<Rightarrow> Inr ())))"

section \<open>A concrete system for running the model\<close>

definition sys_ok :: "unit sys" where
  "sys_ok = \<lparr>
     fs_mkdir = (\<lambda>_ w. (Inr (), w)),
     fs_rmdir = (\<lambda>_ w. (Inr (), w)),
     fs_unlink = (\<lambda>_ w. (Inr (), w)),
     fs_readdir = (\<lambda>_ w. (Inr [], w)),
     fs_copyFile = (\<lambda>_ _ w. (Inr (), w)),
     fs_writeFile = (\<lambda>_ w. (Inr (), w)),
     fs_readFile = (\<lambda>_ w. (Inr [], w)),
     fs_stat_mtime = (\<lambda>_ w. (Inr 0, w)),
     fs_access = (\<lambda>_ w. (Inr (), w)),
     execAsync = (\<lambda>_ w. (Inr ([], []), w)),
     date_now = (\<lambda>_. 0),
     iso_now = (\<lambda>_. ''2025-01-01T00-00-00-000Z''),
     dirname = ''/repo/src/setup'',
     isValidUrl = (\<lambda>_. True),
     JSON_parse = (\<lambda>_. None),
     Number_toString = (\<lambda>_. []),
     browser_warmup = (\<lambda>_ w. (Inr (), w)),
     browser_launch = (\<lambda>w. (Inr (), w)),
     page_goto = (\<lambda>_ w. (Inr (Some (True, 200)), w)),
     browser_close = (\<lambda>w. (Inr (), w))\<rparr>"

definition node0 :: "unit node" where
  "node0 = \<lparr>env = Map.empty, platform = ''linux'', logs = [], world = ()\<rparr>"

definition run0 :: "unit run" where
  "run0 = \<lparr>node = node0, awaited = []\<rparr>"

definition missing_all :: exn where
  "missing_all = Error ''Missing required environment variables: BASE_URL, API_BASE_URL, USERNAME, PASSWORD'' None"


text \<open>The configuration that \<^verbatim>\<open>loadConfiguration\<close> builds when no variable is set.\<close>

definition default_environment :: Environment where
  "default_environment = \<lparr>
     BROWSER = Some ''chromium'',
     BASE_URL = Some ''https://opensource-demo.orangehrmlive.com'',
     API_BASE_URL = Some ''https://opensource-demo.orangehrmlive.com/web/api/v1'',
     USERNAME = Some ''Admin'',
     PASSWORD = Some ''admin123'',
     HEADLESS = Some False,
     VIEWPORT_WIDTH = Some (Fin 1280),
     VIEWPORT_HEIGHT = Some (Fin 720),
     TIMEOUT = Some (Fin 30000),
     API_TIMEOUT = Some (Fin 10000),
     WORKERS = Some (Fin 4),
     ALLURE_RESULTS_DIR = Some ''allure-results'',
     ALLURE_REPORT_DIR = Some ''allure-report'',
     LOG_LEVEL = Some ''info'',
     LOG_TO_FILE = Some False,
     LOG_TO_CONSOLE = Some False,
     PAGE_LOAD_THRESHOLD = Some (Fin 5000),
     API_RESPONSE_THRESHOLD = Some (Fin 3000),
     TEST_SUITE = Some ''all''\<rparr>"

definition default_manager :: ConfigManager where
  "default_manager = \<lparr>
     config = \<lparr>environment = default_environment,
               viewport_width = Fin 1280, viewport_height = Fin 720\<rparr>,
     environmentOverrides = Map.empty\<rparr>"

text \<open>A system whose file system refuses every \<^verbatim>\<open>mkdir\<close>.\<close>

definition eacces :: exn where
  "eacces = Error ''EACCES: permission denied'' (Some ''EACCES'')"

definition sys_readonly :: "unit sys" where
  "sys_readonly = sys_ok\<lparr>fs_mkdir := (\<lambda>_ w. (Inl eacces, w))\<rparr>"

text \<open>A system whose disk is full: every \<^verbatim>\<open>writeFile\<close> fails.\<close>

definition enospc :: exn where
  "enospc = Error ''ENOSPC: no space left on device'' (Some ''ENOSPC'')"

definition sys_disk_full :: "unit sys" where
  "sys_disk_full = sys_ok\<lparr>fs_writeFile := (\<lambda>_ w. (Inl enospc, w))\<rparr>"

text \<open>
  A system with one Allure result file and no \<^verbatim>\<open>npx\<close>: the child process fails. The
  process that runs on it has \<^verbatim>\<open>ALLURE_RESULTS_DIR\<close> set.
\<close>

definition enoent :: exn where
  "enoent = Error ''spawn npx ENOENT'' (Some ''ENOENT'')"

definition sys_no_npx :: "unit sys" where
  "sys_no_npx = sys_ok\<lparr>fs_readdir := (\<lambda>_ w. (Inr [''result.json''], w)),
                        execAsync := (\<lambda>_ w. (Inl enoent, w))\<rparr>"

definition node_allure :: "unit node" where
  "node_allure = node0\<lparr>env := [''ALLURE_RESULTS_DIR'' \<mapsto> ''allure-results'']\<rparr>"

text \<open>
  The entries of the history that stand for phases: every awaited call but the cleanup
  fallbacks of the \<^verbatim>\<open>catch\<close> blocks.
\<close>

definition phase_ledger :: "'w run \<Rightarrow> string list" where
  "phase_ledger r =
     filter (\<lambda>name. name \<noteq> ''emergencyCleanup'' \<and> name \<noteq> ''basicCleanup'') (awaited r)"

text \<open>
  A system that records the source path of every successful \<^verbatim>\<open>copyFile\<close> in its
  world. The directory \<^verbatim>\<open>screenshots\<close> holds \<^verbatim>\<open>a.png\<close> and \<^verbatim>\<open>b.png\<close>, and the copy of
  \<^verbatim>\<open>a.png\<close> fails.
\<close>

definition sys_copyfail :: "string list sys" where
  "sys_copyfail = \<lparr>
     fs_mkdir = (\<lambda>_ w. (Inr (), w)),
     fs_rmdir = (\<lambda>_ w. (Inr (), w)),
     fs_unlink = (\<lambda>_ w. (Inr (), w)),
     fs_readdir = (\<lambda>dir w. (Inr (if dir = ''screenshots'' then [''a.png'', ''b.png''] else []), w)),
     fs_copyFile = (\<lambda>src _ w. if src = ''screenshots/a.png'' then (Inl enospc, w)
                               else (Inr (), w @ [src])),
     fs_writeFile = (\<lambda>_ w. (Inr (), w)),
     fs_readFile = (\<lambda>_ w. (Inr [], w)),
     fs_stat_mtime = (\<lambda>_ w. (Inr 0, w)),
     fs_access = (\<lambda>_ w. (Inr (), w)),
     execAsync = (\<lambda>_ w. (Inr ([], []), w)),
     date_now = (\<lambda>_. 0),
     iso_now = (\<lambda>_. ''2025-01-01T00-00-00-000Z''),
     dirname = ''/repo/src/setup'',
     isValidUrl = (\<lambda>_. True),
     JSON_parse = (\<lambda>_. None),
     Number_toString = (\<lambda>_. []),
     browser_warmup = (\<lambda>_ w. (Inr (), w)),
     browser_launch = (\<lambda>w. (Inr (), w)),
     page_goto = (\<lambda>_ w. (Inr (Some (True, 200)), w)),
     browser_close = (\<lambda>w. (Inr (), w))\<rparr>"

definition nothing_copied :: "string list node" where
  "nothing_copied = \<lparr>env = Map.empty, platform = ''linux'', logs = [], world = []\<rparr>"

text \<open>
  Two lines of \<^verbatim>\<open>logs/test-execution.log\<close> and what \<^verbatim>\<open>JSON.parse\<close> returns for them.
\<close>

definition dq :: string where
  "dq = [CHR 0x22]"

definition login_line :: string where
  "login_line = ''{'' @ dq @ ''type'' @ dq @ '':'' @ dq @ ''performance'' @ dq @ '',''
     @ dq @ ''action'' @ dq @ '':'' @ dq @ ''Login'' @ dq @ '',''
     @ dq @ ''duration'' @ dq @ '':'' @ dq @ ''120ms'' @ dq @ ''}''"

definition api_line :: string where
  "api_line = ''{'' @ dq @ ''type'' @ dq @ '':'' @ dq @ ''performance'' @ dq @ '',''
     @ dq @ ''action'' @ dq @ '':'' @ dq @ ''API GET /users'' @ dq @ '',''
     @ dq @ ''duration'' @ dq @ '':'' @ dq @ ''80ms'' @ dq @ ''}''"

definition sample_parse :: "string \<Rightarrow> json option" where
  "sample_parse line =
     (if line = login_line then
        Some (JObj [(''type'', JStr ''performance''), (''action'', JStr ''Login''),
                    (''duration'', JStr ''120ms'')])
      else if line = api_line then
        Some (JObj [(''type'', JStr ''performance''), (''action'', JStr ''API GET /users''),
                    (''duration'', JStr ''80ms'')])
      else None)"

text \<open>
  Two environments with \<^verbatim>\<open>TIMEOUT=5\<close>: one with nothing else set, one with the four
  required variables set.
\<close>

definition node_timeout5 :: "unit node" where
  "node_timeout5 = node0\<lparr>env := [''TIMEOUT'' \<mapsto> ''5'']\<rparr>"

definition node_required_timeout5 :: "unit node" where
  "node_required_timeout5 = node0\<lparr>env := [
     ''BASE_URL'' \<mapsto> ''https://opensource-demo.orangehrmlive.com'',
     ''API_BASE_URL'' \<mapsto> ''https://opensource-demo.orangehrmlive.com/web/api/v1'',
     ''USERNAME'' \<mapsto> ''Admin'',
     ''PASSWORD'' \<mapsto> ''admin123'',
     ''TIMEOUT'' \<mapsto> ''5'']\<rparr>"

text \<open>
  A configuration with seven violations: two required keys are missing, the two URLs
  have no scheme (\<open>no_localhost\<close> stands for \<^verbatim>\<open>new URL\<close>, which rejects them), the timeout
  and the number of workers are below their minimums, and the viewport is too narrow.
\<close>

definition bad_config :: FrameworkConfig where
  "bad_config = \<lparr>
     environment = default_environment\<lparr>BASE_URL := Some ''localhost'',
                     API_BASE_URL := Some ''localhost'', USERNAME := None,
                     PASSWORD := Some [], TIMEOUT := Some (Fin 5), WORKERS := Some (Fin (- 1))\<rparr>,
     viewport_width = Fin 100, viewport_height = Fin 720\<rparr>"

text \<open>
  An environment whose timeout starts with a no-break space (U+00A0), which
  \<^verbatim>\<open>parseInt\<close> skips.
\<close>

definition node_timeout_after_space :: "unit node" where
  "node_timeout_after_space = node0\<lparr>env := [
     ''BASE_URL'' \<mapsto> ''https://opensource-demo.orangehrmlive.com'',
     ''API_BASE_URL'' \<mapsto> ''https://opensource-demo.orangehrmlive.com/web/api/v1'',
     ''USERNAME'' \<mapsto> ''Admin'',
     ''PASSWORD'' \<mapsto> ''admin123'',
     ''TIMEOUT'' \<mapsto> [CHR 0xC2, CHR 0xA0] @ ''2000'']\<rparr>"

text \<open>An environment whose first violation is the number of workers.\<close>

definition node_workers0 :: "unit node" where
  "node_workers0 = node0\<lparr>env := [
     ''BASE_URL'' \<mapsto> ''https://opensource-demo.orangehrmlive.com'',
     ''API_BASE_URL'' \<mapsto> ''https://opensource-demo.orangehrmlive.com/web/api/v1'',
     ''USERNAME'' \<mapsto> ''Admin'',
     ''PASSWORD'' \<mapsto> ''admin123'',
     ''TIMEOUT'' \<mapsto> ''30000'',
     ''WORKERS'' \<mapsto> ''0'',
     ''VIEWPORT_WIDTH'' \<mapsto> ''100'']\<rparr>"

definition no_localhost :: "string \<Rightarrow> bool" where
  "no_localhost url = (url \<noteq> ''localhost'')"

definition sys_no_localhost :: "unit sys" where
  "sys_no_localhost = sys_ok\<lparr>isValidUrl := no_localhost\<rparr>"

definition node_localhost :: "unit node" where
  "node_localhost = node0\<lparr>env := [
     ''BASE_URL'' \<mapsto> ''localhost'',
     ''API_BASE_URL'' \<mapsto> ''https://opensource-demo.orangehrmlive.com/web/api/v1'',
     ''USERNAME'' \<mapsto> ''Admin'',
     ''PASSWORD'' \<mapsto> ''admin123'',
     ''TIMEOUT'' \<mapsto> ''5'']\<rparr>"

text \<open>A check that always answers 503: at once, or after 250 milliseconds.\<close>

definition always_503 :: "nat \<Rightarrow> (exn + nat) \<times> int" where
  "always_503 k = (Inr 503, 0)"


text \<open>A timer whose sleep is measured one millisecond short of its interval.\<close>

definition early_timer :: "nat \<Rightarrow> int" where
  "early_timer k = - 1"

text \<open>A wall clock that is set back by 20 milliseconds during every sleep.\<close>

definition clock_set_back :: "nat \<Rightarrow> int" where
  "clock_set_back k = - 20"

section \<open>Properties of the combinators\<close>

lemmas io_defs = ret_def throw_def bnd_def seq_def try_catch_def or_else_def

lemma try_catch_total:
  assumes "\<And>e s. \<exists>s'. h e s = (Inr (), s')"
  shows "\<exists>s'. try_catch m h s = (Inr (), s')"
proof (cases "m s")
  case (Pair res s1)
  show ?thesis
  proof (cases res)
    case (Inl e)
    with Pair assms[of e s1] show ?thesis by (simp add: try_catch_def)
  next
    case (Inr u)
    with Pair show ?thesis by (simp add: try_catch_def)
  qed
qed

lemma logger_total: "\<exists>s'. logger l m d s = (Inr (), s')"
  by (simp add: logger_def)

lemma seq_total:
  assumes "\<And>s. \<exists>s'. m s = (Inr (), s')" and "\<And>s. \<exists>s'. n s = (Inr (), s')"
  shows "\<exists>s'. seq m n s = (Inr (), s')"
proof -
  obtain s1 where "m s = (Inr (), s1)" using assms(1) by blast
  then show ?thesis using assms(2)[of s1] by (simp add: seq_def bnd_def)
qed

lemma emergencyCleanup_total: "\<exists>s'. emergencyCleanup sys s = (Inr (), s')"
  unfolding emergencyCleanup_def
  by (intro seq_total try_catch_total logger_total)

lemma block_await_prefix:
  "block (map snd (take k ps)) (node r) = (Inr (), n1) \<Longrightarrow>
   block (await_all ps @ rest) r =
   block (await_all (drop k ps) @ rest) \<lparr>node = n1, awaited = awaited r @ map fst (take k ps)\<rparr>"
proof (induction k arbitrary: ps r)
  case 0
  then show ?case by (cases r) (simp add: ret_def)
next
  case (Suc k)
  show ?case
  proof (cases ps)
    case Nil
    with Suc.prems show ?thesis by (cases r) (simp add: ret_def)
  next
    case (Cons np ps')
    obtain name p where np: "np = (name, p)" by (cases np)
    obtain res n' where p: "p (node r) = (res, n')" by (cases "p (node r)")
    from Suc.prems Cons np p have res: "res = Inr ()"
      by (cases res) (simp_all add: seq_def bnd_def)
    from Suc.prems Cons np p res
    have rest': "block (map snd (take k ps')) n' = (Inr (), n1)"
      by (simp add: seq_def bnd_def)
    let ?r1 = "\<lparr>node = n', awaited = awaited r @ [name]\<rparr>"
    have "block (await_all ps @ rest) r = block (await_all ps' @ rest) ?r1"
      using Cons np p res by (simp add: await_all_def seq_def bnd_def await_def)
    also have "\<dots> = block (await_all (drop k ps') @ rest)
                      \<lparr>node = n1, awaited = awaited ?r1 @ map fst (take k ps')\<rparr>"
      using Suc.IH[of ps' ?r1] rest' by simp
    finally show ?thesis using Cons np by simp
  qed
qed

lemma block_await_fail:
  assumes "k < length ps" and "snd (ps ! k) (node r) = (Inl e, n2)"
  shows "block (await_all (drop k ps) @ rest) r =
         (Inl e, \<lparr>node = n2, awaited = awaited r @ [fst (ps ! k)]\<rparr>)"
proof -
  from assms(1) have d: "drop k ps = ps ! k # drop (Suc k) ps"
    by (simp add: Cons_nth_drop_Suc)
  obtain name p where np: "ps ! k = (name, p)" by (cases "ps ! k")
  show ?thesis using assms(2) np
    by (simp add: d await_all_def seq_def bnd_def await_def)
qed

lemma block_await_first_failure:
  assumes "k < length ps"
    and "block (map snd (take k ps)) (node r) = (Inr (), n1)"
    and "snd (ps ! k) n1 = (Inl e, n2)"
  shows "block (await_all ps @ rest) r =
         (Inl e, \<lparr>node = n2, awaited = awaited r @ map fst (take (Suc k) ps)\<rparr>)"
proof -
  let ?r1 = "\<lparr>node = n1, awaited = awaited r @ map fst (take k ps)\<rparr>"
  have "block (await_all ps @ rest) r = block (await_all (drop k ps) @ rest) ?r1"
    by (rule block_await_prefix[OF assms(2)])
  also have "\<dots> = (Inl e, \<lparr>node = n2, awaited = awaited ?r1 @ [fst (ps ! k)]\<rparr>)"
    by (rule block_await_fail) (use assms in simp_all)
  finally show ?thesis using assms(1) by (simp add: take_Suc_conv_app_nth)
qed

lemma block_await_all_succeed:
  assumes "block (map snd ps) (node r) = (Inr (), n1)"
  shows "block (await_all ps @ rest) r =
         block rest \<lparr>node = n1, awaited = awaited r @ map fst ps\<rparr>"
  using block_await_prefix[of "length ps" ps r n1 rest] assms by (simp add: await_all_def)

lemma block_outcome:
  "(\<exists>n1. block (map snd ps) n = (Inr (), n1)) \<or>
   (\<exists>k<length ps. \<exists>n1 e n2. block (map snd (take k ps)) n = (Inr (), n1) \<and>
                               snd (ps ! k) n1 = (Inl e, n2))"
proof (induction ps arbitrary: n)
  case Nil
  then show ?case by (simp add: ret_def)
next
  case (Cons np ps)
  obtain res n' where p: "snd np n = (res, n')" by (cases "snd np n")
  show ?case
  proof (cases res)
    case (Inl e)
    have "block (map snd (take 0 (np # ps))) n = (Inr (), n)" by (simp add: ret_def)
    moreover have "snd ((np # ps) ! 0) n = (Inl e, n')" using p Inl by simp
    ultimately show ?thesis by blast
  next
    case (Inr u)
    from Cons.IH[of n'] show ?thesis
    proof
      assume "\<exists>n1. block (map snd ps) n' = (Inr (), n1)"
      then show ?thesis using p Inr by (simp add: seq_def bnd_def)
    next
      assume "\<exists>k<length ps. \<exists>n1 e n2. block (map snd (take k ps)) n' = (Inr (), n1) \<and>
                               snd (ps ! k) n1 = (Inl e, n2)"
      then obtain k n1 e n2 where k: "k < length ps"
        and a: "block (map snd (take k ps)) n' = (Inr (), n1)"
        and b: "snd (ps ! k) n1 = (Inl e, n2)" by blast
      have "Suc k < length (np # ps)" using k by simp
      moreover have "block (map snd (take (Suc k) (np # ps))) n = (Inr (), n1)"
        using a p Inr by (simp add: seq_def bnd_def)
      moreover have "snd ((np # ps) ! Suc k) n1 = (Inl e, n2)" using b by simp
      ultimately show ?thesis by blast
    qed
  qed
qed


section \<open>Properties of the string functions\<close>

lemma trimStart_stop: "space_length s = 0 \<Longrightarrow> trimStart s = s"
  by (subst trimStart.simps) simp

lemma trimStart_skip:
  "space_length s = n \<Longrightarrow> 0 < n \<Longrightarrow> trimStart s = trimStart (drop n s)"
  by (subst trimStart.simps) simp

text \<open>
  A no-break space, a space and an em space (U+2003) before the digits are skipped, as
  \<^verbatim>\<open>parseInt\<close> does; a byte that starts no white-space character is not.
\<close>

lemma trimStart_unicode:
  "trimStart ([CHR 0xC2, CHR 0xA0, CHR 0x20, CHR 0xE2, CHR 0x80, CHR 0x83] @ ''2000'') = ''2000''"
proof -
  have a: "space_length ([CHR 0xC2, CHR 0xA0, CHR 0x20, CHR 0xE2, CHR 0x80, CHR 0x83] @ ''2000'') = 2"
    by (simp add: space_length_def white_space_def)
  have b: "space_length ([CHR 0x20, CHR 0xE2, CHR 0x80, CHR 0x83] @ ''2000'') = 1"
    by (simp add: space_length_def white_space_def)
  have c: "space_length ([CHR 0xE2, CHR 0x80, CHR 0x83] @ ''2000'') = 3"
    by (simp add: space_length_def white_space_def)
  have d: "space_length ''2000'' = 0"
    by (simp add: space_length_def white_space_def)
  from trimStart_skip[OF a] trimStart_skip[OF b] trimStart_skip[OF c] trimStart_stop[OF d]
  show ?thesis by simp
qed

lemma parseInt_after_white_space:
  "parseInt ([CHR 0xC2, CHR 0xA0, CHR 0x20, CHR 0xE2, CHR 0x80, CHR 0x83] @ ''2000'') = Fin 2000"
  unfolding parseInt_def trimStart_unicode
  by (simp add: is_digit_in_def digit_val_def digits_value_def Let_def)

lemma parseInt_after_latin1_no_break_space: "parseInt (CHR 0xA0 # ''2000'') = Fin 2000"
proof -
  have a: "space_length (CHR 0xA0 # ''2000'') = 1" by (simp add: space_length_def white_space_def)
  have d: "space_length ''2000'' = 0" by (simp add: space_length_def white_space_def)
  from trimStart_skip[OF a] trimStart_stop[OF d] have "trimStart (CHR 0xA0 # ''2000'') = ''2000''"
    by simp
  then show ?thesis
    unfolding parseInt_def by (simp add: is_digit_in_def digit_val_def digits_value_def Let_def)
qed

lemma parseInt_other_byte: "parseInt (CHR 0xC2 # ''2000'') = NaN"
proof -
  have "space_length (CHR 0xC2 # ''2000'') = 0" by (simp add: space_length_def white_space_def)
  from trimStart_stop[OF this] show ?thesis
    unfolding parseInt_def by (simp add: is_digit_in_def digit_val_def digits_value_def Let_def)
qed

lemma parseInt_after_no_break_space: "parseInt ([CHR 0xC2, CHR 0xA0] @ ''2000'') = Fin 2000"
proof -
  have a: "space_length ([CHR 0xC2, CHR 0xA0] @ ''2000'') = 2"
    by (simp add: space_length_def white_space_def)
  have d: "space_length ''2000'' = 0" by (simp add: space_length_def white_space_def)
  from trimStart_skip[OF a] trimStart_stop[OF d]
  have "trimStart ([CHR 0xC2, CHR 0xA0] @ ''2000'') = ''2000''" by simp
  then show ?thesis
    unfolding parseInt_def by (simp add: is_digit_in_def digit_val_def digits_value_def Let_def)
qed

section \<open>Properties of global setup\<close>

lemma setup_phases_names:
  "map fst (setup_phases sys) = [''createDirectories'', ''validateEnvironment'', ''setupBrowsers'',
     ''verifyTestSiteAvailability'', ''verifyApplicationEndpoints'', ''cleanPreviousArtifacts'',
     ''setupPerformanceMonitoring'', ''setupTestEnvironmentInfo'']"
  by (simp add: setup_phases_def)

lemma length_setup_phases: "length (setup_phases sys) = 8"
  by (simp add: setup_phases_def)

lemma globalSetup_on_failure:
  assumes "k < length (setup_phases sys)"
    and "block (map snd (take k (setup_phases sys)))
           (snd (logger LInfo ''Starting Global Setup'' None (node r))) = (Inr (), n1)"
    and "snd (setup_phases sys ! k) n1 = (Inl e, n2)"
  shows "globalSetup sys r =
           (Inl e, \<lparr>node = snd (emergencyCleanup sys
                              (snd (logger LError ''Global Setup Failed'' (Some (message e)) n2))),
                    awaited = awaited r @ map fst (take (Suc k) (setup_phases sys))
                              @ [''emergencyCleanup'']\<rparr>)"
proof -
  let ?r0 = "r\<lparr>node := snd (logger LInfo ''Starting Global Setup'' None (node r))\<rparr>"
  let ?rest = "[in_node (logger LInfo ''Global Setup Completed Successfully'' None)]"
  have body: "block (await_all (setup_phases sys) @ ?rest) ?r0 =
     (Inl e, \<lparr>node = n2, awaited = awaited ?r0 @ map fst (take (Suc k) (setup_phases sys))\<rparr>)"
    by (rule block_await_first_failure[OF assms(1)]) (use assms in simp_all)
  obtain c where c: "emergencyCleanup sys
      (snd (logger LError ''Global Setup Failed'' (Some (message e)) n2)) = (Inr (), c)"
    using emergencyCleanup_total by blast
  show ?thesis
    unfolding globalSetup_def
    using body c
    by (simp add: seq_def bnd_def try_catch_def in_node_def logger_def await_def throw_def ret_def)
qed

lemma globalSetup_on_success:
  assumes "block (map snd (setup_phases sys))
           (snd (logger LInfo ''Starting Global Setup'' None (node r))) = (Inr (), n1)"
  shows "globalSetup sys r =
           (Inr (), \<lparr>node = snd (logger LInfo ''Global Setup Completed Successfully'' None n1),
                     awaited = awaited r @ map fst (setup_phases sys)\<rparr>)"
proof -
  let ?r0 = "r\<lparr>node := snd (logger LInfo ''Starting Global Setup'' None (node r))\<rparr>"
  let ?rest = "[in_node (logger LInfo ''Global Setup Completed Successfully'' None)]"
  have body: "block (await_all (setup_phases sys) @ ?rest) ?r0 =
     block ?rest \<lparr>node = n1, awaited = awaited ?r0 @ map fst (setup_phases sys)\<rparr>"
    by (rule block_await_all_succeed) (use assms in simp)
  show ?thesis
    unfolding globalSetup_def
    using body
    by (simp add: seq_def bnd_def try_catch_def in_node_def logger_def ret_def)
qed

text \<open>
  C2. When a phase of \<^verbatim>\<open>globalSetup\<close> throws, the phases after it are never called,
  \<^verbatim>\<open>emergencyCleanup\<close> is called exactly once, and the caller receives the error the
  phase threw. Phase \<open>k\<close> is the first to throw: the \<open>k\<close> phases before it return, and it
  throws \<open>e\<close> from the state they leave. Then the history of calls is the first \<open>k + 1\<close>
  phase names followed by the one cleanup call, and \<open>e\<close> is the outcome.
\<close>

theorem globalSetup_fail_fast:
  assumes "k < length (setup_phases sys)"
    and "block (map snd (take k (setup_phases sys)))
           (snd (logger LInfo ''Starting Global Setup'' None (node r))) = (Inr (), n1)"
    and "snd (setup_phases sys ! k) n1 = (Inl e, n2)"
  shows "\<exists>r'. globalSetup sys r = (Inl e, r') \<and>
           awaited r' = awaited r @ map fst (take (Suc k) (setup_phases sys)) @ [''emergencyCleanup''] \<and>
           ''emergencyCleanup'' \<notin> set (map fst (setup_phases sys))"
  using globalSetup_on_failure[OF assms] by (simp add: setup_phases_names)

lemma createDirectories_ok: "fst (createDirectories sys_ok s) = Inr ()"
  by (simp add: createDirectories_def directories_def sys_ok_def io_defs logger_def sys_call_def)

lemma createDirectories_env: "env (snd (createDirectories sys_ok s)) = env s"
  by (simp add: createDirectories_def directories_def sys_ok_def io_defs logger_def sys_call_def)

lemma validateEnvironment_missing_all:
  "env s = Map.empty \<Longrightarrow> fst (validateEnvironment sys s) = Inl missing_all"
  by (simp add: validateEnvironment_def requiredEnvVars_def truthy_def missing_all_def
      io_defs logger_def process_env_def Let_def)

lemma setup_run0_prefix:
  "block (map snd (take 1 (setup_phases sys_ok)))
     (snd (logger LInfo ''Starting Global Setup'' None (node run0))) =
   (Inr (), snd (createDirectories sys_ok (snd (logger LInfo ''Starting Global Setup'' None (node run0)))))"
proof -
  let ?n0 = "snd (logger LInfo ''Starting Global Setup'' None (node run0))"
  show ?thesis
    using createDirectories_ok[of ?n0]
    by (cases "createDirectories sys_ok ?n0") (simp add: setup_phases_def seq_def bnd_def ret_def)
qed

lemma setup_run0_failure:
  "snd (setup_phases sys_ok ! 1)
     (snd (createDirectories sys_ok (snd (logger LInfo ''Starting Global Setup'' None (node run0))))) =
   (Inl missing_all,
    snd (validateEnvironment sys_ok
      (snd (createDirectories sys_ok (snd (logger LInfo ''Starting Global Setup'' None (node run0)))))))"
proof -
  let ?n1 = "snd (createDirectories sys_ok (snd (logger LInfo ''Starting Global Setup'' None (node run0))))"
  have "env ?n1 = Map.empty"
    by (simp add: createDirectories_env logger_def run0_def node0_def)
  then have "fst (validateEnvironment sys_ok ?n1) = Inl missing_all"
    by (rule validateEnvironment_missing_all)
  then show ?thesis
    by (cases "validateEnvironment sys_ok ?n1") (simp add: setup_phases_def)
qed

theorem globalSetup_fail_fast_witness:
  "\<exists>r'. globalSetup sys_ok run0 = (Inl missing_all, r') \<and>
         awaited r' = [''createDirectories'', ''validateEnvironment'', ''emergencyCleanup'']"
proof -
  have h1: "1 < length (setup_phases sys_ok)" by (simp add: length_setup_phases)
  from globalSetup_fail_fast[OF h1 setup_run0_prefix setup_run0_failure] show ?thesis
    by (simp add: take_map[symmetric] setup_phases_names run0_def)
qed

text \<open>
  C9. \<^verbatim>\<open>emergencyCleanup\<close> returns normally whatever the file system does, and an error
  that leaves \<^verbatim>\<open>globalSetup\<close> is always the error thrown by one of its phases (the first
  one that throws), never one raised by the cleanup.
\<close>

theorem emergencyCleanup_never_throws:
  "(\<exists>s'. emergencyCleanup sys s = (Inr (), s')) \<and>
   (globalSetup sys r = (Inl e, r') \<longrightarrow>
      (\<exists>k<length (setup_phases sys). \<exists>n1 n2.
         block (map snd (take k (setup_phases sys)))
           (snd (logger LInfo ''Starting Global Setup'' None (node r))) = (Inr (), n1) \<and>
         snd (setup_phases sys ! k) n1 = (Inl e, n2)))"
proof (intro conjI impI)
  show "\<exists>s'. emergencyCleanup sys s = (Inr (), s')" by (rule emergencyCleanup_total)
next
  assume thrown: "globalSetup sys r = (Inl e, r')"
  let ?n0 = "snd (logger LInfo ''Starting Global Setup'' None (node r))"
  from block_outcome[of "setup_phases sys" ?n0]
  show "\<exists>k<length (setup_phases sys). \<exists>n1 n2.
         block (map snd (take k (setup_phases sys))) ?n0 = (Inr (), n1) \<and>
         snd (setup_phases sys ! k) n1 = (Inl e, n2)"
  proof
    assume "\<exists>n1. block (map snd (setup_phases sys)) ?n0 = (Inr (), n1)"
    then obtain n1 where "block (map snd (setup_phases sys)) ?n0 = (Inr (), n1)" ..
    from globalSetup_on_success[OF this] thrown show ?thesis by simp
  next
    assume "\<exists>k<length (setup_phases sys). \<exists>n1 e n2.
       block (map snd (take k (setup_phases sys))) ?n0 = (Inr (), n1) \<and>
       snd (setup_phases sys ! k) n1 = (Inl e, n2)"
    then obtain k n1 e' n2 where k: "k < length (setup_phases sys)"
      and a: "block (map snd (take k (setup_phases sys))) ?n0 = (Inr (), n1)"
      and b: "snd (setup_phases sys ! k) n1 = (Inl e', n2)" by blast
    from globalSetup_on_failure[OF k a b] thrown have "e' = e" by simp
    with k a b show ?thesis by blast
  qed
qed

theorem emergencyCleanup_never_throws_witness:
  "(\<exists>s'. emergencyCleanup sys_ok node0 = (Inr (), s')) \<and>
   fst (globalSetup sys_ok run0) = Inl missing_all \<and>
   (\<exists>k n1 n2. k < length (setup_phases sys_ok) \<and>
      block (map snd (take k (setup_phases sys_ok)))
        (snd (logger LInfo ''Starting Global Setup'' None (node run0))) = (Inr (), n1) \<and>
      snd (setup_phases sys_ok ! k) n1 = (Inl missing_all, n2))"
proof -
  have h1: "1 < length (setup_phases sys_ok)" by (simp add: length_setup_phases)
  obtain r' where r': "globalSetup sys_ok run0 = (Inl missing_all, r')"
    using globalSetup_on_failure[OF h1 setup_run0_prefix setup_run0_failure] by blast
  from emergencyCleanup_never_throws[of sys_ok node0 run0 missing_all r'] r'
  show ?thesis by auto
qed

section \<open>Properties of global teardown\<close>

lemma guarded_total:
  "\<exists>s'. seq (logger l m d) (try_catch body (\<lambda>error. logger l' m' (d' error))) s = (Inr (), s')"
  by (intro seq_total try_catch_total logger_total)

lemma processTestArtifacts_total: "\<exists>s'. processTestArtifacts sys s = (Inr (), s')"
  unfolding processTestArtifacts_def by (rule guarded_total)

lemma cleanupTemporaryFiles_total: "\<exists>s'. cleanupTemporaryFiles sys s = (Inr (), s')"
  unfolding cleanupTemporaryFiles_def by (rule guarded_total)

lemma archiveLogs_total: "\<exists>s'. archiveLogs sys s = (Inr (), s')"
  unfolding archiveLogs_def by (rule guarded_total)

lemma cleanupBrowserProcesses_total: "\<exists>s'. cleanupBrowserProcesses sys s = (Inr (), s')"
  unfolding cleanupBrowserProcesses_def by (rule guarded_total)

lemma generateFinalSummary_total: "\<exists>s'. generateFinalSummary sys s = (Inr (), s')"
  unfolding generateFinalSummary_def by (rule guarded_total)

lemma basicCleanup_total: "\<exists>s'. basicCleanup sys s = (Inr (), s')"
  unfolding basicCleanup_def by (rule guarded_total)

lemma generateTestExecutionReport_total: "\<exists>s'. generateTestExecutionReport sys s = (Inr (), s')"
  unfolding generateTestExecutionReport_def by (rule guarded_total)

lemma processTestArtifacts_full_total: "\<exists>s'. processTestArtifacts_full sys s = (Inr (), s')"
  unfolding processTestArtifacts_full_def by (rule guarded_total)

lemma generateAllureReport_total: "\<exists>s'. generateAllureReport sys s = (Inr (), s')"
proof (cases "truthy (env s ''ALLURE_RESULTS_DIR'')")
  case False
  then show ?thesis
    by (simp add: generateAllureReport_def bnd_def process_env_def logger_def)
next
  case True
  have "\<exists>s'. seq (logger LInfo ''Generating Allure report'' None)
          (try_catch body (\<lambda>error. logger LError ''Failed to generate Allure report''
                                     (Some (message error)))) s = (Inr (), s')" for body
    by (rule guarded_total)
  with True show ?thesis
    by (simp add: generateAllureReport_def bnd_def process_env_def)
qed

lemma generatePerformanceSummary_full_total:
  "\<exists>s'. generatePerformanceSummary_full sys s = (Inr (), s')"
  unfolding generatePerformanceSummary_full_def by (rule guarded_total)

lemma sendNotifications_full_total: "\<exists>s'. sendNotifications_full sys s = (Inr (), s')"
  unfolding sendNotifications_full_def by (rule guarded_total)

lemma generateFinalSummary_full_total: "\<exists>s'. generateFinalSummary_full sys s = (Inr (), s')"
  unfolding generateFinalSummary_full_def by (rule guarded_total)

lemma basicCleanup_full_total: "\<exists>s'. basicCleanup_full sys s = (Inr (), s')"
  unfolding basicCleanup_full_def by (rule guarded_total)

text \<open>A list of phases none of which throws runs to its end.\<close>

lemma block_all_total:
  assumes "\<And>p s. p \<in> set ps \<Longrightarrow> \<exists>s'. snd p s = (Inr (), s')"
  shows "\<exists>s'. block (map snd ps) s = (Inr (), s')"
  using assms
proof (induction ps arbitrary: s)
  case Nil
  then show ?case by (simp add: ret_def)
next
  case (Cons p ps)
  obtain s1 where s1: "snd p s = (Inr (), s1)" using Cons.prems[of p s] by auto
  obtain s2 where "block (map snd ps) s1 = (Inr (), s2)"
    using Cons.IH[of s1] Cons.prems by auto
  with s1 show ?case by (simp add: seq_def bnd_def)
qed

lemma teardown_phases_total:
  "p \<in> set (teardown_phases sys) \<Longrightarrow> \<exists>s'. snd p s = (Inr (), s')"
  using processTestArtifacts_total cleanupTemporaryFiles_total archiveLogs_total
    cleanupBrowserProcesses_total generateFinalSummary_total
  by (auto simp: teardown_phases_def)

lemma teardown_phases_full_total:
  "p \<in> set (teardown_phases_full sys) \<Longrightarrow> \<exists>s'. snd p s = (Inr (), s')"
  using generateTestExecutionReport_total processTestArtifacts_full_total
    generateAllureReport_total cleanupTemporaryFiles_total archiveLogs_total
    generatePerformanceSummary_full_total sendNotifications_full_total
    cleanupBrowserProcesses_total generateFinalSummary_full_total
  by (auto simp: teardown_phases_full_def)

lemma globalTeardown_run:
  "\<exists>n1. block (map snd (teardown_phases sys))
           (snd (logger LInfo ''Starting Global Teardown'' None (node r))) = (Inr (), n1) \<and>
         globalTeardown sys r =
           (Inr (), \<lparr>node = snd (logger LInfo ''Global Teardown Completed Successfully'' None n1),
                     awaited = awaited r @ map fst (teardown_phases sys)\<rparr>)"
proof -
  let ?r0 = "r\<lparr>node := snd (logger LInfo ''Starting Global Teardown'' None (node r))\<rparr>"
  let ?rest = "[in_node (logger LInfo ''Global Teardown Completed Successfully'' None)]"
  obtain n1 where n1: "block (map snd (teardown_phases sys)) (node ?r0) = (Inr (), n1)"
    using block_all_total[of "teardown_phases sys" "node ?r0"] teardown_phases_total by blast
  have body: "block (await_all (teardown_phases sys) @ ?rest) ?r0 =
     block ?rest \<lparr>node = n1, awaited = awaited ?r0 @ map fst (teardown_phases sys)\<rparr>"
    by (rule block_await_all_succeed[OF n1])
  have "globalTeardown sys r =
           (Inr (), \<lparr>node = snd (logger LInfo ''Global Teardown Completed Successfully'' None n1),
                     awaited = awaited r @ map fst (teardown_phases sys)\<rparr>)"
    unfolding globalTeardown_def using body
    by (simp add: seq_def bnd_def try_catch_def in_node_def logger_def ret_def)
  with n1 show ?thesis by auto
qed

lemma globalTeardown_full_run:
  "\<exists>n1. block (map snd (teardown_phases_full sys))
           (snd (logger LInfo ''Starting Global Teardown'' None (node r))) = (Inr (), n1) \<and>
         globalTeardown_full sys r =
           (Inr (), \<lparr>node = snd (logger LInfo ''Global Teardown Completed Successfully'' None n1),
                     awaited = awaited r @ map fst (teardown_phases_full sys)\<rparr>)"
proof -
  let ?r0 = "r\<lparr>node := snd (logger LInfo ''Starting Global Teardown'' None (node r))\<rparr>"
  let ?rest = "[in_node (logger LInfo ''Global Teardown Completed Successfully'' None)]"
  obtain n1 where n1: "block (map snd (teardown_phases_full sys)) (node ?r0) = (Inr (), n1)"
    using block_all_total[of "teardown_phases_full sys" "node ?r0"] teardown_phases_full_total
    by blast
  have body: "block (await_all (teardown_phases_full sys) @ ?rest) ?r0 =
     block ?rest \<lparr>node = n1, awaited = awaited ?r0 @ map fst (teardown_phases_full sys)\<rparr>"
    by (rule block_await_all_succeed[OF n1])
  have "globalTeardown_full sys r =
           (Inr (), \<lparr>node = snd (logger LInfo ''Global Teardown Completed Successfully'' None n1),
                     awaited = awaited r @ map fst (teardown_phases_full sys)\<rparr>)"
    unfolding globalTeardown_full_def using body
    by (simp add: seq_def bnd_def try_catch_def in_node_def logger_def ret_def)
  with n1 show ?thesis by auto
qed

lemma teardown_phases_names:
  "map fst (teardown_phases sys) = [''processTestArtifacts'', ''cleanupTemporaryFiles'',
     ''archiveLogs'', ''cleanupBrowserProcesses'', ''generateFinalSummary'']"
  by (simp add: teardown_phases_def)

lemma teardown_phases_full_names:
  "map fst (teardown_phases_full sys) = [''generateTestExecutionReport'',
     ''processTestArtifacts'', ''generateAllureReport'', ''cleanupTemporaryFiles'',
     ''archiveLogs'', ''generatePerformanceSummary'', ''sendNotifications'',
     ''cleanupBrowserProcesses'', ''generateFinalSummary'']"
  by (simp add: teardown_phases_full_def)

lemma archiveLogs_logs_failure:
  assumes "fs_mkdir sys (path_join [dirname sys, ''../../logs/archive'']) (world s) = (Inl e, w')"
  shows "archiveLogs sys s =
    (Inr (), s\<lparr>logs := logs s @ [Log LInfo ''Archiving logs'' None,
                                   Log LError ''Failed to archive logs'' (Some (message e))],
               world := w'\<rparr>)"
  using assms
  by (simp add: archiveLogs_def archiveLogs_body_def seq_def bnd_def try_catch_def logger_def
      sys_call_def Let_def)

text \<open>What a phase does with the outcome of its \<^verbatim>\<open>try\<close> block.\<close>

lemma guarded_logs_failure:
  assumes "body (snd (logger LInfo start None s)) = (Inl e, s2)"
  shows "seq (logger LInfo start None)
           (try_catch body (\<lambda>error. logger lvl text (Some (message error)))) s =
         (Inr (), s2\<lparr>logs := logs s2 @ [Log lvl text (Some (message e))]\<rparr>)"
  using assms by (simp add: seq_def bnd_def try_catch_def logger_def)

lemma generateAllureReport_logs_failure:
  assumes "truthy (env s ''ALLURE_RESULTS_DIR'')"
    and "generateAllureReport_body sys (snd (logger LInfo ''Generating Allure report'' None s)) =
           (Inl e, s2)"
  shows "generateAllureReport sys s =
         (Inr (), s2\<lparr>logs := logs s2 @
            [Log LError ''Failed to generate Allure report'' (Some (message e))]\<rparr>)"
proof -
  from assms(1) have "generateAllureReport sys s =
      seq (logger LInfo ''Generating Allure report'' None)
        (try_catch (generateAllureReport_body sys)
           (\<lambda>error. logger LError ''Failed to generate Allure report'' (Some (message error)))) s"
    by (simp add: generateAllureReport_def bnd_def process_env_def)
  with guarded_logs_failure[of "generateAllureReport_body sys" "''Generating Allure report''" s e s2
      LError "''Failed to generate Allure report''"] assms(2)
  show ?thesis by simp
qed

text \<open>Three bodies guard each of their calls and cannot throw.\<close>

lemma for_each_total:
  assumes "\<And>x s. \<exists>s'. body x s = (Inr (), s')"
  shows "\<exists>s'. for_each xs body s = (Inr (), s')"
proof (induction xs arbitrary: s)
  case Nil
  then show ?case by (simp add: ret_def)
next
  case (Cons x xs)
  obtain s1 where "body x s = (Inr (), s1)" using assms by blast
  with Cons[of s1] show ?case by (auto simp: seq_def bnd_def)
qed

lemma or_else_total: "\<exists>s'. or_else m () s = (Inr (), s')"
  unfolding or_else_def by (rule try_catch_total) (simp add: ret_def)

lemma ret_total: "\<exists>s'. ret () s = (Inr (), s')"
  by (simp add: ret_def)

lemma cleanupOldLogFiles_total: "\<exists>s'. cleanupOldLogFiles sys s = (Inr (), s')"
  unfolding cleanupOldLogFiles_def Let_def by (intro try_catch_total logger_total)

lemma collectTestResults_total: "\<exists>s'. collectTestResults sys s = (Inr (), s')"
  unfolding collectTestResults_def by (intro try_catch_total logger_total)

lemma cleanupTemporaryFiles_body_total:
  "\<exists>s'. cleanupTemporaryFiles_body sys s = (Inr (), s')"
  unfolding cleanupTemporaryFiles_body_def block.simps
  by (intro seq_total for_each_total try_catch_total cleanupOldLogFiles_total logger_total
      ret_total)

lemma cleanupBrowserProcesses_body_total:
  "\<exists>s'. cleanupBrowserProcesses_body sys s = (Inr (), s')"
proof -
  have "\<exists>s'. block [for_each cmds
            (\<lambda>command. or_else (ignore_result (sys_call (execAsync sys command))) ()),
          logger LInfo ''Browser processes cleaned up'' None] s = (Inr (), s')" for cmds
    unfolding block.simps
    by (intro seq_total for_each_total or_else_total logger_total ret_total)
  then show ?thesis
    by (simp add: cleanupBrowserProcesses_body_def bnd_def process_platform_def)
qed

lemma sendNotifications_full_body_total:
  "\<exists>s'. sendNotifications_full_body sys s = (Inr (), s')"
proof -
  have "\<exists>s'. block [collectTestResults sys,
          if email then logger LInfo ''Email notification would be sent here'' None else ret (),
          if slack then logger LInfo ''Slack notification would be sent here'' None else ret (),
          if teams then logger LInfo ''Teams notification would be sent here'' None else ret (),
          logger LInfo ''Notifications processed'' None] s = (Inr (), s')" for email slack teams
    unfolding block.simps
    by (cases email; cases slack; cases teams)
       (simp_all only: if_True if_False,
        (intro seq_total collectTestResults_total logger_total ret_total)+)
  then show ?thesis
    by (simp add: sendNotifications_full_body_def bnd_def process_env_def Let_def logger_def)
qed

text \<open>The bodies of the other eight phases, run where a call of theirs fails.\<close>

lemma processTestArtifacts_body_readonly:
  "processTestArtifacts_body sys_readonly
     (snd (logger LInfo ''Processing test artifacts'' None node0)) =
   (Inl eacces, node0\<lparr>logs := [Log LInfo ''Processing test artifacts'' None]\<rparr>)"
  by (simp add: processTestArtifacts_body_def sys_readonly_def sys_ok_def node0_def
      seq_def bnd_def logger_def sys_call_def)

lemma processTestArtifacts_full_body_readonly:
  "processTestArtifacts_full_body sys_readonly
     (snd (logger LInfo ''Processing test artifacts'' None node0)) =
   (Inl eacces, node0\<lparr>logs := [Log LInfo ''Processing test artifacts'' None]\<rparr>)"
  by (simp add: processTestArtifacts_full_body_def sys_readonly_def sys_ok_def node0_def
      seq_def bnd_def logger_def sys_call_def)

lemma archiveLogs_body_readonly:
  "archiveLogs_body sys_readonly (snd (logger LInfo ''Archiving logs'' None node0)) =
   (Inl eacces, node0\<lparr>logs := [Log LInfo ''Archiving logs'' None]\<rparr>)"
  by (simp add: archiveLogs_body_def sys_readonly_def sys_ok_def node0_def
      seq_def bnd_def logger_def sys_call_def Let_def)

lemma generateTestExecutionReport_body_readonly:
  "generateTestExecutionReport_body sys_readonly
     (snd (logger LInfo ''Generating test execution report'' None node0)) =
   (Inl eacces, node0\<lparr>logs := [Log LInfo ''Generating test execution report'' None,
                                 Log LDebug ''JUnit results file found'' None]\<rparr>)"
  by (simp add: generateTestExecutionReport_body_def collectTestResults_def ignore_result_def
      sys_readonly_def sys_ok_def node0_def io_defs logger_def sys_call_def Let_def)

lemma generatePerformanceSummary_full_body_readonly:
  "generatePerformanceSummary_full_body sys_readonly
     (snd (logger LInfo ''Generating performance summary'' None node0)) =
   (Inl eacces, node0\<lparr>logs := [Log LInfo ''Generating performance summary'' None]\<rparr>)"
  by (simp add: generatePerformanceSummary_full_body_def collectPerformanceData_full_def
      ignore_result_def sys_readonly_def sys_ok_def node0_def io_defs logger_def
      sys_call_def Let_def)

lemma generateFinalSummary_body_disk_full:
  "generateFinalSummary_body sys_disk_full
     (snd (logger LInfo ''Generating final summary'' None node0)) =
   (Inl enospc, node0\<lparr>logs := [Log LInfo ''Generating final summary'' None]\<rparr>)"
  by (simp add: generateFinalSummary_body_def countFiles_def fileExists_def ignore_result_def
      sys_disk_full_def sys_ok_def node0_def io_defs logger_def sys_call_def)

lemma generateFinalSummary_full_body_disk_full:
  "generateFinalSummary_full_body sys_disk_full
     (snd (logger LInfo ''Generating final summary'' None node0)) =
   (Inl enospc, node0\<lparr>logs := [Log LInfo ''Generating final summary'' None,
                                 Log LDebug ''JUnit results file found'' None]\<rparr>)"
  by (simp add: generateFinalSummary_full_body_def collectTestResults_def
      collectPerformanceData_full_def countFiles_def ignore_result_def
      sys_disk_full_def sys_ok_def node0_def io_defs logger_def sys_call_def Let_def)

lemma generateAllureReport_body_no_npx:
  "generateAllureReport_body sys_no_npx
     (snd (logger LInfo ''Generating Allure report'' None node_allure)) =
   (Inl enoent, node_allure\<lparr>logs := [Log LInfo ''Generating Allure report'' None]\<rparr>)"
  by (simp add: generateAllureReport_body_def sys_no_npx_def sys_ok_def node_allure_def node0_def
      or_default_def io_defs logger_def sys_call_def process_env_def Let_def)

text \<open>
  C3. No error leaves \<^verbatim>\<open>globalTeardown\<close>, in either module and whatever the system
  does: the call returns normally and its history holds every phase of the \<^verbatim>\<open>try\<close>
  block, in order, so each phase ran although earlier ones may have failed inside.
  Each phase logs and swallows its own failure: when the body of a phase throws \<open>e\<close>
  after bringing the process to the state \<open>s2\<close>, the phase returns normally from \<open>s2\<close>
  with one more log line, the failure text of that phase with the message of \<open>e\<close>. This
  is stated for each of the eleven phase functions of the two modules. The bodies of
  three of them, \<^verbatim>\<open>cleanupTemporaryFiles\<close>, \<^verbatim>\<open>cleanupBrowserProcesses\<close> and
  \<^verbatim>\<open>sendNotifications\<close>, guard each of their calls and in fact never throw. For
  \<^verbatim>\<open>archiveLogs\<close> the failure is also traced to its first external call, \<^verbatim>\<open>mkdir\<close>.
\<close>

theorem globalTeardown_never_propagates:
  "(\<exists>r'. globalTeardown sys r = (Inr (), r') \<and>
          awaited r' = awaited r @ [''processTestArtifacts'', ''cleanupTemporaryFiles'',
            ''archiveLogs'', ''cleanupBrowserProcesses'', ''generateFinalSummary'']) \<and>
   (\<exists>r'. globalTeardown_full sys r = (Inr (), r') \<and>
          awaited r' = awaited r @ [''generateTestExecutionReport'', ''processTestArtifacts'',
            ''generateAllureReport'', ''cleanupTemporaryFiles'', ''archiveLogs'',
            ''generatePerformanceSummary'', ''sendNotifications'', ''cleanupBrowserProcesses'',
            ''generateFinalSummary'']) \<and>
   (fs_mkdir sys (path_join [dirname sys, ''../../logs/archive'']) (world s) = (Inl e, w') \<longrightarrow>
      archiveLogs sys s =
        (Inr (), s\<lparr>logs := logs s @ [Log LInfo ''Archiving logs'' None,
                      Log LError ''Failed to archive logs'' (Some (message e))],
                   world := w'\<rparr>)) \<and>
   (processTestArtifacts_body sys (snd (logger LInfo ''Processing test artifacts'' None s)) =
      (Inl e, s2) \<longrightarrow>
    processTestArtifacts sys s =
      (Inr (), s2\<lparr>logs := logs s2 @
         [Log LError ''Failed to process test artifacts'' (Some (message e))]\<rparr>)) \<and>
   (processTestArtifacts_full_body sys (snd (logger LInfo ''Processing test artifacts'' None s)) =
      (Inl e, s2) \<longrightarrow>
    processTestArtifacts_full sys s =
      (Inr (), s2\<lparr>logs := logs s2 @
         [Log LError ''Failed to process test artifacts'' (Some (message e))]\<rparr>)) \<and>
   (archiveLogs_body sys (snd (logger LInfo ''Archiving logs'' None s)) = (Inl e, s2) \<longrightarrow>
    archiveLogs sys s =
      (Inr (), s2\<lparr>logs := logs s2 @
         [Log LError ''Failed to archive logs'' (Some (message e))]\<rparr>)) \<and>
   (generateFinalSummary_body sys (snd (logger LInfo ''Generating final summary'' None s)) =
      (Inl e, s2) \<longrightarrow>
    generateFinalSummary sys s =
      (Inr (), s2\<lparr>logs := logs s2 @
         [Log LError ''Failed to generate final summary'' (Some (message e))]\<rparr>)) \<and>
   (generateFinalSummary_full_body sys (snd (logger LInfo ''Generating final summary'' None s)) =
      (Inl e, s2) \<longrightarrow>
    generateFinalSummary_full sys s =
      (Inr (), s2\<lparr>logs := logs s2 @
         [Log LError ''Failed to generate final summary'' (Some (message e))]\<rparr>)) \<and>
   (generateTestExecutionReport_body sys
      (snd (logger LInfo ''Generating test execution report'' None s)) = (Inl e, s2) \<longrightarrow>
    generateTestExecutionReport sys s =
      (Inr (), s2\<lparr>logs := logs s2 @
         [Log LError ''Failed to generate test execution report'' (Some (message e))]\<rparr>)) \<and>
   (generatePerformanceSummary_full_body sys
      (snd (logger LInfo ''Generating performance summary'' None s)) = (Inl e, s2) \<longrightarrow>
    generatePerformanceSummary_full sys s =
      (Inr (), s2\<lparr>logs := logs s2 @
         [Log LError ''Failed to generate performance summary'' (Some (message e))]\<rparr>)) \<and>
   (truthy (env s ''ALLURE_RESULTS_DIR'') \<and>
    generateAllureReport_body sys (snd (logger LInfo ''Generating Allure report'' None s)) =
      (Inl e, s2) \<longrightarrow>
    generateAllureReport sys s =
      (Inr (), s2\<lparr>logs := logs s2 @
         [Log LError ''Failed to generate Allure report'' (Some (message e))]\<rparr>)) \<and>
   (cleanupTemporaryFiles_body sys (snd (logger LInfo ''Cleaning up temporary files'' None s)) =
      (Inl e, s2) \<longrightarrow>
    cleanupTemporaryFiles sys s =
      (Inr (), s2\<lparr>logs := logs s2 @
         [Log LError ''Failed to cleanup temporary files'' (Some (message e))]\<rparr>)) \<and>
   (cleanupBrowserProcesses_body sys (snd (logger LInfo ''Cleaning up browser processes'' None s)) =
      (Inl e, s2) \<longrightarrow>
    cleanupBrowserProcesses sys s =
      (Inr (), s2\<lparr>logs := logs s2 @
         [Log LWarn ''Browser process cleanup completed with warnings''
            (Some (message e))]\<rparr>)) \<and>
   (sendNotifications_full_body sys (snd (logger LInfo ''Processing notifications'' None s)) =
      (Inl e, s2) \<longrightarrow>
    sendNotifications_full sys s =
      (Inr (), s2\<lparr>logs := logs s2 @
         [Log LError ''Failed to send notifications'' (Some (message e))]\<rparr>)) \<and>
   (\<exists>s'. cleanupTemporaryFiles_body sys s = (Inr (), s')) \<and>
   (\<exists>s'. cleanupBrowserProcesses_body sys s = (Inr (), s')) \<and>
   (\<exists>s'. sendNotifications_full_body sys s = (Inr (), s'))"
proof (intro conjI impI)
  show "\<exists>r'. globalTeardown sys r = (Inr (), r') \<and>
          awaited r' = awaited r @ [''processTestArtifacts'', ''cleanupTemporaryFiles'',
            ''archiveLogs'', ''cleanupBrowserProcesses'', ''generateFinalSummary'']"
    using globalTeardown_run[of sys r] by (auto simp: teardown_phases_names)
  show "\<exists>r'. globalTeardown_full sys r = (Inr (), r') \<and>
          awaited r' = awaited r @ [''generateTestExecutionReport'', ''processTestArtifacts'',
            ''generateAllureReport'', ''cleanupTemporaryFiles'', ''archiveLogs'',
            ''generatePerformanceSummary'', ''sendNotifications'', ''cleanupBrowserProcesses'',
            ''generateFinalSummary'']"
    using globalTeardown_full_run[of sys r] by (auto simp: teardown_phases_full_names)
  show "archiveLogs sys s =
        (Inr (), s\<lparr>logs := logs s @ [Log LInfo ''Archiving logs'' None,
                      Log LError ''Failed to archive logs'' (Some (message e))],
                   world := w'\<rparr>)"
    if "fs_mkdir sys (path_join [dirname sys, ''../../logs/archive'']) (world s) = (Inl e, w')"
    using that by (rule archiveLogs_logs_failure)
  show "processTestArtifacts sys s =
      (Inr (), s2\<lparr>logs := logs s2 @
         [Log LError ''Failed to process test artifacts'' (Some (message e))]\<rparr>)"
    if "processTestArtifacts_body sys (snd (logger LInfo ''Processing test artifacts'' None s)) =
      (Inl e, s2)"
    unfolding processTestArtifacts_def using that by (rule guarded_logs_failure)
  show "processTestArtifacts_full sys s =
      (Inr (), s2\<lparr>logs := logs s2 @
         [Log LError ''Failed to process test artifacts'' (Some (message e))]\<rparr>)"
    if "processTestArtifacts_full_body sys
          (snd (logger LInfo ''Processing test artifacts'' None s)) = (Inl e, s2)"
    unfolding processTestArtifacts_full_def using that by (rule guarded_logs_failure)
  show "archiveLogs sys s =
      (Inr (), s2\<lparr>logs := logs s2 @
         [Log LError ''Failed to archive logs'' (Some (message e))]\<rparr>)"
    if "archiveLogs_body sys (snd (logger LInfo ''Archiving logs'' None s)) = (Inl e, s2)"
    unfolding archiveLogs_def using that by (rule guarded_logs_failure)
  show "generateFinalSummary sys s =
      (Inr (), s2\<lparr>logs := logs s2 @
         [Log LError ''Failed to generate final summary'' (Some (message e))]\<rparr>)"
    if "generateFinalSummary_body sys (snd (logger LInfo ''Generating final summary'' None s)) =
      (Inl e, s2)"
    unfolding generateFinalSummary_def using that by (rule guarded_logs_failure)
  show "generateFinalSummary_full sys s =
      (Inr (), s2\<lparr>logs := logs s2 @
         [Log LError ''Failed to generate final summary'' (Some (message e))]\<rparr>)"
    if "generateFinalSummary_full_body sys
          (snd (logger LInfo ''Generating final summary'' None s)) = (Inl e, s2)"
    unfolding generateFinalSummary_full_def using that by (rule guarded_logs_failure)
  show "generateTestExecutionReport sys s =
      (Inr (), s2\<lparr>logs := logs s2 @
         [Log LError ''Failed to generate test execution report'' (Some (message e))]\<rparr>)"
    if "generateTestExecutionReport_body sys
      (snd (logger LInfo ''Generating test execution report'' None s)) = (Inl e, s2)"
    unfolding generateTestExecutionReport_def using that by (rule guarded_logs_failure)
  show "generatePerformanceSummary_full sys s =
      (Inr (), s2\<lparr>logs := logs s2 @
         [Log LError ''Failed to generate performance summary'' (Some (message e))]\<rparr>)"
    if "generatePerformanceSummary_full_body sys
      (snd (logger LInfo ''Generating performance summary'' None s)) = (Inl e, s2)"
    unfolding generatePerformanceSummary_full_def using that by (rule guarded_logs_failure)
  show "generateAllureReport sys s =
      (Inr (), s2\<lparr>logs := logs s2 @
         [Log LError ''Failed to generate Allure report'' (Some (message e))]\<rparr>)"
    if "truthy (env s ''ALLURE_RESULTS_DIR'') \<and>
        generateAllureReport_body sys (snd (logger LInfo ''Generating Allure report'' None s)) =
          (Inl e, s2)"
    using that generateAllureReport_logs_failure by blast
  show "cleanupTemporaryFiles sys s =
      (Inr (), s2\<lparr>logs := logs s2 @
         [Log LError ''Failed to cleanup temporary files'' (Some (message e))]\<rparr>)"
    if "cleanupTemporaryFiles_body sys
          (snd (logger LInfo ''Cleaning up temporary files'' None s)) = (Inl e, s2)"
    unfolding cleanupTemporaryFiles_def using that by (rule guarded_logs_failure)
  show "cleanupBrowserProcesses sys s =
      (Inr (), s2\<lparr>logs := logs s2 @
         [Log LWarn ''Browser process cleanup completed with warnings''
            (Some (message e))]\<rparr>)"
    if "cleanupBrowserProcesses_body sys
          (snd (logger LInfo ''Cleaning up browser processes'' None s)) = (Inl e, s2)"
    unfolding cleanupBrowserProcesses_def using that by (rule guarded_logs_failure)
  show "sendNotifications_full sys s =
      (Inr (), s2\<lparr>logs := logs s2 @
         [Log LError ''Failed to send notifications'' (Some (message e))]\<rparr>)"
    if "sendNotifications_full_body sys
          (snd (logger LInfo ''Processing notifications'' None s)) = (Inl e, s2)"
    unfolding sendNotifications_full_def using that by (rule guarded_logs_failure)
  show "\<exists>s'. cleanupTemporaryFiles_body sys s = (Inr (), s')"
    by (rule cleanupTemporaryFiles_body_total)
  show "\<exists>s'. cleanupBrowserProcesses_body sys s = (Inr (), s')"
    by (rule cleanupBrowserProcesses_body_total)
  show "\<exists>s'. sendNotifications_full_body sys s = (Inr (), s')"
    by (rule sendNotifications_full_body_total)
qed

theorem globalTeardown_never_propagates_witness:
  "fs_mkdir sys_readonly (path_join [dirname sys_readonly, ''../../logs/archive'']) (world node0)
     = (Inl eacces, ()) \<and>
   archiveLogs sys_readonly node0 =
     (Inr (), node0\<lparr>logs := [Log LInfo ''Archiving logs'' None,
        Log LError ''Failed to archive logs'' (Some ''EACCES: permission denied'')]\<rparr>) \<and>
   fst (globalTeardown sys_readonly run0) = Inr () \<and>
   awaited (snd (globalTeardown sys_readonly run0)) =
     [''processTestArtifacts'', ''cleanupTemporaryFiles'', ''archiveLogs'',
      ''cleanupBrowserProcesses'', ''generateFinalSummary''] \<and>
   processTestArtifacts sys_readonly node0 =
     (Inr (), node0\<lparr>logs := [Log LInfo ''Processing test artifacts'' None,
        Log LError ''Failed to process test artifacts'' (Some ''EACCES: permission denied'')]\<rparr>) \<and>
   processTestArtifacts_full sys_readonly node0 =
     (Inr (), node0\<lparr>logs := [Log LInfo ''Processing test artifacts'' None,
        Log LError ''Failed to process test artifacts'' (Some ''EACCES: permission denied'')]\<rparr>) \<and>
   generateFinalSummary sys_disk_full node0 =
     (Inr (), node0\<lparr>logs := [Log LInfo ''Generating final summary'' None,
        Log LError ''Failed to generate final summary''
          (Some ''ENOSPC: no space left on device'')]\<rparr>) \<and>
   generateFinalSummary_full sys_disk_full node0 =
     (Inr (), node0\<lparr>logs := [Log LInfo ''Generating final summary'' None,
        Log LDebug ''JUnit results file found'' None,
        Log LError ''Failed to generate final summary''
          (Some ''ENOSPC: no space left on device'')]\<rparr>) \<and>
   generateTestExecutionReport sys_readonly node0 =
     (Inr (), node0\<lparr>logs := [Log LInfo ''Generating test execution report'' None,
        Log LDebug ''JUnit results file found'' None,
        Log LError ''Failed to generate test execution report''
          (Some ''EACCES: permission denied'')]\<rparr>) \<and>
   generatePerformanceSummary_full sys_readonly node0 =
     (Inr (), node0\<lparr>logs := [Log LInfo ''Generating performance summary'' None,
        Log LError ''Failed to generate performance summary''
          (Some ''EACCES: permission denied'')]\<rparr>) \<and>
   generateAllureReport sys_no_npx node_allure =
     (Inr (), node_allure\<lparr>logs := [Log LInfo ''Generating Allure report'' None,
        Log LError ''Failed to generate Allure report'' (Some ''spawn npx ENOENT'')]\<rparr>)"
proof -
  have h: "fs_mkdir sys_readonly (path_join [dirname sys_readonly, ''../../logs/archive''])
             (world node0) = (Inl eacces, ())"
    by (simp add: sys_readonly_def)
  note readonly = globalTeardown_never_propagates[where sys = sys_readonly and r = run0
      and s = node0 and e = eacces and w' = "()"]
  note disk_full = globalTeardown_never_propagates[where sys = sys_disk_full and s = node0
      and e = enospc, THEN conjunct2, THEN conjunct2, THEN conjunct2, THEN conjunct2,
      THEN conjunct2, THEN conjunct2]
  note no_npx = globalTeardown_never_propagates[where sys = sys_no_npx and s = node_allure
      and e = enoent, THEN conjunct2, THEN conjunct2, THEN conjunct2, THEN conjunct2,
      THEN conjunct2, THEN conjunct2, THEN conjunct2, THEN conjunct2, THEN conjunct2,
      THEN conjunct2, THEN conjunct1]
  note phases = readonly[THEN conjunct2, THEN conjunct2, THEN conjunct2]
  have c1: "archiveLogs sys_readonly node0 =
     (Inr (), node0\<lparr>logs := [Log LInfo ''Archiving logs'' None,
        Log LError ''Failed to archive logs'' (Some ''EACCES: permission denied'')]\<rparr>)"
    using readonly[THEN conjunct2, THEN conjunct2, THEN conjunct1] h
    by (simp add: node0_def eacces_def)
  have c2: "fst (globalTeardown sys_readonly run0) = Inr () \<and>
     awaited (snd (globalTeardown sys_readonly run0)) =
       [''processTestArtifacts'', ''cleanupTemporaryFiles'', ''archiveLogs'',
        ''cleanupBrowserProcesses'', ''generateFinalSummary'']"
    using readonly[THEN conjunct1] by (auto simp: run0_def)
  have c3: "processTestArtifacts sys_readonly node0 =
     (Inr (), node0\<lparr>logs := [Log LInfo ''Processing test artifacts'' None,
        Log LError ''Failed to process test artifacts'' (Some ''EACCES: permission denied'')]\<rparr>)"
    using phases[THEN conjunct1, THEN mp, OF processTestArtifacts_body_readonly]
    by (simp add: node0_def eacces_def)
  have c4: "processTestArtifacts_full sys_readonly node0 =
     (Inr (), node0\<lparr>logs := [Log LInfo ''Processing test artifacts'' None,
        Log LError ''Failed to process test artifacts'' (Some ''EACCES: permission denied'')]\<rparr>)"
    using phases[THEN conjunct2, THEN conjunct1, THEN mp, OF processTestArtifacts_full_body_readonly]
    by (simp add: node0_def eacces_def)
  have c5: "generateFinalSummary sys_disk_full node0 =
     (Inr (), node0\<lparr>logs := [Log LInfo ''Generating final summary'' None,
        Log LError ''Failed to generate final summary''
          (Some ''ENOSPC: no space left on device'')]\<rparr>)"
    using disk_full[THEN conjunct1, THEN mp, OF generateFinalSummary_body_disk_full]
    by (simp add: node0_def enospc_def)
  have c6: "generateFinalSummary_full sys_disk_full node0 =
     (Inr (), node0\<lparr>logs := [Log LInfo ''Generating final summary'' None,
        Log LDebug ''JUnit results file found'' None,
        Log LError ''Failed to generate final summary''
          (Some ''ENOSPC: no space left on device'')]\<rparr>)"
    using disk_full[THEN conjunct2, THEN conjunct1, THEN mp,
        OF generateFinalSummary_full_body_disk_full]
    by (simp add: node0_def enospc_def)
  have c7: "generateTestExecutionReport sys_readonly node0 =
     (Inr (), node0\<lparr>logs := [Log LInfo ''Generating test execution report'' None,
        Log LDebug ''JUnit results file found'' None,
        Log LError ''Failed to generate test execution report''
          (Some ''EACCES: permission denied'')]\<rparr>)"
    using phases[THEN conjunct2, THEN conjunct2, THEN conjunct2, THEN conjunct2, THEN conjunct2,
        THEN conjunct1, THEN mp, OF generateTestExecutionReport_body_readonly]
    by (simp add: node0_def eacces_def)
  have c8: "generatePerformanceSummary_full sys_readonly node0 =
     (Inr (), node0\<lparr>logs := [Log LInfo ''Generating performance summary'' None,
        Log LError ''Failed to generate performance summary''
          (Some ''EACCES: permission denied'')]\<rparr>)"
    using phases[THEN conjunct2, THEN conjunct2, THEN conjunct2, THEN conjunct2, THEN conjunct2,
        THEN conjunct2, THEN conjunct1, THEN mp, OF generatePerformanceSummary_full_body_readonly]
    by (simp add: node0_def eacces_def)
  have a1: "truthy (env node_allure ''ALLURE_RESULTS_DIR'')"
    by (simp add: node_allure_def node0_def truthy_def)
  have c9: "generateAllureReport sys_no_npx node_allure =
     (Inr (), node_allure\<lparr>logs := [Log LInfo ''Generating Allure report'' None,
        Log LError ''Failed to generate Allure report'' (Some ''spawn npx ENOENT'')]\<rparr>)"
    using no_npx[THEN mp, OF conjI, OF a1 generateAllureReport_body_no_npx]
    by (simp add: node_allure_def node0_def enoent_def)
  from h c1 c2 c3 c4 c5 c6 c7 c8 c9 show ?thesis by (intro conjI) simp_all
qed

section \<open>The history of a run\<close>

lemma setup_names_are_phases:
  "name \<in> set (map fst (setup_phases sys)) \<Longrightarrow>
   name \<noteq> ''emergencyCleanup'' \<and> name \<noteq> ''basicCleanup''"
  by (auto simp: setup_phases_names)

lemma filter_phase_names:
  "set names \<subseteq> set (map fst (setup_phases sys)) \<Longrightarrow>
   filter (\<lambda>name. name \<noteq> ''emergencyCleanup'' \<and> name \<noteq> ''basicCleanup'') names = names"
  using setup_names_are_phases[of _ sys] by (induction names) auto

text \<open>
  C1, as amended. A run starts with an empty history. After a teardown run the history
  holds exactly one entry per phase of the pipeline. After a setup run it holds one entry
  for each phase up to and including the first one that throws, and nothing for the
  phases after it, which are not called. So it is never longer than the pipeline; it is
  the whole pipeline when setup returns normally; and when phase \<open>k\<close> (counted from 0) is
  the first to throw it has \<open>k + 1\<close> entries, which is fewer than the pipeline has phases
  unless that phase is the last one.
\<close>

theorem ledger_of_a_run:
  "awaited r = [] \<longrightarrow>
   phase_ledger (snd (globalTeardown sys r)) = map fst (teardown_phases sys) \<and>
   phase_ledger (snd (globalTeardown_full sys r)) = map fst (teardown_phases_full sys) \<and>
   length (phase_ledger (snd (globalSetup sys r))) \<le> length (setup_phases sys) \<and>
   (fst (globalSetup sys r) = Inr () \<longrightarrow>
      phase_ledger (snd (globalSetup sys r)) = map fst (setup_phases sys)) \<and>
   (k < length (setup_phases sys) \<and>
    block (map snd (take k (setup_phases sys)))
      (snd (logger LInfo ''Starting Global Setup'' None (node r))) = (Inr (), n1) \<and>
    snd (setup_phases sys ! k) n1 = (Inl e, n2) \<longrightarrow>
      phase_ledger (snd (globalSetup sys r)) = map fst (take (Suc k) (setup_phases sys)) \<and>
      length (phase_ledger (snd (globalSetup sys r))) = Suc k \<and>
      (length (phase_ledger (snd (globalSetup sys r))) = length (setup_phases sys)) =
        (Suc k = length (setup_phases sys)))"
proof (intro impI conjI)
  assume fresh: "awaited r = []"
  let ?n0 = "snd (logger LInfo ''Starting Global Setup'' None (node r))"
  show "phase_ledger (snd (globalTeardown sys r)) = map fst (teardown_phases sys)"
    using globalTeardown_run[of sys r] fresh
    by (auto simp: phase_ledger_def teardown_phases_names)
  show "phase_ledger (snd (globalTeardown_full sys r)) = map fst (teardown_phases_full sys)"
    using globalTeardown_full_run[of sys r] fresh
    by (auto simp: phase_ledger_def teardown_phases_full_names)
  have on_failure: "phase_ledger (snd (globalSetup sys r)) = map fst (take (Suc j) (setup_phases sys))"
    if "j < length (setup_phases sys)"
      and "block (map snd (take j (setup_phases sys))) ?n0 = (Inr (), m1)"
      and "snd (setup_phases sys ! j) m1 = (Inl e', m2)" for j m1 e' m2
  proof -
    have "set (map fst (take (Suc j) (setup_phases sys))) \<subseteq> set (map fst (setup_phases sys))"
      by (metis set_take_subset take_map)
    from filter_phase_names[OF this] globalSetup_on_failure[OF that] fresh
    show ?thesis by (simp add: phase_ledger_def)
  qed
  have on_success: "phase_ledger (snd (globalSetup sys r)) = map fst (setup_phases sys)"
    if "block (map snd (setup_phases sys)) ?n0 = (Inr (), m1)" for m1
    using globalSetup_on_success[OF that] fresh filter_phase_names[of "map fst (setup_phases sys)" sys]
    by (simp add: phase_ledger_def)
  show "length (phase_ledger (snd (globalSetup sys r))) \<le> length (setup_phases sys)"
    using block_outcome[of "setup_phases sys" ?n0] on_failure on_success by fastforce
  show "phase_ledger (snd (globalSetup sys r)) = map fst (setup_phases sys)"
    if ok: "fst (globalSetup sys r) = Inr ()"
  proof -
    from block_outcome[of "setup_phases sys" ?n0] show ?thesis
    proof
      assume "\<exists>m1. block (map snd (setup_phases sys)) ?n0 = (Inr (), m1)"
      then show ?thesis using on_success by blast
    next
      assume "\<exists>j<length (setup_phases sys). \<exists>m1 e' m2.
        block (map snd (take j (setup_phases sys))) ?n0 = (Inr (), m1) \<and>
        snd (setup_phases sys ! j) m1 = (Inl e', m2)"
      then obtain j m1 e' m2 where j: "j < length (setup_phases sys)"
        and a: "block (map snd (take j (setup_phases sys))) ?n0 = (Inr (), m1)"
        and b: "snd (setup_phases sys ! j) m1 = (Inl e', m2)" by blast
      from globalSetup_on_failure[OF j a b] ok show ?thesis by simp
    qed
  qed
  assume first_failure: "k < length (setup_phases sys) \<and>
        block (map snd (take k (setup_phases sys))) ?n0 = (Inr (), n1) \<and>
        snd (setup_phases sys ! k) n1 = (Inl e, n2)"
  then show prefix: "phase_ledger (snd (globalSetup sys r)) = map fst (take (Suc k) (setup_phases sys))"
    using on_failure by blast
  from first_failure show entries: "length (phase_ledger (snd (globalSetup sys r))) = Suc k"
    unfolding prefix by simp
  show "(length (phase_ledger (snd (globalSetup sys r))) = length (setup_phases sys)) =
        (Suc k = length (setup_phases sys))"
    unfolding entries ..
qed

text \<open>
  C1 as stated fails: with no environment variable set, \<^verbatim>\<open>validateEnvironment\<close> throws,
  the six phases after it leave no entry, and the history has two phase entries for a
  pipeline of eight.
\<close>

theorem ledger_shorter_counterexample:
  "length (phase_ledger (snd (globalSetup sys_ok run0))) \<noteq> length (setup_phases sys_ok)"
proof -
  have h1: "1 < length (setup_phases sys_ok)" by (simp add: length_setup_phases)
  from globalSetup_on_failure[OF h1 setup_run0_prefix setup_run0_failure]
  show ?thesis
    by (simp add: phase_ledger_def run0_def take_map[symmetric] setup_phases_names length_setup_phases)
qed

theorem ledger_of_a_run_witness:
  "awaited run0 = [] \<and>
   phase_ledger (snd (globalTeardown sys_ok run0)) =
     [''processTestArtifacts'', ''cleanupTemporaryFiles'', ''archiveLogs'',
      ''cleanupBrowserProcesses'', ''generateFinalSummary''] \<and>
   phase_ledger (snd (globalSetup sys_ok run0)) = [''createDirectories'', ''validateEnvironment''] \<and>
   length (phase_ledger (snd (globalSetup sys_ok run0))) = 2"
proof -
  have h0: "awaited run0 = []" by (simp add: run0_def)
  have h1: "1 < length (setup_phases sys_ok)" by (simp add: length_setup_phases)
  from ledger_of_a_run[of run0 sys_ok 1 _ missing_all _] h0 h1 setup_run0_prefix setup_run0_failure
  show ?thesis
    by (simp add: take_map[symmetric] setup_phases_names teardown_phases_names)
qed

section \<open>Properties of the performance data\<close>

lemma str_includes_iff: "str_includes s t \<longleftrightarrow> (\<exists>ps ss. s = ps @ t @ ss)"
proof (induction s)
  case Nil
  then show ?case by simp
next
  case (Cons c s)
  show ?case
  proof
    assume "str_includes (c # s) t"
    then consider "take (length t) (c # s) = t" | "str_includes s t" by auto
    then show "\<exists>ps ss. c # s = ps @ t @ ss"
    proof cases
      case 1
      then have "c # s = [] @ t @ drop (length t) (c # s)"
        by (metis append_Nil append_take_drop_id)
      then show ?thesis by blast
    next
      case 2
      with Cons.IH obtain ps ss where "s = ps @ t @ ss" by blast
      then have "c # s = (c # ps) @ t @ ss" by simp
      then show ?thesis by blast
    qed
  next
    assume "\<exists>ps ss. c # s = ps @ t @ ss"
    then obtain ps ss where eq: "c # s = ps @ t @ ss" by blast
    show "str_includes (c # s) t"
    proof (cases ps)
      case Nil
      with eq have "take (length t) (c # s) = t" by simp
      then show ?thesis by simp
    next
      case (Cons p ps')
      with eq have "s = ps' @ t @ ss" by simp
      with Cons.IH show ?thesis by auto
    qed
  qed
qed

lemma performance_entry_type:
  assumes "performance_entry logEntry = Inr (Some d)" and "testName d = JStr label"
  shows "type d = (if str_includes label ''API'' then apiResponse else pageLoad)"
  using assms
  by (auto simp: performance_entry_def includes_API_def
      split: sum.splits if_splits json.splits option.splits)

lemma pushed_by_an_entry:
  "d \<in> set (case parse l of None \<Rightarrow> [] | Some logEntry \<Rightarrow>
             (case performance_entry logEntry of Inr (Some d) \<Rightarrow> [d] | _ \<Rightarrow> [])) \<Longrightarrow>
   \<exists>logEntry. performance_entry logEntry = Inr (Some d)"
proof (cases "parse l")
  case None
  assume "d \<in> set (case parse l of None \<Rightarrow> [] | Some logEntry \<Rightarrow>
             (case performance_entry logEntry of Inr (Some d) \<Rightarrow> [d] | _ \<Rightarrow> []))"
  with None show ?thesis by simp
next
  case (Some j)
  assume mem: "d \<in> set (case parse l of None \<Rightarrow> [] | Some logEntry \<Rightarrow>
             (case performance_entry logEntry of Inr (Some d) \<Rightarrow> [d] | _ \<Rightarrow> []))"
  show ?thesis
  proof (cases "performance_entry j")
    case (Inl e)
    with Some mem show ?thesis by simp
  next
    case (Inr x)
    with Some mem show ?thesis by (cases x) auto
  qed
qed

lemma performanceRecords_step:
  assumes "d \<in> set (performanceRecords parse (l # ls))"
  shows "d \<in> set (case parse l of None \<Rightarrow> [] | Some logEntry \<Rightarrow>
             (case performance_entry logEntry of Inr (Some d) \<Rightarrow> [d] | _ \<Rightarrow> []))
         \<or> d \<in> set (performanceRecords parse ls)"
proof -
  from assms have m: "d \<in> set (if str_includes l performance_marker
                  then case parse l of None \<Rightarrow> [] | Some logEntry \<Rightarrow>
                    (case performance_entry logEntry of Inr (Some d) \<Rightarrow> [d] | _ \<Rightarrow> [])
                  else [])
             \<or> d \<in> set (performanceRecords parse ls)"
    by (simp only: performanceRecords.simps set_append Un_iff)
  show ?thesis
  proof (cases "str_includes l performance_marker")
    case True
    with m show ?thesis by (simp only: if_True)
  next
    case False
    with m have "d \<in> set [] \<or> d \<in> set (performanceRecords parse ls)"
      by (simp only: if_False)
    then show ?thesis by (simp only: list.set empty_iff) blast
  qed
qed

lemma performanceRecords_entry:
  "d \<in> set (performanceRecords parse ls) \<Longrightarrow> \<exists>logEntry. performance_entry logEntry = Inr (Some d)"
proof (induction ls)
  case Nil
  then show ?case by simp
next
  case (Cons l ls)
  from performanceRecords_step[OF Cons.prems] show ?case
  proof
    assume "d \<in> set (case parse l of None \<Rightarrow> [] | Some logEntry \<Rightarrow>
             (case performance_entry logEntry of Inr (Some d) \<Rightarrow> [d] | _ \<Rightarrow> []))"
    then show ?thesis by (rule pushed_by_an_entry)
  next
    assume "d \<in> set (performanceRecords parse ls)"
    then show ?thesis by (rule Cons.IH)
  qed
qed

lemma performance_entry_full_fields:
  assumes "performance_entry_full show_number logEntry = Inr d"
    and "testName_full d = JStr label"
  shows "(apiResponse_full d \<noteq> None \<longleftrightarrow> str_includes label ''API'') \<and>
         (pageLoad_full d \<noteq> None \<longleftrightarrow> label = ''Page Navigation'')"
  using assms
  by (auto simp: performance_entry_full_def includes_API_opt_def includes_API_def json_truthy_def
      split: sum.splits if_splits json.splits option.splits)

lemma pushed_by_an_entry_full:
  "d \<in> set (case parse l of None \<Rightarrow> [] | Some logEntry \<Rightarrow>
             (case performance_entry_full show_number logEntry of Inr d \<Rightarrow> [d] | Inl _ \<Rightarrow> [])) \<Longrightarrow>
   \<exists>logEntry. performance_entry_full show_number logEntry = Inr d"
proof (cases "parse l")
  case None
  assume "d \<in> set (case parse l of None \<Rightarrow> [] | Some logEntry \<Rightarrow>
             (case performance_entry_full show_number logEntry of Inr d \<Rightarrow> [d] | Inl _ \<Rightarrow> []))"
  with None show ?thesis by simp
next
  case (Some j)
  assume mem: "d \<in> set (case parse l of None \<Rightarrow> [] | Some logEntry \<Rightarrow>
             (case performance_entry_full show_number logEntry of Inr d \<Rightarrow> [d] | Inl _ \<Rightarrow> []))"
  with Some show ?thesis by (cases "performance_entry_full show_number j") auto
qed

lemma performanceRecords_full_step:
  assumes "d \<in> set (performanceRecords_full show_number parse (l # ls))"
  shows "d \<in> set (case parse l of None \<Rightarrow> [] | Some logEntry \<Rightarrow>
             (case performance_entry_full show_number logEntry of Inr d \<Rightarrow> [d] | Inl _ \<Rightarrow> []))
         \<or> d \<in> set (performanceRecords_full show_number parse ls)"
proof -
  from assms have m: "d \<in> set (if str_includes l performance_marker
                  then case parse l of None \<Rightarrow> [] | Some logEntry \<Rightarrow>
                    (case performance_entry_full show_number logEntry of
                       Inr d \<Rightarrow> [d] | Inl _ \<Rightarrow> [])
                  else [])
             \<or> d \<in> set (performanceRecords_full show_number parse ls)"
    by (simp only: performanceRecords_full.simps set_append Un_iff)
  show ?thesis
  proof (cases "str_includes l performance_marker")
    case True
    with m show ?thesis by (simp only: if_True)
  next
    case False
    with m have "d \<in> set [] \<or> d \<in> set (performanceRecords_full show_number parse ls)"
      by (simp only: if_False)
    then show ?thesis by (simp only: list.set empty_iff) blast
  qed
qed

lemma performanceRecords_full_entry:
  "d \<in> set (performanceRecords_full show_number parse ls) \<Longrightarrow>
   \<exists>logEntry. performance_entry_full show_number logEntry = Inr d"
proof (induction ls)
  case Nil
  then show ?case by simp
next
  case (Cons l ls)
  from performanceRecords_full_step[OF Cons.prems] show ?case
  proof
    assume "d \<in> set (case parse l of None \<Rightarrow> [] | Some logEntry \<Rightarrow>
             (case performance_entry_full show_number logEntry of Inr d \<Rightarrow> [d] | Inl _ \<Rightarrow> []))"
    then show ?thesis by (rule pushed_by_an_entry_full)
  next
    assume "d \<in> set (performanceRecords_full show_number parse ls)"
    then show ?thesis by (rule Cons.IH)
  qed
qed

text \<open>
  C7, as amended. In the second module's collector a record whose label is a string has
  type \<^verbatim>\<open>apiResponse\<close> exactly when the label contains \<^verbatim>\<open>API\<close>, and \<^verbatim>\<open>pageLoad\<close>
  otherwise. In the first module's collector a record with a string label carries an
  \<^verbatim>\<open>apiResponse\<close> number exactly when the label contains \<^verbatim>\<open>API\<close>, and a \<^verbatim>\<open>pageLoad\<close>
  number exactly when the label is \<^verbatim>\<open>Page Navigation\<close>.
\<close>

theorem category_of_a_record:
  "(d \<in> set (performanceRecords parse lines) \<and> testName d = JStr label \<longrightarrow>
      (type d = apiResponse \<longleftrightarrow> (\<exists>ps ss. label = ps @ ''API'' @ ss)) \<and>
      (type d = pageLoad \<longleftrightarrow> \<not> (\<exists>ps ss. label = ps @ ''API'' @ ss))) \<and>
   (d' \<in> set (performanceRecords_full show_number parse lines) \<and> testName_full d' = JStr label' \<longrightarrow>
      (apiResponse_full d' \<noteq> None \<longleftrightarrow> (\<exists>ps ss. label' = ps @ ''API'' @ ss)) \<and>
      (pageLoad_full d' \<noteq> None \<longleftrightarrow> label' = ''Page Navigation''))"
proof (intro conjI impI)
  assume a: "d \<in> set (performanceRecords parse lines) \<and> testName d = JStr label"
  then obtain logEntry where "performance_entry logEntry = Inr (Some d)"
    using performanceRecords_entry by blast
  from performance_entry_type[OF this] a
  have t: "type d = (if str_includes label ''API'' then apiResponse else pageLoad)" by simp
  show "type d = apiResponse \<longleftrightarrow> (\<exists>ps ss. label = ps @ ''API'' @ ss)"
    using t by (simp add: str_includes_iff)
  show "type d = pageLoad \<longleftrightarrow> \<not> (\<exists>ps ss. label = ps @ ''API'' @ ss)"
    using t by (simp add: str_includes_iff)
next
  assume a: "d' \<in> set (performanceRecords_full show_number parse lines) \<and>
             testName_full d' = JStr label'"
  then obtain logEntry where "performance_entry_full show_number logEntry = Inr d'"
    using performanceRecords_full_entry by blast
  from performance_entry_full_fields[OF this] a
  have f: "(apiResponse_full d' \<noteq> None \<longleftrightarrow> str_includes label' ''API'') \<and>
           (pageLoad_full d' \<noteq> None \<longleftrightarrow> label' = ''Page Navigation'')" by simp
  show "apiResponse_full d' \<noteq> None \<longleftrightarrow> (\<exists>ps ss. label' = ps @ ''API'' @ ss)"
    using f by (simp add: str_includes_iff)
  show "pageLoad_full d' \<noteq> None \<longleftrightarrow> label' = ''Page Navigation''"
    using f by simp
qed

lemma marker_in_login_line: "str_includes login_line performance_marker"
  by (simp add: login_line_def performance_marker_def dq_def)

lemma marker_in_api_line: "str_includes api_line performance_marker"
  by (simp add: api_line_def performance_marker_def dq_def)

lemma lines_differ: "login_line \<noteq> api_line"
  by (simp add: login_line_def api_line_def dq_def)

lemma parseInt_120ms: "parseInt ''120ms'' = Fin 120"
  by (simp add: parseInt_def trimStart_stop space_length_def white_space_def is_digit_in_def
      digit_val_def digits_value_def Let_def)

lemma parseInt_120: "parseInt ''120'' = Fin 120"
  by (simp add: parseInt_def trimStart_stop space_length_def white_space_def is_digit_in_def
      digit_val_def digits_value_def Let_def)

lemma parseInt_80: "parseInt ''80'' = Fin 80"
  by (simp add: parseInt_def trimStart_stop space_length_def white_space_def is_digit_in_def
      digit_val_def digits_value_def Let_def)

lemma sample_records:
  "performanceRecords sample_parse [login_line, api_line] =
     [\<lparr>testName = JStr ''Login'', type = pageLoad, duration = Fin 120, timestamp = None\<rparr>,
      \<lparr>testName = JStr ''API GET /users'', type = apiResponse, duration = Fin 80,
        timestamp = None\<rparr>]"
  using lines_differ
  by (simp add: marker_in_login_line marker_in_api_line sample_parse_def performance_entry_def
      member_def json_truthy_def includes_API_def parseInt_120 parseInt_80)

lemma sample_records_full:
  "performanceRecords_full show_number sample_parse [login_line] =
     [\<lparr>testName_full = JStr ''Login'', pageLoad_full = None, apiResponse_full = None,
       timestamp_full = None\<rparr>]"
  by (simp add: marker_in_login_line sample_parse_def performance_entry_full_def
      member_def json_truthy_def includes_API_opt_def includes_API_def)

text \<open>
  C7 as stated fails in the first module: the record of a line whose action is
  \<^verbatim>\<open>Login\<close> has no \<^verbatim>\<open>apiResponse\<close> number, as its label does not contain \<^verbatim>\<open>API\<close>, and no
  \<^verbatim>\<open>pageLoad\<close> number either.
\<close>

theorem category_of_a_record_counterexample:
  "performanceRecords_full (\<lambda>_. []) sample_parse [login_line] =
     [\<lparr>testName_full = JStr ''Login'', pageLoad_full = None, apiResponse_full = None,
       timestamp_full = None\<rparr>] \<and>
   \<not> str_includes ''Login'' ''API''"
proof
  show "performanceRecords_full (\<lambda>_. []) sample_parse [login_line] =
     [\<lparr>testName_full = JStr ''Login'', pageLoad_full = None, apiResponse_full = None,
       timestamp_full = None\<rparr>]"
    by (rule sample_records_full)
  show "\<not> str_includes ''Login'' ''API''" by simp
qed

theorem category_of_a_record_witness:
  "\<lparr>testName = JStr ''API GET /users'', type = apiResponse, duration = Fin 80, timestamp = None\<rparr>
     \<in> set (performanceRecords sample_parse [login_line, api_line]) \<and>
   (\<exists>ps ss. ''API GET /users'' = ps @ ''API'' @ ss) \<and>
   \<lparr>testName_full = JStr ''Login'', pageLoad_full = None, apiResponse_full = None,
     timestamp_full = None\<rparr> \<in> set (performanceRecords_full (\<lambda>_. []) sample_parse [login_line]) \<and>
   ''Login'' \<noteq> ''Page Navigation''"
proof -
  let ?d = "\<lparr>testName = JStr ''API GET /users'', type = apiResponse, duration = Fin 80,
              timestamp = None\<rparr>"
  let ?d' = "\<lparr>testName_full = JStr ''Login'', pageLoad_full = None, apiResponse_full = None,
               timestamp_full = None\<rparr>"
  have h1: "?d \<in> set (performanceRecords sample_parse [login_line, api_line])"
    unfolding sample_records by simp
  have h2: "?d' \<in> set (performanceRecords_full (\<lambda>_. []) sample_parse [login_line])"
    unfolding sample_records_full by simp
  have t1: "testName ?d = JStr ''API GET /users''" and t2: "type ?d = apiResponse" by simp_all
  have t3: "testName_full ?d' = JStr ''Login''" and t4: "pageLoad_full ?d' = None" by simp_all
  note inst = category_of_a_record[of ?d sample_parse "[login_line, api_line]" "''API GET /users''"
      ?d' "\<lambda>_. []" "''Login''"]
  from inst h1 t1 t2 have c1: "\<exists>ps ss. ''API GET /users'' = ps @ ''API'' @ ss" by blast
  from inst h2 t3 t4 have c2: "''Login'' \<noteq> ''Page Navigation''" by blast
  from h1 h2 c1 c2 show ?thesis by blast
qed

text \<open>
  C5. An empty log file has the single empty line, which yields no record. For no
  record the report has count 0, both averages 0 and no violation, but both maxima are
  \<^verbatim>\<open>Math.max()\<close> of no argument, which is \<^verbatim>\<open>-Infinity\<close> and not 0: \<^verbatim>\<open>d.duration || 0\<close>
  guards each element, not the empty list.
\<close>

theorem empty_log_summary:
  "performanceRecords parse (split_lines []) = [] \<and>
   performanceReport penv [] =
     \<lparr>totalMeasurements = 0, averagePageLoad = Fin 0, averageApiResponse = Fin 0,
      slowestPageLoad = NegInfinity, slowestApiResponse = NegInfinity,
      pageLoadThreshold = parseInt (or_default (penv ''PAGE_LOAD_THRESHOLD'') ''5000''),
      apiResponseThreshold = parseInt (or_default (penv ''API_RESPONSE_THRESHOLD'') ''3000''),
      violations = []\<rparr>"
  by (simp add: performanceReport_def calculateAverage_def Math_max_def performance_marker_def Let_def)

section \<open>Properties of artifact collection\<close>

text \<open>
  In the second module the copy loop never throws and attempts every matching file: the
  world after the loop is the world after one \<^verbatim>\<open>copyFile\<close> call per matching file, in
  order, whether or not the calls before it failed.
\<close>

lemma guarded_copy_step:
  "\<exists>s1. (if c then try_catch (sys_call f) (\<lambda>error. logger l m (d error)) else ret ()) s
           = (Inr (), s1) \<and>
        world s1 = (if c then snd (f (world s)) else world s)"
proof (cases c)
  case False
  then show ?thesis by (simp add: ret_def)
next
  case True
  obtain r w where rw: "f (world s) = (r, w)" by (cases "f (world s)")
  show ?thesis using True rw
    by (cases r) (simp_all add: try_catch_def sys_call_def logger_def)
qed

lemma copy_loop_attempts_all:
  "\<exists>s'. for_each files (\<lambda>file.
            if pattern_test file then
              try_catch (sys_call (fs_copyFile sys (src file) (tgt file)))
                (\<lambda>error. logger LDebug (''Failed to copy '' @ file) (Some (message error)))
            else ret ()) s = (Inr (), s') \<and>
        world s' = foldl (\<lambda>w file. snd (fs_copyFile sys (src file) (tgt file) w)) (world s)
                     (filter pattern_test files)"
proof (induction files arbitrary: s)
  case Nil
  then show ?case by (simp add: ret_def)
next
  case (Cons f fs)
  let ?body = "\<lambda>file.
            if pattern_test file then
              try_catch (sys_call (fs_copyFile sys (src file) (tgt file)))
                (\<lambda>error. logger LDebug (''Failed to copy '' @ file) (Some (message error)))
            else ret ()"
  obtain s1 where s1: "?body f s = (Inr (), s1)"
    and w1: "world s1 = (if pattern_test f
                         then snd (fs_copyFile sys (src f) (tgt f) (world s)) else world s)"
    using guarded_copy_step[of "pattern_test f" "fs_copyFile sys (src f) (tgt f)" LDebug
        "''Failed to copy '' @ f" "\<lambda>error. Some (message error)" s]
    by blast
  from Cons.IH[of s1] obtain s' where
    "for_each fs ?body s1 = (Inr (), s')"
    "world s' = foldl (\<lambda>w file. snd (fs_copyFile sys (src file) (tgt file) w)) (world s1)
                     (filter pattern_test fs)" by blast
  with s1 w1 show ?case by (simp add: seq_def bnd_def)
qed

lemma organizeArtifacts_copies_every_match:
  assumes "fs_mkdir sys (path_join [dirname sys, ''../../test-artifacts'', artifactType]) (world s)
             = (Inr (), w1)"
    and "fs_readdir sys artifactType w1 = (Inr files, w2)"
  shows "\<exists>s'. organizeArtifacts sys artifactType pattern_test s = (Inr (), s') \<and>
     world s' = foldl (\<lambda>w file. snd (fs_copyFile sys (path_join [artifactType, file])
         (path_join [path_join [dirname sys, ''../../test-artifacts'', artifactType], file]) w))
       w2 (filter pattern_test files)"
proof -
  let ?tgt = "path_join [dirname sys, ''../../test-artifacts'', artifactType]"
  let ?s2 = "s\<lparr>world := w2\<rparr>"
  from copy_loop_attempts_all[of files pattern_test sys "\<lambda>file. path_join [artifactType, file]"
      "\<lambda>file. path_join [?tgt, file]" ?s2]
  obtain s3 where loop: "for_each files (\<lambda>file.
            if pattern_test file then
              try_catch (sys_call (fs_copyFile sys (path_join [artifactType, file])
                                     (path_join [?tgt, file])))
                (\<lambda>error. logger LDebug (''Failed to copy '' @ file) (Some (message error)))
            else ret ()) ?s2 = (Inr (), s3)"
    and w3: "world s3 = foldl (\<lambda>w file. snd (fs_copyFile sys (path_join [artifactType, file])
         (path_join [?tgt, file]) w)) w2 (filter pattern_test files)"
    by auto
  show ?thesis
    using assms loop w3
    by (simp add: organizeArtifacts_def Let_def try_catch_def seq_def bnd_def or_else_def
        sys_call_def logger_def ret_def)
qed

lemma png_a: "regex_any_then ''png'' ''a.png''" by simp
lemma png_b: "regex_any_then ''png'' ''b.png''" by simp
lemma ext_a: "extension_test [''png'', ''jpg'', ''jpeg''] ''a.png''"
  by (simp add: extension_test_def endsWith_def lower_def)
lemma ext_b: "extension_test [''png'', ''jpg'', ''jpeg''] ''b.png''"
  by (simp add: extension_test_def endsWith_def lower_def)

text \<open>
  C8. In the first module the \<^verbatim>\<open>copyFile\<close> call has no \<^verbatim>\<open>try\<close> of its own. With
  \<^verbatim>\<open>a.png\<close> and \<^verbatim>\<open>b.png\<close> matching and the copy of \<^verbatim>\<open>a.png\<close> failing, the exception
  leaves the loop: \<^verbatim>\<open>b.png\<close> is never copied and the one log line is the warning of the
  outer \<^verbatim>\<open>catch\<close>. The second module, on the same system, logs the failure and copies
  \<^verbatim>\<open>b.png\<close>.
\<close>

theorem organizeArtifacts_full_aborts_batch:
  "organizeArtifacts_full sys_copyfail ''screenshots'' (regex_any_then ''png'') nothing_copied =
     (Inr (), nothing_copied\<lparr>logs := [Log LWarn ''Failed to organize screenshots artifacts''
                                        (Some ''ENOSPC: no space left on device'')]\<rparr>) \<and>
   organizeArtifacts sys_copyfail ''screenshots'' (extension_test [''png'', ''jpg'', ''jpeg''])
       nothing_copied =
     (Inr (), nothing_copied\<lparr>logs := [Log LDebug ''Failed to copy a.png''
                                        (Some ''ENOSPC: no space left on device''),
                                      Log LDebug ''Organized screenshots artifacts'' None],
                              world := [''screenshots/b.png'']\<rparr>)"
  by (simp add: organizeArtifacts_full_def organizeArtifacts_def png_a png_b ext_a ext_b
      sys_copyfail_def nothing_copied_def enospc_def path_join_def Let_def
      try_catch_def seq_def bnd_def or_else_def sys_call_def logger_def ret_def)

section \<open>Properties of ConfigManager\<close>

text \<open>
  C10. After \<^verbatim>\<open>set(K, v)\<close>, \<^verbatim>\<open>get(K)\<close> returns \<open>v\<close>; the loaded configuration is not
  touched by \<^verbatim>\<open>set\<close> or \<^verbatim>\<open>clearOverrides\<close>; and after \<^verbatim>\<open>clearOverrides()\<close>,
  \<^verbatim>\<open>get(K)\<close> returns the value \<open>x\<close> that was loaded for \<open>K\<close>.
\<close>

theorem override_roundtrip:
  "ConfigManager_get (ConfigManager_set this K v) K = Inr v \<and>
   config (ConfigManager_set this K v) = config this \<and>
   config (clearOverrides (ConfigManager_set this K v)) = config this \<and>
   (property (environment (config this)) K = Some x \<longrightarrow>
      ConfigManager_get (clearOverrides (ConfigManager_set this K v)) K = Inr x)"
  by (simp add: ConfigManager_get_def ConfigManager_set_def clearOverrides_def)

theorem override_roundtrip_witness:
  "property (environment (config default_manager)) ''TIMEOUT'' = Some (Num (Fin 30000)) \<and>
   ConfigManager_get (ConfigManager_set default_manager ''TIMEOUT'' (Num (Fin 5))) ''TIMEOUT''
     = Inr (Num (Fin 5)) \<and>
   ConfigManager_get (clearOverrides (ConfigManager_set default_manager ''TIMEOUT'' (Num (Fin 5))))
     ''TIMEOUT'' = Inr (Num (Fin 30000))"
proof -
  have h: "property (environment (config default_manager)) ''TIMEOUT'' = Some (Num (Fin 30000))"
    by (simp add: property_def default_manager_def default_environment_def)
  from h override_roundtrip[of default_manager "''TIMEOUT''" "Num (Fin 5)" "Num (Fin 30000)"]
  show ?thesis by simp
qed

section \<open>Properties of the availability probe\<close>




text \<open>
  A timer measured one millisecond short at every sleep: the loop condition is tested at
  0, 49, 98, 147 and 196 milliseconds, and the check is called five times.
\<close>

lemma five_polls_when_the_timer_is_early:
  "waitForEndpoint always_503 early_timer 0 200 50 = Some (False, 5)"
  by (simp add: waitForEndpoint_def poll.simps always_503_def early_timer_def available_def)

text \<open>
  Without a lower bound on the advance of the clock the number of calls is not bounded
  by five: when every sleep is measured as 30 milliseconds the loop condition is tested
  at 0, 30, ..., 180 and 210 milliseconds, and the check is called seven times.
\<close>

lemma seven_polls_when_the_clock_is_set_back:
  "waitForEndpoint always_503 clock_set_back 0 200 50 = Some (False, 7)"
  by (simp add: waitForEndpoint_def poll.simps always_503_def clock_set_back_def available_def)




section \<open>Properties of the validators\<close>

lemma validateEnvironment_missing:
  assumes "filter (\<lambda>envVar. \<not> truthy (env s envVar)) requiredEnvVars \<noteq> []"
  shows "fst (validateEnvironment sys s) =
     Inl (Error (''Missing required environment variables: '' @
                 join '', '' (filter (\<lambda>envVar. \<not> truthy (env s envVar)) requiredEnvVars)) None)"
  using assms
  by (simp add: validateEnvironment_def seq_def bnd_def logger_def process_env_def throw_def Let_def)

lemma validateEnvironment_first_url:
  assumes "filter (\<lambda>envVar. \<not> truthy (env s envVar)) requiredEnvVars = []"
    and "env s ''BASE_URL'' = Some url" and "\<not> isValidUrl sys url"
  shows "fst (validateEnvironment sys s) =
     Inl (Error (''Invalid URL format for BASE_URL: '' @ url) None)"
proof -
  from assms(1) have "truthy (env s ''BASE_URL'')"
    by (auto simp: requiredEnvVars_def split: if_splits)
  with assms(2) have "url \<noteq> []" by (simp add: truthy_def)
  with assms show ?thesis
    by (simp add: validateEnvironment_def seq_def bnd_def logger_def process_env_def throw_def Let_def)
qed

lemma decimal_1000: "decimal 1000 = ''1000''"
  by code_simp

lemma decimal_minimums: "decimal (Suc 0) = ''1''" "decimal 320 = ''320''" "decimal 240 = ''240''"
  by code_simp+

lemma fst_seq:
  "fst (seq m n s) = (case fst (m s) of Inl e \<Rightarrow> Inl e | Inr x \<Rightarrow> fst (n (snd (m s))))"
  by (simp add: seq_def bnd_def split: prod.splits sum.splits)

lemma fst_seq_logger_env:
  "fst (seq (logger l m d) (bnd process_env F) s) = fst (F (env s) (snd (logger l m d s)))"
  by (simp add: seq_def bnd_def logger_def process_env_def)

text \<open>A loop whose body throws for some elements and does nothing else ends at the first of them.\<close>

lemma for_each_first_error:
  assumes "\<And>x s. fst (body x s) = (case err x of Some msg \<Rightarrow> Inl (Error msg None) | None \<Rightarrow> Inr ())"
  shows "fst (for_each xs body s) =
     (case List.map_filter err xs of msg # _ \<Rightarrow> Inl (Error msg None) | [] \<Rightarrow> Inr ())"
proof (induction xs arbitrary: s)
  case Nil
  then show ?case by (simp add: ret_def map_filter_simps)
next
  case (Cons x xs)
  show ?case
  proof (cases "err x")
    case None
    with assms[of x s] Cons show ?thesis by (simp add: fst_seq map_filter_simps)
  next
    case (Some msg)
    with assms[of x s] show ?thesis by (simp add: fst_seq map_filter_simps)
  qed
qed

lemma validateEnvironment_first_violation:
  "fst (validateEnvironment sys s) = first_violation sys (env s)"
proof (cases "filter (\<lambda>envVar. \<not> truthy (env s envVar)) requiredEnvVars")
  case (Cons m ms)
  then show ?thesis
    by (simp add: validateEnvironment_def first_violation_def seq_def bnd_def logger_def
        process_env_def throw_def Let_def)
next
  case Nil
  have urls: "fst ((case env s name of
              Some url \<Rightarrow>
                if url \<noteq> [] \<and> \<not> isValidUrl sys url then
                  seq (logger LError (''Invalid URL format for '' @ name @ '': '' @ url) None)
                      (throw (Error (''Invalid URL format for '' @ name @ '': '' @ url) None))
                else ret ()
            | None \<Rightarrow> ret ()) t) =
          (case url_error sys (env s) name of Some msg \<Rightarrow> Inl (Error msg None) | None \<Rightarrow> Inr ())"
    for name and t :: "'a node"
    by (simp add: url_error_def io_defs logger_def split: option.splits)
  have nums: "fst ((case x of (name, minv) \<Rightarrow>
            case env s name of
              Some v \<Rightarrow>
                if v \<noteq> [] then
                   if isNaN (parseInt v) \<or> js_lt (parseInt v) (Fin (of_nat minv)) then
                     seq (logger LError (''Invalid '' @ name @ '' value: '' @ v
                            @ '' (minimum: '' @ decimal minv @ '')'') None)
                         (throw (Error (''Invalid '' @ name @ '' value: '' @ v
                            @ '' (minimum: '' @ decimal minv @ '')'') None))
                   else ret ()
                else ret ()
            | None \<Rightarrow> ret ()) t) =
          (case numeric_error (env s) x of Some msg \<Rightarrow> Inl (Error msg None) | None \<Rightarrow> Inr ())"
    for x and t :: "'a node"
    by (cases x) (simp add: numeric_error_def io_defs logger_def split: option.splits)
  have "fst (validateEnvironment sys s) =
     (case List.map_filter (url_error sys (env s)) [''BASE_URL'', ''API_BASE_URL''] of
        msg # _ \<Rightarrow> Inl (Error msg None)
      | [] \<Rightarrow>
         (case List.map_filter (numeric_error (env s)) numericVars of
            msg # _ \<Rightarrow> Inl (Error msg None)
          | [] \<Rightarrow> Inr ()))"
    unfolding validateEnvironment_def Let_def
    apply (simp only: fst_seq_logger_env Nil list.size less_nat_zero_code if_False)
    apply (simp only: block.simps fst_seq)
    apply (simp only: for_each_first_error[where err = "url_error sys (env s)", OF urls]
        for_each_first_error[where err = "numeric_error (env s)", OF nums])
    apply (simp only: logger_def ret_def fst_conv snd_conv sum.case split: list.splits)
    apply (simp split: list.splits)
    done
  with Nil show ?thesis by (simp add: first_violation_def)
qed

lemma validateEnvironment_first_numeric:
  assumes "filter (\<lambda>envVar. \<not> truthy (env s envVar)) requiredEnvVars = []"
    and "env s ''BASE_URL'' = Some url" and "isValidUrl sys url"
    and "env s ''API_BASE_URL'' = Some api_url" and "isValidUrl sys api_url"
    and "env s ''TIMEOUT'' = Some v" and "v \<noteq> []"
    and "isNaN (parseInt v) \<or> js_lt (parseInt v) (Fin 1000)"
  shows "fst (validateEnvironment sys s) =
     Inl (Error (''Invalid TIMEOUT value: '' @ v @ '' (minimum: 1000)'') None)"
  using assms
  by (simp add: validateEnvironment_def numericVars_def decimal_1000 seq_def bnd_def logger_def
      process_env_def throw_def ret_def Let_def)

lemma missing_messages_distinct:
  "distinct (map (\<lambda>envVar. ''Missing required environment variable: '' @ envVar)
     (filter P requiredVars))"
proof -
  have "distinct (filter P requiredVars)" by (simp add: requiredVars_def)
  moreover have "inj_on (\<lambda>envVar. ''Missing required environment variable: '' @ envVar) A" for A
    by (rule inj_onI) simp
  ultimately show ?thesis by (simp add: distinct_map)
qed

lemma filter_missing_messages:
  "filter missing_key_message
     (map (\<lambda>envVar. ''Missing required environment variable: '' @ envVar) vs) =
   map (\<lambda>envVar. ''Missing required environment variable: '' @ envVar) vs"
  by (induction vs) (simp_all add: missing_key_message_def)

lemma configuration_errors_missing:
  "filter missing_key_message (configuration_errors validUrl cfg) =
   map (\<lambda>envVar. ''Missing required environment variable: '' @ envVar)
     (filter (\<lambda>envVar. \<not> js_truthy (property (environment cfg) envVar)) requiredVars)"
  by (simp add: configuration_errors_def Let_def filter_missing_messages
      missing_key_message_def split: option.splits)

lemma invalid_base_url_collected:
  assumes "BASE_URL (environment cfg) = Some u" and "u \<noteq> []" and "\<not> validUrl u"
  shows "(''Invalid BASE_URL: '' @ u) \<in> set (configuration_errors validUrl cfg)"
  unfolding configuration_errors_def Let_def
  by (simp only: assms option.case if_True simp_thms set_append Un_iff list.set insert_iff)

lemma invalid_api_base_url_collected:
  assumes "API_BASE_URL (environment cfg) = Some u" and "u \<noteq> []" and "\<not> validUrl u"
  shows "(''Invalid API_BASE_URL: '' @ u) \<in> set (configuration_errors validUrl cfg)"
  unfolding configuration_errors_def Let_def
  by (simp only: assms option.case if_True simp_thms set_append Un_iff list.set insert_iff)

lemma low_workers_collected:
  assumes "WORKERS (environment cfg) = Some w" and "num_truthy w" and "js_lt w (Fin 1)"
  shows "''WORKERS must be at least 1'' \<in> set (configuration_errors validUrl cfg)"
  unfolding configuration_errors_def Let_def
  by (simp only: assms option.case if_True simp_thms set_append Un_iff list.set insert_iff)

lemma small_viewport_collected:
  assumes "js_lt (viewport_width cfg) (Fin 320) \<or> js_lt (viewport_height cfg) (Fin 240)"
  shows "''Viewport dimensions must be at least 320x240'' \<in> set (configuration_errors validUrl cfg)"
  unfolding configuration_errors_def Let_def
  by (simp only: assms if_True simp_thms set_append Un_iff list.set insert_iff)

lemma low_timeout_collected:
  assumes "TIMEOUT (environment cfg) = Some t" and "num_truthy t" and "js_lt t (Fin 1000)"
  shows "''TIMEOUT must be at least 1000ms'' \<in> set (configuration_errors validUrl cfg)"
  unfolding configuration_errors_def Let_def
  by (simp only: assms option.case if_True simp_thms set_append Un_iff list.set insert_iff)

text \<open>
  C4, as amended. \<^verbatim>\<open>validateEnvironment\<close> reports one thing, \<open>first_violation\<close>: every
  missing required key, together in one error whose message names each of them in
  order; or else, since the URL and numeric checks are reached only when no key is
  missing, the first of \<^verbatim>\<open>BASE_URL\<close> and \<^verbatim>\<open>API_BASE_URL\<close> that is not a valid URL; or
  else the first of \<^verbatim>\<open>TIMEOUT\<close>, \<^verbatim>\<open>API_TIMEOUT\<close>, \<^verbatim>\<open>WORKERS\<close>, \<^verbatim>\<open>VIEWPORT_WIDTH\<close> and
  \<^verbatim>\<open>VIEWPORT_HEIGHT\<close> whose value is set, not empty, and read by \<^verbatim>\<open>parseInt\<close> as
  \<^verbatim>\<open>NaN\<close> or as a number below its minimum, with a message for that value alone; and
  it returns normally when there is none of these.
  \<^verbatim>\<open>ConfigManager.validateConfiguration\<close> is the validator that accumulates: among its
  messages there is exactly one for each missing required key, all distinct, next to
  the messages for an invalid \<^verbatim>\<open>BASE_URL\<close>, an invalid \<^verbatim>\<open>API_BASE_URL\<close>, a \<^verbatim>\<open>TIMEOUT\<close>
  found below 1000, a \<^verbatim>\<open>WORKERS\<close> found below 1 and a viewport below 320x240; it
  throws once, with all of them, and returns normally when there is no message.
\<close>

theorem validators_report:
  "fst (validateEnvironment sys s) = first_violation sys (env s) \<and>
   (filter (\<lambda>envVar. \<not> truthy (env s envVar)) requiredEnvVars \<noteq> [] \<longrightarrow>
      fst (validateEnvironment sys s) =
        Inl (Error (''Missing required environment variables: '' @
               join '', '' (filter (\<lambda>envVar. \<not> truthy (env s envVar)) requiredEnvVars)) None)) \<and>
   (filter (\<lambda>envVar. \<not> truthy (env s envVar)) requiredEnvVars = [] \<and>
    env s ''BASE_URL'' = Some url \<and> \<not> isValidUrl sys url \<longrightarrow>
      fst (validateEnvironment sys s) =
        Inl (Error (''Invalid URL format for BASE_URL: '' @ url) None)) \<and>
   (filter (\<lambda>envVar. \<not> truthy (env s envVar)) requiredEnvVars = [] \<and>
    env s ''BASE_URL'' = Some url \<and> isValidUrl sys url \<and>
    env s ''API_BASE_URL'' = Some api_url \<and> isValidUrl sys api_url \<and>
    env s ''TIMEOUT'' = Some v \<and> v \<noteq> [] \<and>
    (isNaN (parseInt v) \<or> js_lt (parseInt v) (Fin 1000)) \<longrightarrow>
      fst (validateEnvironment sys s) =
        Inl (Error (''Invalid TIMEOUT value: '' @ v @ '' (minimum: 1000)'') None)) \<and>
   filter missing_key_message (configuration_errors validUrl cfg) =
     map (\<lambda>envVar. ''Missing required environment variable: '' @ envVar)
       (filter (\<lambda>envVar. \<not> js_truthy (property (environment cfg) envVar)) requiredVars) \<and>
   length (filter missing_key_message (configuration_errors validUrl cfg)) =
     length (filter (\<lambda>envVar. \<not> js_truthy (property (environment cfg) envVar)) requiredVars) \<and>
   distinct (filter missing_key_message (configuration_errors validUrl cfg)) \<and>
   (BASE_URL (environment cfg) = Some u \<and> u \<noteq> [] \<and> \<not> validUrl u \<longrightarrow>
      (''Invalid BASE_URL: '' @ u) \<in> set (configuration_errors validUrl cfg)) \<and>
   (API_BASE_URL (environment cfg) = Some a \<and> a \<noteq> [] \<and> \<not> validUrl a \<longrightarrow>
      (''Invalid API_BASE_URL: '' @ a) \<in> set (configuration_errors validUrl cfg)) \<and>
   (TIMEOUT (environment cfg) = Some t \<and> num_truthy t \<and> js_lt t (Fin 1000) \<longrightarrow>
      ''TIMEOUT must be at least 1000ms'' \<in> set (configuration_errors validUrl cfg)) \<and>
   (WORKERS (environment cfg) = Some w \<and> num_truthy w \<and> js_lt w (Fin 1) \<longrightarrow>
      ''WORKERS must be at least 1'' \<in> set (configuration_errors validUrl cfg)) \<and>
   (js_lt (viewport_width cfg) (Fin 320) \<or> js_lt (viewport_height cfg) (Fin 240) \<longrightarrow>
      ''Viewport dimensions must be at least 320x240'' \<in> set (configuration_errors validUrl cfg)) \<and>
   (configuration_errors validUrl cfg \<noteq> [] \<longrightarrow>
      validateConfiguration validUrl cfg =
        Inl (Error (''Configuration validation failed:'' @ [CHR 0x0A] @
               join [CHR 0x0A] (configuration_errors validUrl cfg)) None)) \<and>
   (configuration_errors validUrl cfg = [] \<longrightarrow> validateConfiguration validUrl cfg = Inr ())"
proof (intro conjI impI)
  show "fst (validateEnvironment sys s) = first_violation sys (env s)"
    by (rule validateEnvironment_first_violation)
  show "fst (validateEnvironment sys s) =
        Inl (Error (''Missing required environment variables: '' @
               join '', '' (filter (\<lambda>envVar. \<not> truthy (env s envVar)) requiredEnvVars)) None)"
    if "filter (\<lambda>envVar. \<not> truthy (env s envVar)) requiredEnvVars \<noteq> []"
    using that by (rule validateEnvironment_missing)
  show "fst (validateEnvironment sys s) =
        Inl (Error (''Invalid URL format for BASE_URL: '' @ url) None)"
    if "filter (\<lambda>envVar. \<not> truthy (env s envVar)) requiredEnvVars = [] \<and>
        env s ''BASE_URL'' = Some url \<and> \<not> isValidUrl sys url"
    using that validateEnvironment_first_url by blast
  show "fst (validateEnvironment sys s) =
        Inl (Error (''Invalid TIMEOUT value: '' @ v @ '' (minimum: 1000)'') None)"
    if "filter (\<lambda>envVar. \<not> truthy (env s envVar)) requiredEnvVars = [] \<and>
        env s ''BASE_URL'' = Some url \<and> isValidUrl sys url \<and>
        env s ''API_BASE_URL'' = Some api_url \<and> isValidUrl sys api_url \<and>
        env s ''TIMEOUT'' = Some v \<and> v \<noteq> [] \<and>
        (isNaN (parseInt v) \<or> js_lt (parseInt v) (Fin 1000))"
    using that validateEnvironment_first_numeric[of s url sys api_url v] by blast
  show "filter missing_key_message (configuration_errors validUrl cfg) =
     map (\<lambda>envVar. ''Missing required environment variable: '' @ envVar)
       (filter (\<lambda>envVar. \<not> js_truthy (property (environment cfg) envVar)) requiredVars)"
    by (rule configuration_errors_missing)
  show "length (filter missing_key_message (configuration_errors validUrl cfg)) =
     length (filter (\<lambda>envVar. \<not> js_truthy (property (environment cfg) envVar)) requiredVars)"
    unfolding configuration_errors_missing by (rule length_map)
  show "distinct (filter missing_key_message (configuration_errors validUrl cfg))"
    unfolding configuration_errors_missing by (rule missing_messages_distinct)
  show "(''Invalid BASE_URL: '' @ u) \<in> set (configuration_errors validUrl cfg)"
    if "BASE_URL (environment cfg) = Some u \<and> u \<noteq> [] \<and> \<not> validUrl u"
    using that invalid_base_url_collected by blast
  show "(''Invalid API_BASE_URL: '' @ a) \<in> set (configuration_errors validUrl cfg)"
    if "API_BASE_URL (environment cfg) = Some a \<and> a \<noteq> [] \<and> \<not> validUrl a"
    using that invalid_api_base_url_collected by blast
  show "''TIMEOUT must be at least 1000ms'' \<in> set (configuration_errors validUrl cfg)"
    if "TIMEOUT (environment cfg) = Some t \<and> num_truthy t \<and> js_lt t (Fin 1000)"
    using that low_timeout_collected by blast
  show "''WORKERS must be at least 1'' \<in> set (configuration_errors validUrl cfg)"
    if "WORKERS (environment cfg) = Some w \<and> num_truthy w \<and> js_lt w (Fin 1)"
    using that low_workers_collected by blast
  show "''Viewport dimensions must be at least 320x240'' \<in> set (configuration_errors validUrl cfg)"
    if "js_lt (viewport_width cfg) (Fin 320) \<or> js_lt (viewport_height cfg) (Fin 240)"
    using that by (rule small_viewport_collected)
  show "validateConfiguration validUrl cfg =
        Inl (Error (''Configuration validation failed:'' @ [CHR 0x0A] @
               join [CHR 0x0A] (configuration_errors validUrl cfg)) None)"
    if "configuration_errors validUrl cfg \<noteq> []"
    using that by (simp add: validateConfiguration_def Let_def)
  show "validateConfiguration validUrl cfg = Inr ()"
    if "configuration_errors validUrl cfg = []"
    using that by (simp add: validateConfiguration_def Let_def)
qed

lemma parseInt_5: "parseInt ''5'' = Fin 5"
  by (simp add: parseInt_def trimStart_stop space_length_def white_space_def is_digit_in_def
      digit_val_def digits_value_def Let_def)

lemma validateEnvironment_timeout5:
  "fst (validateEnvironment sys_ok node_required_timeout5) =
     Inl (Error ''Invalid TIMEOUT value: 5 (minimum: 1000)'' None)"
  by (simp add: validateEnvironment_def node_required_timeout5_def node0_def sys_ok_def
      requiredEnvVars_def numericVars_def truthy_def parseInt_5 decimal_1000 isNaN_def
      seq_def bnd_def logger_def process_env_def throw_def ret_def Let_def)

lemma missing_at_timeout5:
  "filter (\<lambda>envVar. \<not> truthy (env node_timeout5 envVar)) requiredEnvVars =
     [''BASE_URL'', ''API_BASE_URL'', ''USERNAME'', ''PASSWORD'']"
  by (simp add: node_timeout5_def node0_def requiredEnvVars_def truthy_def)

text \<open>
  C4 as stated fails for \<^verbatim>\<open>validateEnvironment\<close>. With \<^verbatim>\<open>TIMEOUT=5\<close> and no required
  variable set there are five violations, four missing keys and a timeout below 1000;
  the function throws one message for the four keys, which does not mention the
  timeout. That the timeout is a violation shows once the four keys are set.
\<close>

theorem validators_report_counterexample:
  "fst (validateEnvironment sys_ok node_timeout5) =
     Inl (Error ''Missing required environment variables: BASE_URL, API_BASE_URL, USERNAME, PASSWORD''
            None) \<and>
   \<not> str_includes
       ''Missing required environment variables: BASE_URL, API_BASE_URL, USERNAME, PASSWORD''
       ''TIMEOUT'' \<and>
   fst (validateEnvironment sys_ok node_required_timeout5) =
     Inl (Error ''Invalid TIMEOUT value: 5 (minimum: 1000)'' None)"
proof (intro conjI)
  show "fst (validateEnvironment sys_ok node_timeout5) =
     Inl (Error ''Missing required environment variables: BASE_URL, API_BASE_URL, USERNAME, PASSWORD''
            None)"
    using validateEnvironment_missing[of node_timeout5 sys_ok]
    by (simp add: missing_at_timeout5)
  show "\<not> str_includes
       ''Missing required environment variables: BASE_URL, API_BASE_URL, USERNAME, PASSWORD''
       ''TIMEOUT''"
    by simp
  show "fst (validateEnvironment sys_ok node_required_timeout5) =
     Inl (Error ''Invalid TIMEOUT value: 5 (minimum: 1000)'' None)"
    by (rule validateEnvironment_timeout5)
qed

lemma bad_config_errors:
  "configuration_errors no_localhost bad_config =
     [''Missing required environment variable: USERNAME'',
      ''Missing required environment variable: PASSWORD'',
      ''Invalid BASE_URL: localhost'',
      ''Invalid API_BASE_URL: localhost'',
      ''TIMEOUT must be at least 1000ms'',
      ''WORKERS must be at least 1'',
      ''Viewport dimensions must be at least 320x240'']"
  by (simp add: configuration_errors_def bad_config_def default_environment_def requiredVars_def
      property_def js_truthy_def num_truthy_def no_localhost_def Let_def)

lemma default_config_errors: "configuration_errors (\<lambda>url. True) (config default_manager) = []"
  by (simp add: configuration_errors_def default_manager_def default_environment_def
      requiredVars_def property_def js_truthy_def num_truthy_def Let_def)

lemma parseInt_30000: "parseInt ''30000'' = Fin 30000"
  by (simp add: parseInt_def trimStart_stop space_length_def white_space_def is_digit_in_def
      digit_val_def digits_value_def Let_def)

lemma parseInt_0: "parseInt ''0'' = Fin 0"
  by (simp add: parseInt_def trimStart_stop space_length_def white_space_def is_digit_in_def
      digit_val_def digits_value_def Let_def)

lemma first_violation_workers0:
  "first_violation sys_ok (env node_workers0) =
     Inl (Error ''Invalid WORKERS value: 0 (minimum: 1)'' None)"
  by (simp add: first_violation_def node_workers0_def node0_def sys_ok_def requiredEnvVars_def
      truthy_def url_error_def numeric_error_def numericVars_def map_filter_simps
      parseInt_30000 parseInt_0 isNaN_def decimal_1000 decimal_minimums)

text \<open>A timeout of 2000 written after a no-break space is read as 2000 and passes.\<close>

lemma validateEnvironment_timeout_after_space:
  "fst (validateEnvironment sys_ok node_timeout_after_space) = Inr ()"
  unfolding validateEnvironment_first_violation
  using parseInt_after_no_break_space
  by (simp add: first_violation_def node_timeout_after_space_def node0_def sys_ok_def
      requiredEnvVars_def truthy_def url_error_def numeric_error_def numericVars_def
      map_filter_simps isNaN_def)

theorem validators_report_witness:
  "fst (validateEnvironment sys_ok node_timeout5) =
     Inl (Error ''Missing required environment variables: BASE_URL, API_BASE_URL, USERNAME, PASSWORD''
            None) \<and>
   fst (validateEnvironment sys_no_localhost node_localhost) =
     Inl (Error ''Invalid URL format for BASE_URL: localhost'' None) \<and>
   fst (validateEnvironment sys_ok node_required_timeout5) =
     Inl (Error ''Invalid TIMEOUT value: 5 (minimum: 1000)'' None) \<and>
   fst (validateEnvironment sys_ok node_workers0) =
     Inl (Error ''Invalid WORKERS value: 0 (minimum: 1)'' None) \<and>
   filter missing_key_message (configuration_errors no_localhost bad_config) =
     [''Missing required environment variable: USERNAME'',
      ''Missing required environment variable: PASSWORD''] \<and>
   ''Invalid BASE_URL: localhost'' \<in> set (configuration_errors no_localhost bad_config) \<and>
   ''Invalid API_BASE_URL: localhost'' \<in> set (configuration_errors no_localhost bad_config) \<and>
   ''TIMEOUT must be at least 1000ms'' \<in> set (configuration_errors no_localhost bad_config) \<and>
   ''WORKERS must be at least 1'' \<in> set (configuration_errors no_localhost bad_config) \<and>
   ''Viewport dimensions must be at least 320x240'' \<in>
     set (configuration_errors no_localhost bad_config) \<and>
   validateConfiguration no_localhost bad_config =
     Inl (Error (''Configuration validation failed:'' @ [CHR 0x0A] @
            join [CHR 0x0A] (configuration_errors no_localhost bad_config)) None) \<and>
   validateConfiguration (\<lambda>url. True) (config default_manager) = Inr ()"
proof -
  have m1: "filter (\<lambda>envVar. \<not> truthy (env node_timeout5 envVar)) requiredEnvVars \<noteq> []"
    by (simp add: missing_at_timeout5)
  have m2: "filter (\<lambda>envVar. \<not> truthy (env node_localhost envVar)) requiredEnvVars = []"
    by (simp add: node_localhost_def node0_def requiredEnvVars_def truthy_def)
  have u1: "env node_localhost ''BASE_URL'' = Some ''localhost''"
    by (simp add: node_localhost_def node0_def)
  have u2: "\<not> isValidUrl sys_no_localhost ''localhost''"
    by (simp add: sys_no_localhost_def no_localhost_def)
  have b1: "BASE_URL (environment bad_config) = Some ''localhost''"
    and b2: "\<not> no_localhost ''localhost''"
    and b3: "TIMEOUT (environment bad_config) = Some (Fin 5)"
    and b4: "num_truthy (Fin 5)" and b5: "js_lt (Fin 5) (Fin 1000)"
    and b7: "API_BASE_URL (environment bad_config) = Some ''localhost''"
    and b8: "WORKERS (environment bad_config) = Some (Fin (- 1))"
    and b9: "num_truthy (Fin (- 1))" and b10: "js_lt (Fin (- 1)) (Fin 1)"
    and b11: "js_lt (viewport_width bad_config) (Fin 320)"
    by (simp_all add: bad_config_def no_localhost_def num_truthy_def)
  have b6: "configuration_errors no_localhost bad_config \<noteq> []"
    by (simp add: bad_config_errors)
  note first = validators_report[where s = node_timeout5 and sys = sys_ok
      and validUrl = no_localhost and cfg = bad_config and u = "''localhost''"
      and a = "''localhost''" and t = "Fin 5" and w = "Fin (- 1)", THEN conjunct2]
  note second = validators_report[where s = node_localhost and sys = sys_no_localhost
      and url = "''localhost''", THEN conjunct2]
  note third = validators_report[where s = node_required_timeout5 and sys = sys_ok
      and url = "''https://opensource-demo.orangehrmlive.com''"
      and api_url = "''https://opensource-demo.orangehrmlive.com/web/api/v1''" and v = "''5''",
      THEN conjunct2]
  note fourth = validators_report[where s = node_workers0 and sys = sys_ok
      and validUrl = "\<lambda>url. True" and cfg = "config default_manager"]
  have n1: "filter (\<lambda>envVar. \<not> truthy (env node_required_timeout5 envVar)) requiredEnvVars = []"
    by (simp add: node_required_timeout5_def node0_def requiredEnvVars_def truthy_def)
  have n2: "env node_required_timeout5 ''BASE_URL'' = Some ''https://opensource-demo.orangehrmlive.com''"
    and n3: "env node_required_timeout5 ''API_BASE_URL'' =
             Some ''https://opensource-demo.orangehrmlive.com/web/api/v1''"
    and n4: "env node_required_timeout5 ''TIMEOUT'' = Some ''5''"
    by (simp_all add: node_required_timeout5_def node0_def)
  have n5: "isValidUrl sys_ok u" for u by (simp add: sys_ok_def)
  have n6: "isNaN (parseInt ''5'') \<or> js_lt (parseInt ''5'') (Fin 1000)"
    by (simp add: parseInt_5)
  have c1: "fst (validateEnvironment sys_ok node_timeout5) =
     Inl (Error ''Missing required environment variables: BASE_URL, API_BASE_URL, USERNAME, PASSWORD''
            None)"
    using first m1 by (simp add: missing_at_timeout5)
  have c2: "fst (validateEnvironment sys_no_localhost node_localhost) =
     Inl (Error ''Invalid URL format for BASE_URL: localhost'' None)"
    using second m2 u1 u2 by simp
  have c3: "fst (validateEnvironment sys_ok node_required_timeout5) =
     Inl (Error ''Invalid TIMEOUT value: 5 (minimum: 1000)'' None)"
    using third n1 n2 n3 n4 n5 n6 by simp
  have c4: "fst (validateEnvironment sys_ok node_workers0) =
     Inl (Error ''Invalid WORKERS value: 0 (minimum: 1)'' None)"
    using fourth[THEN conjunct1] by (simp only: first_violation_workers0)
  have c5: "filter missing_key_message (configuration_errors no_localhost bad_config) =
     [''Missing required environment variable: USERNAME'',
      ''Missing required environment variable: PASSWORD'']"
    by (simp add: bad_config_errors missing_key_message_def)
  have c6: "''Invalid BASE_URL: localhost'' \<in> set (configuration_errors no_localhost bad_config)"
    using first b1 b2 by simp
  have c7: "''Invalid API_BASE_URL: localhost'' \<in> set (configuration_errors no_localhost bad_config)"
    using first b7 b2 by simp
  have c8: "''TIMEOUT must be at least 1000ms'' \<in> set (configuration_errors no_localhost bad_config)"
    using first b3 b4 b5 by simp
  have c9: "''WORKERS must be at least 1'' \<in> set (configuration_errors no_localhost bad_config)"
    using first b8 b9 b10 by simp
  have c10: "''Viewport dimensions must be at least 320x240'' \<in>
     set (configuration_errors no_localhost bad_config)"
    using first b11 by simp
  have c11: "validateConfiguration no_localhost bad_config =
     Inl (Error (''Configuration validation failed:'' @ [CHR 0x0A] @
            join [CHR 0x0A] (configuration_errors no_localhost bad_config)) None)"
    using first b6 by simp
  have c12: "validateConfiguration (\<lambda>url. True) (config default_manager) = Inr ()"
    using fourth[THEN conjunct2] default_config_errors by simp
  from c1 c2 c3 c4 c5 c6 c7 c8 c9 c10 c11 c12 show ?thesis by (intro conjI)
qed

end
